theory Spec2Isabelle
  imports Complex_Main "HOL-Library.AList" "HOL-Library.Sublist"
begin

unbundle bit_operations_syntax

section \<open>The notebook classification\_adult.ipynb as a state-passing program\<close>

text \<open>
  The repository is one Jupyter notebook, \<^verbatim>\<open>examples/classification/classification_adult.ipynb\<close>.
  Its code cells are embedded one by one, in the order of the file, as functions from the
  notebook's global namespace to a result: either an exception or the updated namespace,
  together with the list of library calls the cell made.

  What the notebook does itself (list comprehensions, the dictionary of feature
  properties, the \<^verbatim>\<open>assert\<close>, column assignments, the mean absolute deviation, the loop
  of \<^verbatim>\<open>plot_CB\<close>) is written out.  What imported packages compute (fetching the data,
  fitting the ordinal encoder, building and fitting the estimator, plotting) is not in the
  repository: these functions are fields of the record \<open>ext\<close>, about which nothing is
  assumed, and each may raise.

  Conventions of the model:
  \<^item> floating point numbers are exact rationals, with one extra value \<open>NaN\<close>;
  \<^item> column labels of a data frame are taken to be distinct, and every index is the
    default \<^verbatim>\<open>RangeIndex\<close>, as for the frame OpenML delivers;
  \<^item> library functions do not mutate the frames and arrays passed to them
    (\<^verbatim>\<open>fit\<close> returns the fitted estimator, which replaces the old one);
  \<^item> what a cell displays or prints is not part of the state.
\<close>

subsection \<open>Values: cells, frames, arrays\<close>

datatype cell = Str string | Num rat | NaN

fun is_Str :: "cell \<Rightarrow> bool" where
  "is_Str (Str _) = True"
| "is_Str _ = False"

record dataframe =
  nrows :: nat
  cols :: "(string \<times> cell list) list"

record ndarray2 =
  shape0 :: nat
  shape1 :: nat
  item :: "nat \<Rightarrow> nat \<Rightarrow> cell"

record 'o bunch =
  bdata :: 'o
  feature_names :: "string list"
  target :: "cell list"

subsection \<open>Exceptions, library calls, results\<close>

datatype exn =
  ImportError | ModuleNotFoundError | KeyError | ValueError | IndexError | TypeError
  | OtherException string

datatype error = NameError string | AssertionError string | LibError exn

text \<open>The call sites of the notebook that enter an imported package, in file order.\<close>

datatype callee =
  Jupyter_black_load
  | Fetch_openml | Pd_DataFrame
  | Series_eq | Series_mul
  | OrdinalEncoder_new | Enc_fit_transform | Np_asarray | Df_drop
  | PlottingObserver_new | SmootherChoiceGroupBy_new | Pipeline_CBClassifier
  | X_copy_fit | Est_fit
  | X_copy_predict | Est_predict_proba
  | Np_abs | Np_nanmean
  | Est_score
  | Plot_analysis
  | Hist_positive | Hist_zero

datatype package =
  Jupyter_black | Sklearn_datasets | Pandas | Numpy | Sklearn_preprocessing | Cyclic_boosting

text \<open>
  The package a call site enters, read off the import statements.  The estimator's methods
  \<^verbatim>\<open>fit\<close>, \<^verbatim>\<open>predict_proba\<close> and \<^verbatim>\<open>score\<close> are counted with cyclic-boosting, whose pipeline
  constructor returns the estimator.
\<close>

fun package_of :: "callee \<Rightarrow> package" where
  "package_of Jupyter_black_load = Jupyter_black"
| "package_of Fetch_openml = Sklearn_datasets"
| "package_of Pd_DataFrame = Pandas"
| "package_of Series_eq = Pandas"
| "package_of Series_mul = Pandas"
| "package_of OrdinalEncoder_new = Sklearn_preprocessing"
| "package_of Enc_fit_transform = Sklearn_preprocessing"
| "package_of Np_asarray = Numpy"
| "package_of Df_drop = Pandas"
| "package_of PlottingObserver_new = Cyclic_boosting"
| "package_of SmootherChoiceGroupBy_new = Cyclic_boosting"
| "package_of Pipeline_CBClassifier = Cyclic_boosting"
| "package_of X_copy_fit = Pandas"
| "package_of Est_fit = Cyclic_boosting"
| "package_of X_copy_predict = Pandas"
| "package_of Est_predict_proba = Cyclic_boosting"
| "package_of Np_abs = Numpy"
| "package_of Np_nanmean = Numpy"
| "package_of Est_score = Cyclic_boosting"
| "package_of Plot_analysis = Cyclic_boosting"
| "package_of Hist_positive = Pandas"
| "package_of Hist_zero = Pandas"

text \<open>
  A result: the calls made so far, and an exception or a value.  \<open>bind\<close> is sequencing of
  statements: an exception skips the rest, as nothing catches it.
\<close>

type_synonym 'a res = "callee list \<times> (error + 'a)"

definition ret :: "'a \<Rightarrow> 'a res" where
  "ret x = ([], Inr x)"

definition raise :: "error \<Rightarrow> 'a res" where
  "raise e = ([], Inl e)"

definition bind :: "'a res \<Rightarrow> ('a \<Rightarrow> 'b res) \<Rightarrow> 'b res" where
  "bind m f =
     (case m of
        (t, Inl e) \<Rightarrow> (t, Inl e)
      | (t, Inr x) \<Rightarrow> (case f x of (t', r) \<Rightarrow> (t @ t', r)))"

text \<open>A call into a package at call site \<open>c\<close>: logged, and its exception propagates.\<close>

definition call :: "callee \<Rightarrow> exn + 'a \<Rightarrow> 'a res" where
  "call c r = ([c], case r of Inl x \<Rightarrow> Inl (LibError x) | Inr v \<Rightarrow> Inr v)"

text \<open>An operator or subscript evaluated by a package (no call in the source text).\<close>

definition lib :: "exn + 'a \<Rightarrow> 'a res" where
  "lib r = ([], case r of Inl x \<Rightarrow> Inl (LibError x) | Inr v \<Rightarrow> Inr v)"

subsection \<open>The pandas and numpy operations the notebook applies\<close>

definition columns :: "dataframe \<Rightarrow> string list" where
  "columns df = map fst (cols df)"

text \<open>\<^verbatim>\<open>df[c]\<close> for one label.\<close>

definition df_getitem :: "dataframe \<Rightarrow> string \<Rightarrow> exn + cell list" where
  "df_getitem df c = (case map_of (cols df) c of None \<Rightarrow> Inl KeyError | Some v \<Rightarrow> Inr v)"

text \<open>\<^verbatim>\<open>df[ks]\<close> for a list of labels: the sub-frame, columns in the order of \<open>ks\<close>.\<close>

fun select_cols :: "(string \<times> cell list) list \<Rightarrow> string list \<Rightarrow> exn + (string \<times> cell list) list" where
  "select_cols al [] = Inr []"
| "select_cols al (k # ks) =
     (case map_of al k of
        None \<Rightarrow> Inl KeyError
      | Some v \<Rightarrow> (case select_cols al ks of Inl e \<Rightarrow> Inl e | Inr r \<Rightarrow> Inr ((k, v) # r)))"

definition df_getitem_list :: "dataframe \<Rightarrow> string list \<Rightarrow> exn + dataframe" where
  "df_getitem_list df ks =
     (case select_cols (cols df) ks of
        Inl e \<Rightarrow> Inl e
      | Inr r \<Rightarrow> Inr \<lparr>nrows = nrows df, cols = r\<rparr>)"

text \<open>
  Assigning a non-empty list-like to a column of a frame without rows gives the frame the
  rows of the value; the columns it had are filled with NaN.
\<close>

definition ensure_valid_index :: "dataframe \<Rightarrow> nat \<Rightarrow> dataframe" where
  "ensure_valid_index df k =
     (if nrows df = 0 \<and> 0 < k
      then \<lparr>nrows = k, cols = map (\<lambda>p. (fst p, replicate k NaN)) (cols df)\<rparr>
      else df)"

text \<open>\<^verbatim>\<open>df[c] = v\<close> for an array \<open>v\<close>: replaces the column where it stands, or appends it.\<close>

definition df_setitem_array :: "dataframe \<Rightarrow> string \<Rightarrow> cell list \<Rightarrow> exn + dataframe" where
  "df_setitem_array df c v =
     (let df1 = ensure_valid_index df (length v)
      in if length v = nrows df1
         then Inr (df1\<lparr>cols := AList.update c v (cols df1)\<rparr>)
         else Inl ValueError)"

text \<open>
  \<^verbatim>\<open>df[c] = s\<close> for a Series \<open>s\<close>: aligned on the index, so a row the Series does not have
  gets NaN and no length is checked.
\<close>

definition series_align :: "nat \<Rightarrow> cell list \<Rightarrow> cell list" where
  "series_align n s = map (\<lambda>i. if i < length s then s ! i else NaN) [0..<n]"

definition df_setitem_series :: "dataframe \<Rightarrow> string \<Rightarrow> cell list \<Rightarrow> dataframe" where
  "df_setitem_series df c s =
     (let df1 = ensure_valid_index df (length s)
      in df1\<lparr>cols := AList.update c (series_align (nrows df1) s) (cols df1)\<rparr>)"

text \<open>Column \<open>j\<close> of a two-dimensional array, \<^verbatim>\<open>a[:, j]\<close>.\<close>

definition column_of :: "ndarray2 \<Rightarrow> nat \<Rightarrow> exn + cell list" where
  "column_of a j =
     (if j < shape1 a then Inr (map (\<lambda>i. item a i j) [0..<shape0 a]) else Inl IndexError)"

text \<open>
  \<^verbatim>\<open>df[ks] = a\<close> for a two-dimensional array: as many columns as keys, then one column
  assignment per key, in order.
\<close>

fun assign_columns :: "dataframe \<Rightarrow> ndarray2 \<Rightarrow> nat \<Rightarrow> string list \<Rightarrow> exn + dataframe" where
  "assign_columns df a j [] = Inr df"
| "assign_columns df a j (k # ks) =
     (case column_of a j of
        Inl e \<Rightarrow> Inl e
      | Inr v \<Rightarrow>
          (case df_setitem_array df k v of
             Inl e \<Rightarrow> Inl e
           | Inr df' \<Rightarrow> assign_columns df' a (Suc j) ks))"

definition df_setitem_list :: "dataframe \<Rightarrow> string list \<Rightarrow> ndarray2 \<Rightarrow> exn + dataframe" where
  "df_setitem_list df ks a =
     (if shape1 a \<noteq> length ks then Inl ValueError else assign_columns df a 0 ks)"

text \<open>\<^verbatim>\<open>df.drop(columns=c)\<close>: a new frame; the label must exist.\<close>

definition df_drop :: "dataframe \<Rightarrow> string \<Rightarrow> exn + dataframe" where
  "df_drop df c =
     (if c \<in> set (columns df)
      then Inr (df\<lparr>cols := filter (\<lambda>p. fst p \<noteq> c) (cols df)\<rparr>)
      else Inl KeyError)"

text \<open>\<^verbatim>\<open>s.eq(v)\<close> and \<^verbatim>\<open>b.mul(k)\<close> on a Series, entry by entry; a missing entry equals nothing.\<close>

definition series_eq :: "cell list \<Rightarrow> cell \<Rightarrow> bool list" where
  "series_eq s v = map (\<lambda>x. x \<noteq> NaN \<and> x = v) s"

definition series_mul :: "bool list \<Rightarrow> int \<Rightarrow> cell list" where
  "series_mul bs k = map (\<lambda>b. Num (of_int ((if b then 1 else 0) * k))) bs"

text \<open>Arithmetic of numpy on cells: NaN is absorbing, a string is a type error.\<close>

fun cell_sub :: "cell \<Rightarrow> cell \<Rightarrow> exn + cell" where
  "cell_sub (Str _) _ = Inl TypeError"
| "cell_sub _ (Str _) = Inl TypeError"
| "cell_sub NaN _ = Inr NaN"
| "cell_sub _ NaN = Inr NaN"
| "cell_sub (Num a) (Num b) = Inr (Num (a - b))"

fun cell_abs :: "cell \<Rightarrow> exn + cell" where
  "cell_abs (Str _) = Inl TypeError"
| "cell_abs NaN = Inr NaN"
| "cell_abs (Num a) = Inr (Num \<bar>a\<bar>)"

fun collect :: "(exn + 'a) list \<Rightarrow> exn + 'a list" where
  "collect [] = Inr []"
| "collect (r # rs) =
     (case r of
        Inl e \<Rightarrow> Inl e
      | Inr v \<Rightarrow> (case collect rs of Inl e \<Rightarrow> Inl e | Inr vs \<Rightarrow> Inr (v # vs)))"

text \<open>
  \<^verbatim>\<open>xs - ys\<close> on one-dimensional arrays: entry by entry; an array of one entry is
  broadcast; other lengths do not fit.
\<close>

definition np_sub :: "cell list \<Rightarrow> cell list \<Rightarrow> exn + cell list" where
  "np_sub xs ys =
     (if length xs = length ys then collect (map2 cell_sub xs ys)
      else if length ys = 1 then collect (map (\<lambda>x. cell_sub x (hd ys)) xs)
      else if length xs = 1 then collect (map (\<lambda>y. cell_sub (hd xs) y) ys)
      else Inl ValueError)"

definition np_abs :: "cell list \<Rightarrow> exn + cell list" where
  "np_abs xs = collect (map cell_abs xs)"

fun finite_values :: "cell list \<Rightarrow> rat list" where
  "finite_values [] = []"
| "finite_values (Num a # xs) = a # finite_values xs"
| "finite_values (_ # xs) = finite_values xs"

text \<open>\<^verbatim>\<open>np.nanmean\<close>: the mean of the entries that are not NaN; NaN when there is none.\<close>

definition np_nanmean :: "cell list \<Rightarrow> exn + cell" where
  "np_nanmean xs =
     (if list_ex is_Str xs then Inl TypeError
      else if finite_values xs = [] then Inr NaN
      else Inr (Num (sum_list (finite_values xs) / of_nat (length (finite_values xs)))))"

text \<open>Comparisons of a column with a number, for a boolean mask; \<^verbatim>\<open>df[mask]\<close> keeps the rows marked.\<close>

fun cell_gt0 :: "cell \<Rightarrow> exn + bool" where
  "cell_gt0 (Str _) = Inl TypeError"
| "cell_gt0 NaN = Inr False"
| "cell_gt0 (Num a) = Inr (0 < a)"

fun cell_eq0 :: "cell \<Rightarrow> bool" where
  "cell_eq0 (Num a) = (a = 0)"
| "cell_eq0 _ = False"

definition mask_rows :: "dataframe \<Rightarrow> bool list \<Rightarrow> dataframe" where
  "mask_rows df m =
     \<lparr>nrows = length (filter id (take (nrows df) m)),
      cols = map (\<lambda>p. (fst p, map fst (filter snd (zip (snd p) m)))) (cols df)\<rparr>"

text \<open>\<^verbatim>\<open>xs[-1]\<close> on a Python list.\<close>

definition py_last :: "'a list \<Rightarrow> exn + 'a" where
  "py_last xs = (if xs = [] then Inl IndexError else Inr (last xs))"

text \<open>\<^verbatim>\<open>"{}".format(i)\<close> for a natural number: its decimal digits.\<close>

function str_of_nat :: "nat \<Rightarrow> string" where
  "str_of_nat n =
     (if n < 10 then [''0123456789'' ! n]
      else str_of_nat (n div 10) @ [''0123456789'' ! (n mod 10)])"
  by pat_completeness auto
termination
  by (relation "measure id") auto

subsection \<open>The imported packages\<close>

text \<open>
  Everything the notebook imports and calls without defining it.  \<open>'o\<close> is the type of the
  objects of these packages (the raw data, the encoder, observers, the estimator, axes).
  The four flags are the integer constants of \<^verbatim>\<open>cyclic_boosting.flags\<close>.
  \<open>timeit_extra_loops\<close> is the number of times the \<^verbatim>\<open>%%timeit\<close> magic runs the body of its
  cell after the first time.
\<close>

record 'o ext =
  import_module :: "string \<Rightarrow> exn + unit"
  jupyter_black_load :: "exn + unit"
  fetch_openml :: "nat \<Rightarrow> exn + 'o bunch"
  pd_DataFrame :: "'o \<Rightarrow> string list \<Rightarrow> exn + dataframe"
  IS_UNORDERED :: int
  IS_CONTINUOUS :: int
  HAS_MISSING :: int
  MISSING_NOT_LEARNED :: int
  OrdinalEncoder :: "string \<Rightarrow> cell \<Rightarrow> exn + 'o"
  fit_transform :: "'o \<Rightarrow> dataframe \<Rightarrow> exn + ndarray2"
  PlottingObserver :: "int \<Rightarrow> exn + 'o"
  SmootherChoiceGroupBy :: "bool \<Rightarrow> bool \<Rightarrow> exn + 'o"
  pipeline_CBClassifier ::
    "(string \<rightharpoonup> int) \<Rightarrow> string list \<Rightarrow> 'o list \<Rightarrow> nat \<Rightarrow> nat \<Rightarrow> 'o \<Rightarrow> exn + 'o"
  timeit_extra_loops :: nat
  est_fit :: "'o \<Rightarrow> dataframe \<Rightarrow> cell list \<Rightarrow> exn + 'o"
  est_predict_proba :: "'o \<Rightarrow> dataframe \<Rightarrow> exn + ndarray2"
  est_score :: "'o \<Rightarrow> dataframe \<Rightarrow> cell list \<Rightarrow> exn + cell"
  est_getitem :: "'o \<Rightarrow> int \<Rightarrow> exn + 'o"
  est_observers :: "'o \<Rightarrow> exn + 'o list"
  plot_analysis :: "'o \<Rightarrow> string \<Rightarrow> bool \<Rightarrow> 'o list \<Rightarrow> exn + unit"
  series_hist :: "cell list \<Rightarrow> bool \<Rightarrow> rat \<Rightarrow> 'o option \<Rightarrow> exn + 'o"

subsection \<open>The global namespace of the notebook\<close>

text \<open>
  \<open>bound\<close> holds the names bound by \<^verbatim>\<open>import\<close> and \<^verbatim>\<open>def\<close>; each variable the cells assign
  is a field, \<open>None\<close> until it is assigned.  Reading an unbound name raises NameError.
\<close>

record 'o ns =
  bound :: "string list"
  v_data :: "'o bunch option"
  v_df :: "dataframe option"
  v_cols_categorical :: "string list option"
  v_cols_noncat :: "string list option"
  v_X :: "dataframe option"
  v_y :: "cell list option"
  v_features :: "string list option"
  v_feature_properties :: "(string \<rightharpoonup> int) option"
  v_CB_est :: "'o option"
  v_yhat :: "ndarray2 option"
  v_mad :: "cell option"
  v_ax :: "'o option"

definition empty_ns :: "'o ns" where
  "empty_ns =
     \<lparr>bound = [], v_data = None, v_df = None, v_cols_categorical = None,
      v_cols_noncat = None, v_X = None, v_y = None, v_features = None,
      v_feature_properties = None, v_CB_est = None, v_yhat = None, v_mad = None,
      v_ax = None\<rparr>"

definition rd :: "string \<Rightarrow> 'a option \<Rightarrow> 'a res" where
  "rd name v = (case v of None \<Rightarrow> raise (NameError name) | Some x \<Rightarrow> ret x)"

definition need :: "'o ns \<Rightarrow> string \<Rightarrow> unit res" where
  "need ns name = (if name \<in> set (bound ns) then ret () else raise (NameError name))"

definition bind_names :: "'o ns \<Rightarrow> string list \<Rightarrow> 'o ns" where
  "bind_names ns names = ns\<lparr>bound := bound ns @ names\<rparr>"

text \<open>Statements, and cells, run one after the other.\<close>

fun run_all :: "('s \<Rightarrow> 's res) list \<Rightarrow> 's \<Rightarrow> 's res" where
  "run_all [] s = ret s"
| "run_all (c # cs) s = bind (c s) (run_all cs)"

subsection \<open>The cells, in the order of the file\<close>

text \<open>
  Cell 1: \<^verbatim>\<open>try: import jupyter_black; jupyter_black.load()  except ImportError: ...\<close>.
  The only handler of the file: it swallows an ImportError (or its subclass
  ModuleNotFoundError) of either statement, and nothing else.
\<close>

fun is_ImportError :: "exn \<Rightarrow> bool" where
  "is_ImportError ImportError = True"
| "is_ImportError ModuleNotFoundError = True"
| "is_ImportError _ = False"

definition cell_black :: "'o ext \<Rightarrow> 'o ns \<Rightarrow> 'o ns res" where
  "cell_black E ns =
     (case import_module E ''jupyter_black'' of
        Inl x \<Rightarrow> if is_ImportError x then ret ns else raise (LibError x)
      | Inr _ \<Rightarrow>
          (let ns1 = bind_names ns [''jupyter_black''] in
           case jupyter_black_load E of
             Inl x \<Rightarrow>
               ([Jupyter_black_load], if is_ImportError x then Inr ns1 else Inl (LibError x))
           | Inr _ \<Rightarrow> ([Jupyter_black_load], Inr ns1)))"

text \<open>Cell 2: the import statements, each binding its names.\<close>

definition import_stmt :: "'o ext \<Rightarrow> string \<Rightarrow> string list \<Rightarrow> 'o ns \<Rightarrow> 'o ns res" where
  "import_stmt E modname names ns =
     bind (lib (import_module E modname)) (\<lambda>_. ret (bind_names ns names))"

definition cell_imports :: "'o ext \<Rightarrow> 'o ns \<Rightarrow> 'o ns res" where
  "cell_imports E =
     run_all
       [import_stmt E ''pandas'' [''pd''],
        import_stmt E ''numpy'' [''np''],
        import_stmt E ''sklearn.preprocessing'' [''OrdinalEncoder''],
        import_stmt E ''sklearn.pipeline'' [''Pipeline''],
        import_stmt E ''cyclic_boosting''
          [''flags'', ''common_smoothers'', ''observers'', ''binning''],
        import_stmt E ''cyclic_boosting.plots'' [''plot_analysis''],
        import_stmt E ''cyclic_boosting.pipelines'' [''pipeline_CBClassifier'']]"

text \<open>
  Cell 3: \<^verbatim>\<open>data = fetch_openml(data_id=1590)\<close>,
  \<^verbatim>\<open>df = pd.DataFrame(data.data, columns=data.feature_names)\<close>, and \<^verbatim>\<open>df\<close> displayed.
\<close>

definition cell_load :: "'o ext \<Rightarrow> 'o ns \<Rightarrow> 'o ns res" where
  "cell_load E =
     run_all
       [import_stmt E ''sklearn.datasets'' [''fetch_openml''],
        (\<lambda>ns. bind (need ns ''fetch_openml'') (\<lambda>_.
               bind (call Fetch_openml (fetch_openml E 1590)) (\<lambda>d.
               ret (ns\<lparr>v_data := Some d\<rparr>)))),
        (\<lambda>ns. bind (need ns ''pd'') (\<lambda>_.
               bind (rd ''data'' (v_data ns)) (\<lambda>d.
               bind (call Pd_DataFrame (pd_DataFrame E (bdata d) (feature_names d))) (\<lambda>df.
               ret (ns\<lparr>v_df := Some df\<rparr>))))),
        (\<lambda>ns. bind (rd ''df'' (v_df ns)) (\<lambda>_. ret ns))]"

text \<open>
  Cell 4: the literal \<^verbatim>\<open>cols_categorical\<close>, and
  \<^verbatim>\<open>cols_noncat = [n for n in df.columns if n not in cols_categorical]\<close>.
  The comprehension reads \<^verbatim>\<open>cols_categorical\<close> once per column, so not at all without columns.
\<close>

definition cols_categorical :: "string list" where
  "cols_categorical =
     [''workclass'', ''education'', ''marital-status'', ''occupation'', ''relationship'',
      ''race'', ''sex'', ''native-country'']"

definition cols_noncat :: "string list \<Rightarrow> string list \<Rightarrow> string list" where
  "cols_noncat df_columns cc = filter (\<lambda>n. n \<notin> set cc) df_columns"

definition cell_split :: "'o ns \<Rightarrow> 'o ns res" where
  "cell_split =
     run_all
       [(\<lambda>ns. ret (ns\<lparr>v_cols_categorical := Some cols_categorical\<rparr>)),
        (\<lambda>ns. bind (rd ''df'' (v_df ns)) (\<lambda>df.
               if columns df = [] then ret (ns\<lparr>v_cols_noncat := Some []\<rparr>)
               else bind (rd ''cols_categorical'' (v_cols_categorical ns)) (\<lambda>cc.
                    ret (ns\<lparr>v_cols_noncat := Some (cols_noncat (columns df) cc)\<rparr>))))]"

text \<open>Cell 5: \<^verbatim>\<open>df["target"] = data.target.eq(">50K").mul(1)\<close>.\<close>

definition cell_target :: "'o ns \<Rightarrow> 'o ns res" where
  "cell_target ns =
     bind (rd ''data'' (v_data ns)) (\<lambda>d.
     bind (call Series_eq (Inr (series_eq (target d) (Str ''>50K'')))) (\<lambda>b.
     bind (call Series_mul (Inr (series_mul b 1))) (\<lambda>s.
     bind (rd ''df'' (v_df ns)) (\<lambda>df.
     ret (ns\<lparr>v_df := Some (df_setitem_series df ''target'' s)\<rparr>)))))"

text \<open>Cells 6 and 7 display \<^verbatim>\<open>cols_noncat + cols_categorical\<close> and \<^verbatim>\<open>df.columns\<close>.\<close>

definition cell_show_cols :: "'o ns \<Rightarrow> 'o ns res" where
  "cell_show_cols ns =
     bind (rd ''cols_noncat'' (v_cols_noncat ns)) (\<lambda>_.
     bind (rd ''cols_categorical'' (v_cols_categorical ns)) (\<lambda>_. ret ns))"

definition cell_show_columns :: "'o ns \<Rightarrow> 'o ns res" where
  "cell_show_columns ns = bind (rd ''df'' (v_df ns)) (\<lambda>_. ret ns)"

text \<open>
  Cell 8:
  \<^verbatim>\<open>assert set(cols_noncat + cols_categorical) - set(df.columns) == set(), "Columns not in data set"\<close>,
  then a \<^verbatim>\<open>print\<close> of the unused columns, which reads the same three names again.
\<close>

definition uncovered :: "string list \<Rightarrow> string list \<Rightarrow> string list \<Rightarrow> string set" where
  "uncovered nc cc df_columns = set (nc @ cc) - set df_columns"

definition cell_assert :: "'o ns \<Rightarrow> 'o ns res" where
  "cell_assert ns =
     bind (rd ''cols_noncat'' (v_cols_noncat ns)) (\<lambda>nc.
     bind (rd ''cols_categorical'' (v_cols_categorical ns)) (\<lambda>cc.
     bind (rd ''df'' (v_df ns)) (\<lambda>df.
     if uncovered nc cc (columns df) = {} then ret ns
     else raise (AssertionError ''Columns not in data set''))))"

text \<open>
  Cell 9 defines \<^verbatim>\<open>prepare_data(df)\<close>.  Its body reads the globals \<^verbatim>\<open>OrdinalEncoder\<close>, \<^verbatim>\<open>np\<close>
  and \<^verbatim>\<open>cols_categorical\<close> when it is called.  The frame is mutated in place: the model
  returns the caller's frame after the call, then \<^verbatim>\<open>X\<close> and \<^verbatim>\<open>y\<close>.
\<close>

definition cell_def_prepare :: "'o ns \<Rightarrow> 'o ns res" where
  "cell_def_prepare ns = ret (bind_names ns [''prepare_data''])"

definition prepare_data ::
  "'o ext \<Rightarrow> 'o ns \<Rightarrow> dataframe \<Rightarrow> (dataframe \<times> dataframe \<times> cell list) res" where
  "prepare_data E ns df =
     bind (need ns ''OrdinalEncoder'') (\<lambda>_.
     bind (need ns ''np'') (\<lambda>_.
     bind (call OrdinalEncoder_new (OrdinalEncoder E ''use_encoded_value'' NaN)) (\<lambda>enc.
     bind (rd ''cols_categorical'' (v_cols_categorical ns)) (\<lambda>cc.
     bind (lib (df_getitem_list df cc)) (\<lambda>sub.
     bind (call Enc_fit_transform (fit_transform E enc sub)) (\<lambda>a.
     bind (lib (df_setitem_list df cc a)) (\<lambda>df1.
     bind (lib (df_getitem df1 ''target'')) (\<lambda>t.
     bind (call Np_asarray (Inr t)) (\<lambda>y.
     bind (call Df_drop (df_drop df1 ''target'')) (\<lambda>X.
     ret (df1, X, y)))))))))))"

text \<open>Cell 10: \<^verbatim>\<open>X, y = prepare_data(df)\<close>.  Cell 11 displays \<^verbatim>\<open>y\<close>.\<close>

definition cell_prepare :: "'o ext \<Rightarrow> 'o ns \<Rightarrow> 'o ns res" where
  "cell_prepare E ns =
     bind (need ns ''prepare_data'') (\<lambda>_.
     bind (rd ''df'' (v_df ns)) (\<lambda>df.
     bind (prepare_data E ns df) (\<lambda>r.
     ret (ns\<lparr>v_df := Some (fst r), v_X := Some (fst (snd r)), v_y := Some (snd (snd r))\<rparr>))))"

definition cell_show_y :: "'o ns \<Rightarrow> 'o ns res" where
  "cell_show_y ns = bind (rd ''y'' (v_y ns)) (\<lambda>_. ret ns)"

text \<open>
  Cell 12: \<^verbatim>\<open>features = cols_categorical + cols_noncat\<close> and the dictionary
  \<^verbatim>\<open>feature_properties = {**{col: ... for col in cols_categorical}, **{col: ... for col in cols_noncat}}\<close>.
  A comprehension inserts its keys in order; unpacking two dictionaries into one lets the
  second win on a shared key.  \<^verbatim>\<open>flags\<close> is read once per key.
\<close>

definition dict_comp :: "string list \<Rightarrow> int \<Rightarrow> (string \<rightharpoonup> int)" where
  "dict_comp ks v = fold (\<lambda>k m. m(k \<mapsto> v)) ks Map.empty"

definition features :: "string list \<Rightarrow> string list \<Rightarrow> string list" where
  "features cc nc = cc @ nc"

definition feature_properties :: "'o ext \<Rightarrow> string list \<Rightarrow> string list \<Rightarrow> (string \<rightharpoonup> int)" where
  "feature_properties E cc nc =
     dict_comp cc (IS_UNORDERED E OR HAS_MISSING E OR MISSING_NOT_LEARNED E)
     ++ dict_comp nc (IS_CONTINUOUS E OR HAS_MISSING E OR MISSING_NOT_LEARNED E)"

definition cell_features :: "'o ext \<Rightarrow> 'o ns \<Rightarrow> 'o ns res" where
  "cell_features E =
     run_all
       [(\<lambda>ns. bind (rd ''cols_categorical'' (v_cols_categorical ns)) (\<lambda>cc.
               bind (rd ''cols_noncat'' (v_cols_noncat ns)) (\<lambda>nc.
               ret (ns\<lparr>v_features := Some (features cc nc)\<rparr>)))),
        (\<lambda>ns. bind (rd ''cols_categorical'' (v_cols_categorical ns)) (\<lambda>cc.
               bind (if cc = [] then ret () else need ns ''flags'') (\<lambda>_.
               bind (rd ''cols_noncat'' (v_cols_noncat ns)) (\<lambda>nc.
               bind (if nc = [] then ret () else need ns ''flags'') (\<lambda>_.
               ret (ns\<lparr>v_feature_properties := Some (feature_properties E cc nc)\<rparr>)))))),
        (\<lambda>ns. bind (rd ''features'' (v_features ns)) (\<lambda>_.
               bind (rd ''feature_properties'' (v_feature_properties ns)) (\<lambda>_. ret ns)))]"

text \<open>
  Cell 13 defines \<^verbatim>\<open>cb_classifier_model()\<close>; cell 14 is
  \<^verbatim>\<open>CB_est = cb_classifier_model()\<close> and displays \<^verbatim>\<open>CB_est\<close>.
\<close>

definition cell_def_model :: "'o ns \<Rightarrow> 'o ns res" where
  "cell_def_model ns = ret (bind_names ns [''cb_classifier_model''])"

definition cb_classifier_model :: "'o ext \<Rightarrow> 'o ns \<Rightarrow> 'o res" where
  "cb_classifier_model E ns =
     bind (need ns ''observers'') (\<lambda>_.
     bind (call PlottingObserver_new (PlottingObserver E (- 1))) (\<lambda>p.
     bind (need ns ''pipeline_CBClassifier'') (\<lambda>_.
     bind (rd ''feature_properties'' (v_feature_properties ns)) (\<lambda>fp.
     bind (rd ''features'' (v_features ns)) (\<lambda>fs.
     bind (need ns ''common_smoothers'') (\<lambda>_.
     bind (call SmootherChoiceGroupBy_new (SmootherChoiceGroupBy E True False)) (\<lambda>sm.
     call Pipeline_CBClassifier (pipeline_CBClassifier E fp fs [p] 50 10 sm))))))))"

definition cell_model :: "'o ext \<Rightarrow> 'o ns \<Rightarrow> 'o ns res" where
  "cell_model E =
     run_all
       [(\<lambda>ns. bind (need ns ''cb_classifier_model'') (\<lambda>_.
               bind (cb_classifier_model E ns) (\<lambda>est.
               ret (ns\<lparr>v_CB_est := Some est\<rparr>)))),
        (\<lambda>ns. bind (rd ''CB_est'' (v_CB_est ns)) (\<lambda>_. ret ns))]"

text \<open>
  Cell 15: \<^verbatim>\<open>%%timeit -r 1\<close> over \<^verbatim>\<open>CB_est.fit(X.copy(), y)\<close>.  The magic runs the body in
  the notebook's namespace, once and then as often again as it decides.
\<close>

definition fit_once :: "'o ext \<Rightarrow> 'o ns \<Rightarrow> 'o ns res" where
  "fit_once E ns =
     bind (rd ''CB_est'' (v_CB_est ns)) (\<lambda>est.
     bind (rd ''X'' (v_X ns)) (\<lambda>X.
     bind (call X_copy_fit (Inr X)) (\<lambda>Xc.
     bind (rd ''y'' (v_y ns)) (\<lambda>y.
     bind (call Est_fit (est_fit E est Xc y)) (\<lambda>est'.
     ret (ns\<lparr>v_CB_est := Some est'\<rparr>))))))"

definition cell_fit :: "'o ext \<Rightarrow> 'o ns \<Rightarrow> 'o ns res" where
  "cell_fit E = run_all (replicate (Suc (timeit_extra_loops E)) (fit_once E))"

text \<open>Cell 16: \<^verbatim>\<open>yhat = CB_est.predict_proba(X.copy())\<close>.\<close>

definition cell_predict :: "'o ext \<Rightarrow> 'o ns \<Rightarrow> 'o ns res" where
  "cell_predict E ns =
     bind (rd ''CB_est'' (v_CB_est ns)) (\<lambda>est.
     bind (rd ''X'' (v_X ns)) (\<lambda>X.
     bind (call X_copy_predict (Inr X)) (\<lambda>Xc.
     bind (call Est_predict_proba (est_predict_proba E est Xc)) (\<lambda>yh.
     ret (ns\<lparr>v_yhat := Some yh\<rparr>)))))"

text \<open>Cell 17: \<^verbatim>\<open>mad = np.nanmean(np.abs(y - yhat[:, 0]))\<close>, and \<^verbatim>\<open>mad\<close> displayed.\<close>

definition mad_of :: "cell list \<Rightarrow> ndarray2 \<Rightarrow> cell res" where
  "mad_of y yhat =
     bind (lib (column_of yhat 0)) (\<lambda>p0.
     bind (lib (np_sub y p0)) (\<lambda>d.
     bind (call Np_abs (np_abs d)) (\<lambda>a.
     call Np_nanmean (np_nanmean a))))"

definition cell_mad :: "'o ns \<Rightarrow> 'o ns res" where
  "cell_mad =
     run_all
       [(\<lambda>ns. bind (need ns ''np'') (\<lambda>_.
               bind (rd ''y'' (v_y ns)) (\<lambda>y.
               bind (rd ''yhat'' (v_yhat ns)) (\<lambda>yhat.
               bind (mad_of y yhat) (\<lambda>m.
               ret (ns\<lparr>v_mad := Some m\<rparr>)))))),
        (\<lambda>ns. bind (rd ''mad'' (v_mad ns)) (\<lambda>_. ret ns))]"

text \<open>Cell 18: \<^verbatim>\<open>CB_est.score(X, y)\<close>, displayed.\<close>

definition cell_score :: "'o ext \<Rightarrow> 'o ns \<Rightarrow> 'o ns res" where
  "cell_score E ns =
     bind (rd ''CB_est'' (v_CB_est ns)) (\<lambda>est.
     bind (rd ''X'' (v_X ns)) (\<lambda>X.
     bind (rd ''y'' (v_y ns)) (\<lambda>y.
     bind (call Est_score (est_score E est X y)) (\<lambda>_. ret ns))))"

text \<open>
  Cell 19 defines \<^verbatim>\<open>plot_CB(filename, plobs, binner)\<close>: for the \<open>i\<close>-th observer one call of
  \<^verbatim>\<open>plot_analysis\<close> with the file name \<^verbatim>\<open>filename + "_{}".format(i)\<close>.  Cell 20 calls it with
  the last observer of the last pipeline step, and the step before as binner.
\<close>

definition cell_def_plot :: "'o ns \<Rightarrow> 'o ns res" where
  "cell_def_plot ns = ret (bind_names ns [''plot_CB''])"

fun plot_loop :: "'o ext \<Rightarrow> 'o ns \<Rightarrow> string \<Rightarrow> 'o \<Rightarrow> nat \<Rightarrow> 'o list \<Rightarrow> unit res" where
  "plot_loop E ns filename binner i [] = ret ()"
| "plot_loop E ns filename binner i (p # ps) =
     bind (need ns ''plot_analysis'') (\<lambda>_.
     bind (call Plot_analysis
             (plot_analysis E p (filename @ ''_'' @ str_of_nat i) False [binner])) (\<lambda>_.
     plot_loop E ns filename binner (Suc i) ps))"

definition plot_CB :: "'o ext \<Rightarrow> 'o ns \<Rightarrow> string \<Rightarrow> 'o list \<Rightarrow> 'o \<Rightarrow> unit res" where
  "plot_CB E ns filename plobs binner = plot_loop E ns filename binner 0 plobs"

definition cell_plot :: "'o ext \<Rightarrow> 'o ns \<Rightarrow> 'o ns res" where
  "cell_plot E ns =
     bind (need ns ''plot_CB'') (\<lambda>_.
     bind (rd ''CB_est'' (v_CB_est ns)) (\<lambda>est.
     bind (lib (est_getitem E est (- 1))) (\<lambda>cb.
     bind (lib (est_observers E cb)) (\<lambda>obs.
     bind (lib (py_last obs)) (\<lambda>p.
     bind (lib (est_getitem E est (- 2))) (\<lambda>binner.
     bind (plot_CB E ns ''analysis_CB_iterlast'' [p] binner) (\<lambda>_. ret ns)))))))"

text \<open>Cell 21: \<^verbatim>\<open>df["pred"] = yhat[:, 0]\<close>.\<close>

definition cell_pred :: "'o ns \<Rightarrow> 'o ns res" where
  "cell_pred ns =
     bind (rd ''yhat'' (v_yhat ns)) (\<lambda>yhat.
     bind (lib (column_of yhat 0)) (\<lambda>p0.
     bind (rd ''df'' (v_df ns)) (\<lambda>df.
     bind (lib (df_setitem_array df ''pred'' p0)) (\<lambda>df'.
     ret (ns\<lparr>v_df := Some df'\<rparr>)))))"

text \<open>
  Cell 22: \<^verbatim>\<open>ax = df[df["target"] > 0].pred.hist(log=True, alpha=0.5)\<close> and
  \<^verbatim>\<open>df[df["target"] == 0].pred.hist(log=True, alpha=0.5, ax=ax)\<close>.
\<close>

definition cell_hist :: "'o ext \<Rightarrow> 'o ns \<Rightarrow> 'o ns res" where
  "cell_hist E =
     run_all
       [(\<lambda>ns. bind (rd ''df'' (v_df ns)) (\<lambda>df.
               bind (lib (df_getitem df ''target'')) (\<lambda>t.
               bind (lib (collect (map cell_gt0 t))) (\<lambda>m.
               bind (lib (df_getitem (mask_rows df m) ''pred'')) (\<lambda>s.
               bind (call Hist_positive (series_hist E s True (1 / 2) None)) (\<lambda>ax.
               ret (ns\<lparr>v_ax := Some ax\<rparr>))))))),
        (\<lambda>ns. bind (rd ''df'' (v_df ns)) (\<lambda>df.
               bind (lib (df_getitem df ''target'')) (\<lambda>t.
               bind (lib (df_getitem (mask_rows df (map cell_eq0 t)) ''pred'')) (\<lambda>s.
               bind (rd ''ax'' (v_ax ns)) (\<lambda>ax.
               bind (call Hist_zero (series_hist E s True (1 / 2) (Some ax))) (\<lambda>_.
               ret ns))))))]"

subsection \<open>The notebook\<close>

definition notebook :: "'o ext \<Rightarrow> ('o ns \<Rightarrow> 'o ns res) list" where
  "notebook E =
     [cell_black E, cell_imports E, cell_load E, cell_split, cell_target, cell_show_cols,
      cell_show_columns, cell_assert, cell_def_prepare, cell_prepare E, cell_show_y,
      cell_features E, cell_def_model, cell_model E, cell_fit E, cell_predict E, cell_mad,
      cell_score E, cell_def_plot, cell_plot E, cell_pred, cell_hist E]"

text \<open>Running all cells from a fresh kernel; the calls made and how it ended.\<close>

definition run :: "'o ext \<Rightarrow> 'o ns res" where
  "run E = run_all (notebook E) empty_ns"

definition trace :: "'a res \<Rightarrow> callee list" where
  "trace m = fst m"

definition outcome :: "'a res \<Rightarrow> error + 'a" where
  "outcome m = snd m"

text \<open>The cells above the assertion, and the cells below it.\<close>

definition before_assert :: "'o ext \<Rightarrow> ('o ns \<Rightarrow> 'o ns res) list" where
  "before_assert E =
     [cell_black E, cell_imports E, cell_load E, cell_split, cell_target, cell_show_cols,
      cell_show_columns]"

definition after_assert :: "'o ext \<Rightarrow> ('o ns \<Rightarrow> 'o ns res) list" where
  "after_assert E =
     [cell_def_prepare, cell_prepare E, cell_show_y, cell_features E, cell_def_model,
      cell_model E, cell_fit E, cell_predict E, cell_mad, cell_score E, cell_def_plot,
      cell_plot E, cell_pred, cell_hist E]"

subsection \<open>Notions used to state the properties\<close>

text \<open>A frame is well formed when every column has one entry per row.\<close>

definition wf_frame :: "dataframe \<Rightarrow> bool" where
  "wf_frame df = list_all (\<lambda>p. length (snd p) = nrows df) (cols df)"

text \<open>
  Whether a name can be read in a namespace: a variable of the notebook when it has been
  assigned, any other name when an import or a definition has bound it.
\<close>

definition defined :: "'o ns \<Rightarrow> string \<Rightarrow> bool" where
  "defined ns x =
     (if x = ''data'' then v_data ns \<noteq> None
      else if x = ''df'' then v_df ns \<noteq> None
      else if x = ''cols_categorical'' then v_cols_categorical ns \<noteq> None
      else if x = ''cols_noncat'' then v_cols_noncat ns \<noteq> None
      else if x = ''X'' then v_X ns \<noteq> None
      else if x = ''y'' then v_y ns \<noteq> None
      else if x = ''features'' then v_features ns \<noteq> None
      else if x = ''feature_properties'' then v_feature_properties ns \<noteq> None
      else if x = ''CB_est'' then v_CB_est ns \<noteq> None
      else if x = ''yhat'' then v_yhat ns \<noteq> None
      else if x = ''mad'' then v_mad ns \<noteq> None
      else if x = ''ax'' then v_ax ns \<noteq> None
      else x \<in> set (bound ns))"

text \<open>
  A piece of the notebook reads at most the names \<open>R\<close> and leaves the names \<open>W\<close> readable:
  where \<open>R\<close> can be read it fails only with an exception raised inside a package, and when it
  succeeds every name readable before is still readable, and so is \<open>W\<close>.
\<close>

definition cell_ok :: "('o ns \<Rightarrow> 'o ns res) \<Rightarrow> string list \<Rightarrow> string list \<Rightarrow> bool" where
  "cell_ok c R W =
     (\<forall>ns. list_all (defined ns) R \<longrightarrow>
        (\<forall>e. outcome (c ns) = Inl e \<longrightarrow> (\<exists>x. e = LibError x)) \<and>
        (\<forall>ns'. outcome (c ns) = Inr ns' \<longrightarrow>
           (\<forall>x. defined ns x \<longrightarrow> defined ns' x) \<and> list_all (defined ns') W))"

text \<open>
  A result, and a piece of the notebook, makes the calls \<open>t\<close>: all of them, in this order,
  when it succeeds, and the first few of them when it stops with an exception.
\<close>

definition logs :: "'a res \<Rightarrow> callee list \<Rightarrow> bool" where
  "logs m t = (prefix (trace m) t \<and> (\<forall>v. outcome m = Inr v \<longrightarrow> trace m = t))"

definition emits :: "('s \<Rightarrow> 's res) \<Rightarrow> callee list \<Rightarrow> bool" where
  "emits c t =
     (\<forall>s. prefix (trace (c s)) t \<and> (\<forall>s'. outcome (c s) = Inr s' \<longrightarrow> trace (c s) = t))"

text \<open>The calls of a run of the whole notebook that reaches its end.\<close>

definition black_calls :: "'o ext \<Rightarrow> callee list" where
  "black_calls E =
     (case import_module E ''jupyter_black'' of Inl _ \<Rightarrow> [] | Inr _ \<Rightarrow> [Jupyter_black_load])"

definition fit_calls :: "'o ext \<Rightarrow> callee list" where
  "fit_calls E = concat (replicate (Suc (timeit_extra_loops E)) [X_copy_fit, Est_fit])"

definition canonical_calls :: "'o ext \<Rightarrow> callee list" where
  "canonical_calls E =
     black_calls E
     @ [Fetch_openml, Pd_DataFrame]
     @ [Series_eq, Series_mul, OrdinalEncoder_new, Enc_fit_transform, Np_asarray, Df_drop]
     @ [PlottingObserver_new, SmootherChoiceGroupBy_new, Pipeline_CBClassifier]
     @ fit_calls E
     @ [X_copy_predict, Est_predict_proba, Np_abs, Np_nanmean, Est_score]
     @ [Plot_analysis, Hist_positive, Hist_zero]"

text \<open>The steps the specification names, and the step each call site belongs to.\<close>

datatype step = Setup | Load | Preprocess | Construct | Fit | Evaluate | Plot

fun step_of :: "callee \<Rightarrow> step" where
  "step_of Jupyter_black_load = Setup"
| "step_of Fetch_openml = Load"
| "step_of Pd_DataFrame = Load"
| "step_of Series_eq = Preprocess"
| "step_of Series_mul = Preprocess"
| "step_of OrdinalEncoder_new = Preprocess"
| "step_of Enc_fit_transform = Preprocess"
| "step_of Np_asarray = Preprocess"
| "step_of Df_drop = Preprocess"
| "step_of PlottingObserver_new = Construct"
| "step_of SmootherChoiceGroupBy_new = Construct"
| "step_of Pipeline_CBClassifier = Construct"
| "step_of X_copy_fit = Fit"
| "step_of Est_fit = Fit"
| "step_of X_copy_predict = Evaluate"
| "step_of Est_predict_proba = Evaluate"
| "step_of Np_abs = Evaluate"
| "step_of Np_nanmean = Evaluate"
| "step_of Est_score = Evaluate"
| "step_of Plot_analysis = Plot"
| "step_of Hist_positive = Plot"
| "step_of Hist_zero = Plot"

text \<open>The place of a step in the order in which the specification lists them.\<close>

fun step_index :: "step \<Rightarrow> nat" where
  "step_index Setup = 0"
| "step_index Load = 1"
| "step_index Preprocess = 2"
| "step_index Construct = 3"
| "step_index Fit = 4"
| "step_index Evaluate = 5"
| "step_index Plot = 6"

subsection \<open>A run in which nothing is caught\<close>

text \<open>
  The reference against which the notebook is compared: its entries into the packages,
  one after the other, each with the values the earlier ones returned.  \<open>and_then\<close> has
  no handler: the first exception ends the run and is its result, wrapped as it is.
  The only handler of the file and its assertion are written where they stand.
\<close>

definition and_then :: "error + 'a \<Rightarrow> ('a \<Rightarrow> error + 'b) \<Rightarrow> error + 'b" where
  "and_then r f = (case r of Inl e \<Rightarrow> Inl e | Inr v \<Rightarrow> f v)"

definition propagate :: "exn + 'a \<Rightarrow> error + 'a" where
  "propagate r = (case r of Inl x \<Rightarrow> Inl (LibError x) | Inr v \<Rightarrow> Inr v)"

text \<open>The first cell: an ImportError of the import or of \<^verbatim>\<open>load()\<close> is swallowed.\<close>

definition optional_black :: "'o ext \<Rightarrow> error + unit" where
  "optional_black E =
     (case import_module E ''jupyter_black'' of
        Inl x \<Rightarrow> if is_ImportError x then Inr () else Inl (LibError x)
      | Inr _ \<Rightarrow>
          (case jupyter_black_load E of
             Inl x \<Rightarrow> if is_ImportError x then Inr () else Inl (LibError x)
           | Inr _ \<Rightarrow> Inr ()))"

fun imports_of :: "'o ext \<Rightarrow> string list \<Rightarrow> error + unit" where
  "imports_of E [] = Inr ()"
| "imports_of E (m # ms) = and_then (propagate (import_module E m)) (\<lambda>_. imports_of E ms)"

fun fit_times :: "'o ext \<Rightarrow> nat \<Rightarrow> 'o \<Rightarrow> dataframe \<Rightarrow> cell list \<Rightarrow> error + 'o" where
  "fit_times E 0 est X y = Inr est"
| "fit_times E (Suc k) est X y =
     and_then (propagate (est_fit E est X y)) (\<lambda>est'. fit_times E k est' X y)"

text \<open>The assertion of cell 8, on the values the names have there.\<close>

definition coverage_assert :: "string list \<Rightarrow> string list \<Rightarrow> string list \<Rightarrow> error + unit" where
  "coverage_assert nc cc df_columns =
     (if uncovered nc cc df_columns = {} then Inr ()
      else Inl (AssertionError ''Columns not in data set''))"

text \<open>The frame after cell 5: the loaded frame with the binarised target.\<close>

definition labelled :: "dataframe \<Rightarrow> 'o bunch \<Rightarrow> dataframe" where
  "labelled df0 d =
     df_setitem_series df0 ''target'' (series_mul (series_eq (target d) (Str ''>50K'')) 1)"

text \<open>The cells after the assertion, for the fetched data and the frame built from them.\<close>

definition uncaught_after :: "'o ext \<Rightarrow> 'o bunch \<Rightarrow> dataframe \<Rightarrow> error + unit" where
  "uncaught_after E d df0 =
     and_then (propagate (OrdinalEncoder E ''use_encoded_value'' NaN)) (\<lambda>enc.
     and_then (propagate (df_getitem_list (labelled df0 d) cols_categorical)) (\<lambda>sub.
     and_then (propagate (fit_transform E enc sub)) (\<lambda>a.
     and_then (propagate (df_setitem_list (labelled df0 d) cols_categorical a)) (\<lambda>df2.
     and_then (propagate (df_getitem df2 ''target'')) (\<lambda>y.
     and_then (propagate (df_drop df2 ''target'')) (\<lambda>X.
     and_then (propagate (PlottingObserver E (- 1))) (\<lambda>p.
     and_then (propagate (SmootherChoiceGroupBy E True False)) (\<lambda>sm.
     and_then (propagate (pipeline_CBClassifier E
        (feature_properties E cols_categorical (cols_noncat (columns df0) cols_categorical))
        (features cols_categorical (cols_noncat (columns df0) cols_categorical))
        [p] 50 10 sm)) (\<lambda>est0.
     and_then (fit_times E (Suc (timeit_extra_loops E)) est0 X y) (\<lambda>est.
     and_then (propagate (est_predict_proba E est X)) (\<lambda>yhat.
     and_then (propagate (column_of yhat 0)) (\<lambda>p0.
     and_then (propagate (np_sub y p0)) (\<lambda>dif.
     and_then (propagate (np_abs dif)) (\<lambda>dev.
     and_then (propagate (np_nanmean dev)) (\<lambda>mad.
     and_then (propagate (est_score E est X y)) (\<lambda>_.
     and_then (propagate (est_getitem E est (- 1))) (\<lambda>cb.
     and_then (propagate (est_observers E cb)) (\<lambda>obs.
     and_then (propagate (py_last obs)) (\<lambda>po.
     and_then (propagate (est_getitem E est (- 2))) (\<lambda>binner.
     and_then (propagate (plot_analysis E po ''analysis_CB_iterlast_0'' False [binner])) (\<lambda>_.
     and_then (propagate (column_of yhat 0)) (\<lambda>p0'.
     and_then (propagate (df_setitem_array df2 ''pred'' p0')) (\<lambda>df3.
     and_then (propagate (df_getitem df3 ''target'')) (\<lambda>t.
     and_then (propagate (collect (map cell_gt0 t))) (\<lambda>m.
     and_then (propagate (df_getitem (mask_rows df3 m) ''pred'')) (\<lambda>s1.
     and_then (propagate (series_hist E s1 True (1 / 2) None)) (\<lambda>ax.
     and_then (propagate (df_getitem df3 ''target'')) (\<lambda>t'.
     and_then (propagate (df_getitem (mask_rows df3 (map cell_eq0 t')) ''pred'')) (\<lambda>s0.
     and_then (propagate (series_hist E s0 True (1 / 2) (Some ax))) (\<lambda>_.
     Inr ()))))))))))))))))))))))))))))))"

text \<open>The cells after the first one.\<close>

definition uncaught_rest :: "'o ext \<Rightarrow> error + unit" where
  "uncaught_rest E =
     and_then (imports_of E
        [''pandas'', ''numpy'', ''sklearn.preprocessing'', ''sklearn.pipeline'',
         ''cyclic_boosting'', ''cyclic_boosting.plots'', ''cyclic_boosting.pipelines'',
         ''sklearn.datasets'']) (\<lambda>_.
     and_then (propagate (fetch_openml E 1590)) (\<lambda>d.
     and_then (propagate (pd_DataFrame E (bdata d) (feature_names d))) (\<lambda>df0.
     and_then (coverage_assert (cols_noncat (columns df0) cols_categorical) cols_categorical
        (columns (labelled df0 d))) (\<lambda>_.
     uncaught_after E d df0))))"

definition uncaught_run :: "'o ext \<Rightarrow> error + unit" where
  "uncaught_run E = and_then (optional_black E) (\<lambda>_. uncaught_rest E)"

subsection \<open>Two concrete runs\<close>

text \<open>
  A frame of two rows with one continuous column and the eight categorical ones, and
  packages that accept everything: the encoder numbers the rows, the estimator predicts
  1/4 for class 0 and 3/4 for class 1, and the timed cell runs its body twice.
\<close>

definition df_ex :: dataframe where
  "df_ex =
     \<lparr>nrows = 2,
      cols =
        [(''age'', [Num 39, Num 50]),
         (''workclass'', [Str ''Private'', Str ''State-gov'']),
         (''education'', [Str ''HS-grad'', Str ''Bachelors'']),
         (''marital-status'', [Str ''Divorced'', Str ''Never-married'']),
         (''occupation'', [Str ''Sales'', NaN]),
         (''relationship'', [Str ''Husband'', Str ''Wife'']),
         (''race'', [Str ''White'', Str ''Black'']),
         (''sex'', [Str ''Male'', Str ''Female'']),
         (''native-country'', [Str ''Cuba'', Str ''India''])]\<rparr>"

definition E_ex :: "nat ext" where
  "E_ex =
     \<lparr>import_module = (\<lambda>_. Inr ()),
      jupyter_black_load = Inr (),
      fetch_openml =
        (\<lambda>_. Inr \<lparr>bdata = 0, feature_names = columns df_ex,
                   target = [Str ''>50K'', Str ''<=50K'']\<rparr>),
      pd_DataFrame = (\<lambda>_ _. Inr df_ex),
      IS_UNORDERED = 4, IS_CONTINUOUS = 1, HAS_MISSING = 32, MISSING_NOT_LEARNED = 64,
      OrdinalEncoder = (\<lambda>_ _. Inr 1),
      fit_transform =
        (\<lambda>_ sub. Inr \<lparr>shape0 = nrows sub, shape1 = length (cols sub),
                       item = (\<lambda>i j. Num (of_nat i))\<rparr>),
      PlottingObserver = (\<lambda>_. Inr 2),
      SmootherChoiceGroupBy = (\<lambda>_ _. Inr 3),
      pipeline_CBClassifier = (\<lambda>_ _ _ _ _ _. Inr 4),
      timeit_extra_loops = 1,
      est_fit = (\<lambda>e _ _. Inr (e + 1)),
      est_predict_proba =
        (\<lambda>_ X. Inr \<lparr>shape0 = nrows X, shape1 = 2,
                     item = (\<lambda>i j. if j = 0 then Num (1 / 4) else Num (3 / 4))\<rparr>),
      est_score = (\<lambda>_ _ _. Inr (Num 1)),
      est_getitem = (\<lambda>e i. Inr 7),
      est_observers = (\<lambda>_. Inr [2]),
      plot_analysis = (\<lambda>_ _ _ _. Inr ()),
      series_hist = (\<lambda>_ _ _ _. Inr 9)\<rparr>"

text \<open>
  The same packages for a data set without the attribute \<^verbatim>\<open>sex\<close>: neither the feature
  names nor the frame built from them have it.
\<close>

definition df_missing :: dataframe where
  "df_missing = df_ex\<lparr>cols := filter (\<lambda>p. fst p \<noteq> ''sex'') (cols df_ex)\<rparr>"

definition E_missing :: "nat ext" where
  "E_missing =
     E_ex\<lparr>fetch_openml :=
             (\<lambda>_. Inr \<lparr>bdata = 0, feature_names = columns df_missing,
                        target = [Str ''>50K'', Str ''<=50K'']\<rparr>),
          pd_DataFrame := (\<lambda>_ _. Inr df_missing)\<rparr>"

text \<open>The packages of the first run, except that the estimator's \<^verbatim>\<open>fit\<close> raises.\<close>

definition E_fit_fails :: "nat ext" where
  "E_fit_fails = E_ex\<lparr>est_fit := (\<lambda>_ _ _. Inl ValueError)\<rparr>"

text \<open>
  The namespace and the frame with which \<^verbatim>\<open>prepare_data\<close> is called in the first run, and
  the frame it leaves to its caller.
\<close>

definition ns_prepare_ex :: "nat ns" where
  "ns_prepare_ex =
     empty_ns\<lparr>bound := [''np'', ''OrdinalEncoder'', ''prepare_data''],
              v_df := Some (df_setitem_series df_ex ''target'' [Num 1, Num 0]),
              v_cols_categorical := Some cols_categorical\<rparr>"

definition df_encoded_ex :: dataframe where
  "df_encoded_ex =
     \<lparr>nrows = 2,
      cols =
        [(''age'', [Num 39, Num 50]),
         (''workclass'', [Num 0, Num 1]),
         (''education'', [Num 0, Num 1]),
         (''marital-status'', [Num 0, Num 1]),
         (''occupation'', [Num 0, Num 1]),
         (''relationship'', [Num 0, Num 1]),
         (''race'', [Num 0, Num 1]),
         (''sex'', [Num 0, Num 1]),
         (''native-country'', [Num 0, Num 1]),
         (''target'', [Num 1, Num 0])]\<rparr>"

subsection \<open>Reading results\<close>

lemma outcome_ret [simp]: "outcome (ret x) = Inr x"
  by (simp add: outcome_def ret_def)

lemma trace_ret [simp]: "trace (ret x) = []"
  by (simp add: trace_def ret_def)

lemma outcome_raise [simp]: "outcome (raise e) = Inl e"
  by (simp add: outcome_def raise_def)

lemma trace_raise [simp]: "trace (raise e) = []"
  by (simp add: trace_def raise_def)

lemma outcome_bind:
  "outcome (bind m f) = (case outcome m of Inl e \<Rightarrow> Inl e | Inr x \<Rightarrow> outcome (f x))"
  by (simp add: outcome_def bind_def split: prod.splits sum.splits)

lemma trace_bind:
  "trace (bind m f) = (case outcome m of Inl e \<Rightarrow> trace m | Inr x \<Rightarrow> trace m @ trace (f x))"
  by (simp add: outcome_def trace_def bind_def split: prod.splits sum.splits)

lemma outcome_call [simp]:
  "outcome (call c r) = (case r of Inl x \<Rightarrow> Inl (LibError x) | Inr v \<Rightarrow> Inr v)"
  by (simp add: outcome_def call_def)

lemma trace_call [simp]: "trace (call c r) = [c]"
  by (simp add: trace_def call_def)

lemma outcome_lib [simp]:
  "outcome (lib r) = (case r of Inl x \<Rightarrow> Inl (LibError x) | Inr v \<Rightarrow> Inr v)"
  by (simp add: outcome_def lib_def)

lemma trace_lib [simp]: "trace (lib r) = []"
  by (simp add: trace_def lib_def)

lemma outcome_rd [simp]:
  "outcome (rd name v) = (case v of None \<Rightarrow> Inl (NameError name) | Some x \<Rightarrow> Inr x)"
  by (simp add: rd_def split: option.splits)

lemma trace_rd [simp]: "trace (rd name v) = []"
  by (simp add: rd_def split: option.splits)

lemma outcome_need [simp]:
  "outcome (need ns name) = (if name \<in> set (bound ns) then Inr () else Inl (NameError name))"
  by (simp add: need_def)

lemma trace_need [simp]: "trace (need ns name) = []"
  by (simp add: need_def)

lemma res_eqI: "trace m = trace m' \<Longrightarrow> outcome m = outcome m' \<Longrightarrow> m = m'"
  by (simp add: trace_def outcome_def prod_eq_iff)

text \<open>Success of a sequence is success of each part.\<close>

lemma bind_InrE:
  assumes "outcome (bind m f) = Inr y"
  obtains x where "outcome m = Inr x" and "outcome (f x) = Inr y"
  using assms by (auto simp: outcome_bind split: sum.splits)

lemma bind_InlE:
  assumes "outcome (bind m f) = Inl e"
  obtains "outcome m = Inl e" | x where "outcome m = Inr x" and "outcome (f x) = Inl e"
  using assms by (auto simp: outcome_bind split: sum.splits)

lemma call_InrD: "outcome (call c r) = Inr v \<Longrightarrow> r = Inr v"
  by (simp split: sum.splits)

lemma lib_InrD: "outcome (lib r) = Inr v \<Longrightarrow> r = Inr v"
  by (simp split: sum.splits)

lemma rd_InrD: "outcome (rd name v) = Inr x \<Longrightarrow> v = Some x"
  by (simp split: option.splits)

lemma need_InrD: "outcome (need ns name) = Inr u \<Longrightarrow> name \<in> set (bound ns)"
  by (simp split: if_splits)

lemma run_all_ConsE:
  assumes "outcome (run_all (c # cs) s) = Inr s'"
  obtains s1 where "outcome (c s) = Inr s1" and "outcome (run_all cs s1) = Inr s'"
  using assms by (auto elim: bind_InrE)

lemma run_all_NilD: "outcome (run_all [] s) = Inr s' \<Longrightarrow> s' = s"
  by simp

lemma run_all_append: "run_all (cs @ ds) s = bind (run_all cs s) (run_all ds)"
proof (induction cs arbitrary: s)
  case Nil
  show ?case
    by (rule res_eqI) (simp_all add: trace_bind outcome_bind)
next
  case (Cons c cs)
  show ?case
    by (rule res_eqI)
      (auto simp: Cons.IH trace_bind outcome_bind split: sum.splits)
qed

subsection \<open>The column split and the feature properties\<close>

lemma fold_upd:
  "fold (\<lambda>k m. m(k \<mapsto> v)) ks m0 k' = (if k' \<in> set ks then Some v else m0 k')"
  by (induction ks arbitrary: m0) auto

lemma dict_comp_apply: "dict_comp ks v k = (if k \<in> set ks then Some v else None)"
  by (simp add: dict_comp_def fold_upd)

lemma dom_dict_comp: "dom (dict_comp ks v) = set ks"
  by (auto simp: dom_def dict_comp_apply)

lemma set_cols_noncat: "set (cols_noncat cs cc) = set cs - set cc"
  by (auto simp: cols_noncat_def)

lemma dom_feature_properties: "dom (feature_properties E cc nc) = set cc \<union> set nc"
  by (auto simp: feature_properties_def dom_dict_comp)

lemma feature_properties_noncat:
  "c \<in> set nc \<Longrightarrow>
   feature_properties E cc nc c = Some (IS_CONTINUOUS E OR HAS_MISSING E OR MISSING_NOT_LEARNED E)"
  by (simp add: feature_properties_def map_add_def dict_comp_apply)

lemma feature_properties_cat:
  "c \<in> set cc \<Longrightarrow> c \<notin> set nc \<Longrightarrow>
   feature_properties E cc nc c = Some (IS_UNORDERED E OR HAS_MISSING E OR MISSING_NOT_LEARNED E)"
  by (simp add: feature_properties_def map_add_def dict_comp_apply)

subsection \<open>The coverage assertion\<close>

lemma uncovered_subset:
  "set cs0 \<subseteq> set cs \<Longrightarrow> uncovered (cols_noncat cs0 cc) cc cs \<subseteq> set cc"
  by (auto simp: uncovered_def set_cols_noncat)

lemma uncovered_empty_iff:
  "set cs0 \<subseteq> set cs \<Longrightarrow> uncovered (cols_noncat cs0 cc) cc cs = {} \<longleftrightarrow> set cc \<subseteq> set cs"
  by (auto simp: uncovered_def set_cols_noncat)

lemma columns_ensure_valid_index [simp]: "columns (ensure_valid_index df k) = columns df"
  by (simp add: ensure_valid_index_def columns_def comp_def)

lemma set_fst_update: "fst ` set (AList.update k v al) = insert k (fst ` set al)"
  by (induction al) auto

lemma set_columns_setitem_series:
  "set (columns (df_setitem_series df c s)) = insert c (set (columns df))"
proof -
  have "set (columns (df_setitem_series df c s)) = insert c (set (columns (ensure_valid_index df (length s))))"
    by (simp add: df_setitem_series_def Let_def columns_def set_fst_update)
  then show ?thesis by simp
qed

lemma target_not_categorical: "''target'' \<notin> set cols_categorical"
  by (simp add: cols_categorical_def)

lemma distinct_cols_categorical: "distinct cols_categorical"
  by (simp add: cols_categorical_def)

subsection \<open>What each cell does when it succeeds\<close>

lemmas succ_elims = bind_InrE run_all_ConsE
lemmas succ_dests = call_InrD lib_InrD rd_InrD need_InrD run_all_NilD

lemma bound_same: "\<exists>bs. ns = ns\<lparr>bound := bound ns @ bs\<rparr>"
  by (rule exI [of _ "[]"]) simp

lemma cell_black_Inr:
  "outcome (cell_black E ns) = Inr ns' \<Longrightarrow> \<exists>bs. ns' = ns\<lparr>bound := bound ns @ bs\<rparr>"
  by (auto simp: cell_black_def bind_names_def outcome_def Let_def ret_def raise_def bound_same
      split: sum.splits if_splits)

lemma import_stmt_Inr:
  "outcome (import_stmt E m names ns) = Inr ns' \<Longrightarrow> ns' = ns\<lparr>bound := bound ns @ names\<rparr>"
  by (auto simp: import_stmt_def bind_names_def elim!: succ_elims dest!: succ_dests)

lemma cell_imports_Inr:
  "outcome (cell_imports E ns) = Inr ns' \<Longrightarrow>
   ns' = ns\<lparr>bound := bound ns @ [''pd'', ''np'', ''OrdinalEncoder'', ''Pipeline'', ''flags'',
     ''common_smoothers'', ''observers'', ''binning'', ''plot_analysis'',
     ''pipeline_CBClassifier'']\<rparr>"
  unfolding cell_imports_def
  by (auto elim!: succ_elims dest!: import_stmt_Inr succ_dests)

lemma cell_load_Inr:
  "outcome (cell_load E ns) = Inr ns' \<Longrightarrow>
   \<exists>d df0. fetch_openml E 1590 = Inr d \<and> pd_DataFrame E (bdata d) (feature_names d) = Inr df0 \<and>
     ns' = ns\<lparr>bound := bound ns @ [''fetch_openml''], v_data := Some d, v_df := Some df0\<rparr>"
  unfolding cell_load_def
  by (elim succ_elims) (fastforce dest!: import_stmt_Inr succ_dests)

lemma cell_split_Inr:
  "outcome (cell_split ns) = Inr ns' \<Longrightarrow>
   \<exists>df. v_df ns = Some df \<and>
     ns' = ns\<lparr>v_cols_categorical := Some cols_categorical,
              v_cols_noncat := Some (cols_noncat (columns df) cols_categorical)\<rparr>"
  unfolding cell_split_def
  by (auto simp: cols_noncat_def elim!: succ_elims dest!: succ_dests split: if_splits)

lemma cell_target_Inr:
  "outcome (cell_target ns) = Inr ns' \<Longrightarrow>
   \<exists>d df. v_data ns = Some d \<and> v_df ns = Some df \<and>
     ns' = ns\<lparr>v_df := Some (df_setitem_series df ''target''
                         (series_mul (series_eq (target d) (Str ''>50K'')) 1))\<rparr>"
  unfolding cell_target_def
  by (auto elim!: succ_elims dest!: succ_dests)

lemma cell_show_cols_Inr: "outcome (cell_show_cols ns) = Inr ns' \<Longrightarrow> ns' = ns"
  unfolding cell_show_cols_def by (auto elim!: succ_elims dest!: succ_dests)

lemma cell_show_columns_Inr: "outcome (cell_show_columns ns) = Inr ns' \<Longrightarrow> ns' = ns"
  unfolding cell_show_columns_def by (auto elim!: succ_elims dest!: succ_dests)

lemma cell_assert_Inr:
  "outcome (cell_assert ns) = Inr ns' \<Longrightarrow>
   ns' = ns \<and> (\<exists>nc cc df. v_cols_noncat ns = Some nc \<and> v_cols_categorical ns = Some cc \<and>
     v_df ns = Some df \<and> uncovered nc cc (columns df) = {})"
  unfolding cell_assert_def
  by (auto elim!: succ_elims dest!: succ_dests split: if_splits)

lemma cell_def_prepare_Inr:
  "outcome (cell_def_prepare ns) = Inr ns' \<Longrightarrow> ns' = ns\<lparr>bound := bound ns @ [''prepare_data'']\<rparr>"
  by (auto simp: cell_def_prepare_def bind_names_def)

lemma prepare_data_Inr:
  "outcome (prepare_data E ns df) = Inr r \<Longrightarrow>
   \<exists>enc cc sub a df1 y X.
     OrdinalEncoder E ''use_encoded_value'' NaN = Inr enc \<and>
     v_cols_categorical ns = Some cc \<and>
     df_getitem_list df cc = Inr sub \<and>
     fit_transform E enc sub = Inr a \<and>
     df_setitem_list df cc a = Inr df1 \<and>
     df_getitem df1 ''target'' = Inr y \<and>
     df_drop df1 ''target'' = Inr X \<and>
     r = (df1, X, y)"
  unfolding prepare_data_def
  by (auto elim!: succ_elims dest!: succ_dests)

lemma cell_prepare_Inr:
  "outcome (cell_prepare E ns) = Inr ns' \<Longrightarrow>
   \<exists>df cc enc sub a df1 X y. v_df ns = Some df \<and> v_cols_categorical ns = Some cc \<and>
     OrdinalEncoder E ''use_encoded_value'' NaN = Inr enc \<and>
     df_getitem_list df cc = Inr sub \<and>
     fit_transform E enc sub = Inr a \<and>
     df_setitem_list df cc a = Inr df1 \<and>
     df_getitem df1 ''target'' = Inr y \<and>
     df_drop df1 ''target'' = Inr X \<and>
     ns' = ns\<lparr>v_df := Some df1, v_X := Some X, v_y := Some y\<rparr>"
  unfolding cell_prepare_def
  by (elim succ_elims) (fastforce dest!: succ_dests prepare_data_Inr)

lemma cell_show_y_Inr: "outcome (cell_show_y ns) = Inr ns' \<Longrightarrow> ns' = ns"
  unfolding cell_show_y_def by (auto elim!: succ_elims dest!: succ_dests)

lemma cell_features_Inr:
  "outcome (cell_features E ns) = Inr ns' \<Longrightarrow>
   \<exists>cc nc. v_cols_categorical ns = Some cc \<and> v_cols_noncat ns = Some nc \<and>
     ns' = ns\<lparr>v_features := Some (features cc nc),
              v_feature_properties := Some (feature_properties E cc nc)\<rparr>"
  unfolding cell_features_def
  by (auto elim!: succ_elims dest!: succ_dests)

lemma cell_def_model_Inr:
  "outcome (cell_def_model ns) = Inr ns' \<Longrightarrow>
   ns' = ns\<lparr>bound := bound ns @ [''cb_classifier_model'']\<rparr>"
  by (auto simp: cell_def_model_def bind_names_def)

lemma cell_model_Inr:
  "outcome (cell_model E ns) = Inr ns' \<Longrightarrow>
   \<exists>est. outcome (cb_classifier_model E ns) = Inr est \<and> ns' = ns\<lparr>v_CB_est := Some est\<rparr>"
  unfolding cell_model_def
  by (auto elim!: succ_elims dest!: succ_dests)

lemma fit_once_Inr:
  "outcome (fit_once E ns) = Inr ns' \<Longrightarrow> \<exists>est. ns' = ns\<lparr>v_CB_est := Some est\<rparr>"
  unfolding fit_once_def
  by (auto elim!: succ_elims dest!: succ_dests)

lemma fit_loop_Inr:
  "outcome (run_all (replicate k (fit_once E)) ns) = Inr ns' \<Longrightarrow>
   \<exists>e. ns' = ns\<lparr>v_CB_est := e\<rparr> \<and> (v_CB_est ns \<noteq> None \<longrightarrow> e \<noteq> None)"
proof (induction k arbitrary: ns)
  case 0
  then have "ns' = ns\<lparr>v_CB_est := v_CB_est ns\<rparr>" by simp
  then show ?case by blast
next
  case (Suc k)
  from Suc.prems obtain ns1 where a: "outcome (fit_once E ns) = Inr ns1"
    and b: "outcome (run_all (replicate k (fit_once E)) ns1) = Inr ns'"
    by (auto elim: bind_InrE)
  from a obtain est where ns1: "ns1 = ns\<lparr>v_CB_est := Some est\<rparr>"
    by (auto dest: fit_once_Inr)
  from Suc.IH [OF b] obtain e where "ns' = ns1\<lparr>v_CB_est := e\<rparr>" and "e \<noteq> None"
    by (auto simp: ns1)
  then have "ns' = ns\<lparr>v_CB_est := e\<rparr> \<and> (v_CB_est ns \<noteq> None \<longrightarrow> e \<noteq> None)"
    by (simp add: ns1)
  then show ?case by blast
qed

lemma cell_fit_Inr:
  "outcome (cell_fit E ns) = Inr ns' \<Longrightarrow>
   \<exists>e. ns' = ns\<lparr>v_CB_est := e\<rparr> \<and> (v_CB_est ns \<noteq> None \<longrightarrow> e \<noteq> None)"
  unfolding cell_fit_def by (rule fit_loop_Inr)

lemma cell_predict_Inr:
  "outcome (cell_predict E ns) = Inr ns' \<Longrightarrow>
   \<exists>est X yh. v_CB_est ns = Some est \<and> v_X ns = Some X \<and> est_predict_proba E est X = Inr yh \<and>
     ns' = ns\<lparr>v_yhat := Some yh\<rparr>"
  unfolding cell_predict_def
  by (auto elim!: succ_elims dest!: succ_dests)

lemma cell_mad_Inr:
  "outcome (cell_mad ns) = Inr ns' \<Longrightarrow>
   \<exists>y yh m. v_y ns = Some y \<and> v_yhat ns = Some yh \<and> outcome (mad_of y yh) = Inr m \<and>
     ns' = ns\<lparr>v_mad := Some m\<rparr>"
  unfolding cell_mad_def
  by (auto elim!: succ_elims dest!: succ_dests)

lemma cell_score_Inr: "outcome (cell_score E ns) = Inr ns' \<Longrightarrow> ns' = ns"
  unfolding cell_score_def by (auto elim!: succ_elims dest!: succ_dests)

lemma cell_def_plot_Inr:
  "outcome (cell_def_plot ns) = Inr ns' \<Longrightarrow> ns' = ns\<lparr>bound := bound ns @ [''plot_CB'']\<rparr>"
  by (auto simp: cell_def_plot_def bind_names_def)

lemma cell_plot_Inr: "outcome (cell_plot E ns) = Inr ns' \<Longrightarrow> ns' = ns"
  unfolding cell_plot_def by (auto elim!: succ_elims dest!: succ_dests)

lemma cell_pred_Inr:
  "outcome (cell_pred ns) = Inr ns' \<Longrightarrow>
   \<exists>yh p0 df df'. v_yhat ns = Some yh \<and> column_of yh 0 = Inr p0 \<and> v_df ns = Some df \<and>
     df_setitem_array df ''pred'' p0 = Inr df' \<and> ns' = ns\<lparr>v_df := Some df'\<rparr>"
  unfolding cell_pred_def
  by (auto elim!: succ_elims dest!: succ_dests)

lemma cell_hist_Inr:
  "outcome (cell_hist E ns) = Inr ns' \<Longrightarrow> \<exists>ax. ns' = ns\<lparr>v_ax := Some ax\<rparr>"
  unfolding cell_hist_def
  by (auto elim!: succ_elims dest!: succ_dests)


text \<open>The namespace in which the assertion runs.\<close>

lemma before_assert_Inr:
  assumes "outcome (run_all (before_assert E) empty_ns) = Inr ns"
  shows "\<exists>b d df0.
     fetch_openml E 1590 = Inr d \<and> pd_DataFrame E (bdata d) (feature_names d) = Inr df0 \<and>
     ns = empty_ns\<lparr>bound := b, v_data := Some d,
            v_df := Some (df_setitem_series df0 ''target''
                            (series_mul (series_eq (target d) (Str ''>50K'')) 1)),
            v_cols_categorical := Some cols_categorical,
            v_cols_noncat := Some (cols_noncat (columns df0) cols_categorical)\<rparr>"
  using assms unfolding before_assert_def empty_ns_def
  by (auto elim!: bind_InrE
      dest!: run_all_NilD cell_black_Inr cell_imports_Inr cell_load_Inr cell_split_Inr
        cell_target_Inr cell_show_cols_Inr cell_show_columns_Inr)

lemma middle_Inr:
  assumes "outcome (run_all [cell_assert, cell_def_prepare, cell_prepare E, cell_show_y,
             cell_features E, cell_def_model, cell_model E] ns) = Inr ns'"
  shows "\<exists>b nc cc df enc sub a df2 X y est.
     v_cols_noncat ns = Some nc \<and> v_cols_categorical ns = Some cc \<and> v_df ns = Some df \<and>
     uncovered nc cc (columns df) = {} \<and>
     OrdinalEncoder E ''use_encoded_value'' NaN = Inr enc \<and>
     df_getitem_list df cc = Inr sub \<and>
     fit_transform E enc sub = Inr a \<and>
     df_setitem_list df cc a = Inr df2 \<and>
     df_getitem df2 ''target'' = Inr y \<and>
     df_drop df2 ''target'' = Inr X \<and>
     ns' = \<lparr>bound = b, v_data = v_data ns, v_df = Some df2, v_cols_categorical = Some cc,
            v_cols_noncat = Some nc, v_X = Some X, v_y = Some y,
            v_features = Some (features cc nc),
            v_feature_properties = Some (feature_properties E cc nc),
            v_CB_est = Some est, v_yhat = v_yhat ns, v_mad = v_mad ns, v_ax = v_ax ns\<rparr>"
  using assms
  by (cases ns) (auto elim!: bind_InrE
      dest!: run_all_NilD cell_assert_Inr cell_def_prepare_Inr cell_prepare_Inr
        cell_show_y_Inr cell_features_Inr cell_def_model_Inr cell_model_Inr)

lemma final_Inr:
  assumes "outcome (run_all [cell_fit E, cell_predict E, cell_mad, cell_score E, cell_def_plot,
             cell_plot E, cell_pred, cell_hist E] ns) = Inr ns'"
  shows "\<exists>b X y df est yh m p0 df3 ax.
     v_X ns = Some X \<and> v_y ns = Some y \<and> v_df ns = Some df \<and>
     est_predict_proba E est X = Inr yh \<and>
     outcome (mad_of y yh) = Inr m \<and>
     column_of yh 0 = Inr p0 \<and>
     df_setitem_array df ''pred'' p0 = Inr df3 \<and>
     ns' = \<lparr>bound = b, v_data = v_data ns, v_df = Some df3,
            v_cols_categorical = v_cols_categorical ns, v_cols_noncat = v_cols_noncat ns,
            v_X = Some X, v_y = Some y, v_features = v_features ns,
            v_feature_properties = v_feature_properties ns,
            v_CB_est = Some est, v_yhat = Some yh, v_mad = Some m, v_ax = Some ax\<rparr>"
proof -
  from assms obtain n1 n2 n3 n4 n5 n6 n7 where
    c1: "outcome (cell_fit E ns) = Inr n1" and
    c2: "outcome (cell_predict E n1) = Inr n2" and
    c3: "outcome (cell_mad n2) = Inr n3" and
    c4: "outcome (cell_score E n3) = Inr n4" and
    c5: "outcome (cell_def_plot n4) = Inr n5" and
    c6: "outcome (cell_plot E n5) = Inr n6" and
    c7: "outcome (cell_pred n6) = Inr n7" and
    c8: "outcome (cell_hist E n7) = Inr ns'"
    by (elim run_all_ConsE) (auto dest!: run_all_NilD)
  from c1 obtain e where n1: "n1 = ns\<lparr>v_CB_est := e\<rparr>"
    by (auto dest: cell_fit_Inr)
  from c2 obtain est X yh where
    p: "v_CB_est n1 = Some est" "v_X n1 = Some X" "est_predict_proba E est X = Inr yh" and
    n2: "n2 = n1\<lparr>v_yhat := Some yh\<rparr>"
    by (auto dest: cell_predict_Inr)
  from c3 obtain y yh' m where
    q: "v_y n2 = Some y" "v_yhat n2 = Some yh'" "outcome (mad_of y yh') = Inr m" and
    n3: "n3 = n2\<lparr>v_mad := Some m\<rparr>"
    by (auto dest: cell_mad_Inr)
  from c4 have n4: "n4 = n3"
    by (rule cell_score_Inr)
  from c5 have n5: "n5 = n4\<lparr>bound := bound n4 @ [''plot_CB'']\<rparr>"
    by (rule cell_def_plot_Inr)
  from c6 have n6: "n6 = n5"
    by (rule cell_plot_Inr)
  from c7 obtain yh'' p0 df df3 where
    r: "v_yhat n6 = Some yh''" "column_of yh'' 0 = Inr p0" "v_df n6 = Some df"
       "df_setitem_array df ''pred'' p0 = Inr df3" and
    n7: "n7 = n6\<lparr>v_df := Some df3\<rparr>"
    by (auto dest: cell_pred_Inr)
  from c8 obtain ax where n8: "ns' = n7\<lparr>v_ax := Some ax\<rparr>"
    by (auto dest: cell_hist_Inr)
  have same: "yh' = yh" "yh'' = yh"
    using q(2) r(1) by (simp_all add: n6 n5 n4 n3 n2)
  have vals: "v_X ns = Some X" "v_y ns = Some y" "v_df ns = Some df"
    using p(2) q(1) r(3) by (simp_all add: n6 n5 n4 n3 n2 n1)
  have "ns' = \<lparr>bound = bound ns @ [''plot_CB''], v_data = v_data ns, v_df = Some df3,
            v_cols_categorical = v_cols_categorical ns, v_cols_noncat = v_cols_noncat ns,
            v_X = Some X, v_y = Some y, v_features = v_features ns,
            v_feature_properties = v_feature_properties ns,
            v_CB_est = Some est, v_yhat = Some yh, v_mad = Some m, v_ax = Some ax\<rparr>"
    using p(1) vals by (cases ns) (simp add: n8 n7 n6 n5 n4 n3 n2 n1)
  with vals p(3) q(3) r(2,4) show ?thesis
    unfolding same by (intro exI conjI)
qed

lemma notebook_split:
  "notebook E =
     before_assert E
     @ [cell_assert, cell_def_prepare, cell_prepare E, cell_show_y, cell_features E,
        cell_def_model, cell_model E]
     @ [cell_fit E, cell_predict E, cell_mad, cell_score E, cell_def_plot, cell_plot E,
        cell_pred, cell_hist E]"
  by (simp add: notebook_def before_assert_def)

text \<open>Everything a run that reaches the end has computed.\<close>

lemma run_Inr:
  assumes "outcome (run E) = Inr ns"
  shows "\<exists>b d df0 enc sub a df2 X y est yh m p0 df3 ax.
     fetch_openml E 1590 = Inr d \<and> pd_DataFrame E (bdata d) (feature_names d) = Inr df0 \<and>
     uncovered (cols_noncat (columns df0) cols_categorical) cols_categorical
       (columns (df_setitem_series df0 ''target''
          (series_mul (series_eq (target d) (Str ''>50K'')) 1))) = {} \<and>
     OrdinalEncoder E ''use_encoded_value'' NaN = Inr enc \<and>
     df_getitem_list (df_setitem_series df0 ''target''
          (series_mul (series_eq (target d) (Str ''>50K'')) 1)) cols_categorical = Inr sub \<and>
     fit_transform E enc sub = Inr a \<and>
     df_setitem_list (df_setitem_series df0 ''target''
          (series_mul (series_eq (target d) (Str ''>50K'')) 1)) cols_categorical a = Inr df2 \<and>
     df_getitem df2 ''target'' = Inr y \<and>
     df_drop df2 ''target'' = Inr X \<and>
     est_predict_proba E est X = Inr yh \<and>
     outcome (mad_of y yh) = Inr m \<and>
     column_of yh 0 = Inr p0 \<and>
     df_setitem_array df2 ''pred'' p0 = Inr df3 \<and>
     ns = \<lparr>bound = b, v_data = Some d, v_df = Some df3,
            v_cols_categorical = Some cols_categorical,
            v_cols_noncat = Some (cols_noncat (columns df0) cols_categorical),
            v_X = Some X, v_y = Some y,
            v_features = Some (features cols_categorical (cols_noncat (columns df0) cols_categorical)),
            v_feature_properties = Some (feature_properties E cols_categorical
               (cols_noncat (columns df0) cols_categorical)),
            v_CB_est = Some est, v_yhat = Some yh, v_mad = Some m, v_ax = Some ax\<rparr>"
proof -
  from assms obtain n7 n14 where
    s1: "outcome (run_all (before_assert E) empty_ns) = Inr n7" and
    s2: "outcome (run_all [cell_assert, cell_def_prepare, cell_prepare E, cell_show_y,
             cell_features E, cell_def_model, cell_model E] n7) = Inr n14" and
    s3: "outcome (run_all [cell_fit E, cell_predict E, cell_mad, cell_score E, cell_def_plot,
             cell_plot E, cell_pred, cell_hist E] n14) = Inr ns"
    unfolding run_def notebook_split run_all_append
    by (elim bind_InrE) blast
  from before_assert_Inr [OF s1] obtain b7 d df0 where
    f: "fetch_openml E 1590 = Inr d" "pd_DataFrame E (bdata d) (feature_names d) = Inr df0" and
    n7: "n7 = empty_ns\<lparr>bound := b7, v_data := Some d,
            v_df := Some (df_setitem_series df0 ''target''
                            (series_mul (series_eq (target d) (Str ''>50K'')) 1)),
            v_cols_categorical := Some cols_categorical,
            v_cols_noncat := Some (cols_noncat (columns df0) cols_categorical)\<rparr>"
    by blast
  from middle_Inr [OF s2] obtain b14 nc cc df enc sub a df2 X y est0 where
    m: "v_cols_noncat n7 = Some nc" "v_cols_categorical n7 = Some cc" "v_df n7 = Some df"
       "uncovered nc cc (columns df) = {}"
       "OrdinalEncoder E ''use_encoded_value'' NaN = Inr enc"
       "df_getitem_list df cc = Inr sub"
       "fit_transform E enc sub = Inr a"
       "df_setitem_list df cc a = Inr df2"
       "df_getitem df2 ''target'' = Inr y"
       "df_drop df2 ''target'' = Inr X" and
    n14: "n14 = \<lparr>bound = b14, v_data = v_data n7, v_df = Some df2,
            v_cols_categorical = Some cc, v_cols_noncat = Some nc, v_X = Some X, v_y = Some y,
            v_features = Some (features cc nc),
            v_feature_properties = Some (feature_properties E cc nc),
            v_CB_est = Some est0, v_yhat = v_yhat n7, v_mad = v_mad n7, v_ax = v_ax n7\<rparr>"
    by blast
  from m(1-3) have eqs: "nc = cols_noncat (columns df0) cols_categorical" "cc = cols_categorical"
    "df = df_setitem_series df0 ''target'' (series_mul (series_eq (target d) (Str ''>50K'')) 1)"
    by (simp_all add: n7)
  from final_Inr [OF s3] obtain b X' y' df' est yh mm p0 df3 ax where
    l: "v_X n14 = Some X'" "v_y n14 = Some y'" "v_df n14 = Some df'"
       "est_predict_proba E est X' = Inr yh"
       "outcome (mad_of y' yh) = Inr mm"
       "column_of yh 0 = Inr p0"
       "df_setitem_array df' ''pred'' p0 = Inr df3" and
    ns: "ns = \<lparr>bound = b, v_data = v_data n14, v_df = Some df3,
            v_cols_categorical = v_cols_categorical n14, v_cols_noncat = v_cols_noncat n14,
            v_X = Some X', v_y = Some y', v_features = v_features n14,
            v_feature_properties = v_feature_properties n14,
            v_CB_est = Some est, v_yhat = Some yh, v_mad = Some mm, v_ax = Some ax\<rparr>"
    by blast
  from l(1-3) have eqs2: "X' = X" "y' = y" "df' = df2"
    by (simp_all add: n14)
  have nsF: "ns = \<lparr>bound = b, v_data = Some d, v_df = Some df3,
            v_cols_categorical = Some cols_categorical,
            v_cols_noncat = Some (cols_noncat (columns df0) cols_categorical),
            v_X = Some X, v_y = Some y,
            v_features = Some (features cols_categorical (cols_noncat (columns df0) cols_categorical)),
            v_feature_properties = Some (feature_properties E cols_categorical
               (cols_noncat (columns df0) cols_categorical)),
            v_CB_est = Some est, v_yhat = Some yh, v_mad = Some mm, v_ax = Some ax\<rparr>"
    by (simp add: ns n14 n7 eqs eqs2 empty_ns_def)
  show ?thesis
    using f m(4-10) l(4-7) nsF unfolding eqs eqs2
    by blast
qed

subsection \<open>Column assignment\<close>

lemma map_of_update: "map_of (AList.update k v al) k' = (if k' = k then Some v else map_of al k')"
  by (simp add: update_conv')

lemma columns_update:
  "map fst (AList.update k v al) = (if k \<in> set (map fst al) then map fst al else map fst al @ [k])"
  by (simp add: update_keys)

lemma list_all_update:
  "list_all P al \<Longrightarrow> P (k, v) \<Longrightarrow> list_all P (AList.update k v al)"
  by (induction al) auto

lemma wf_ensure_valid_index: "wf_frame df \<Longrightarrow> wf_frame (ensure_valid_index df k)"
  by (simp add: wf_frame_def ensure_valid_index_def list_all_iff)

lemma df_setitem_array_Inr:
  assumes "df_setitem_array df c v = Inr df'"
  shows "length v = nrows df'"
    and "df' = (ensure_valid_index df (length v))\<lparr>cols := AList.update c v (cols (ensure_valid_index df (length v)))\<rparr>"
  using assms by (auto simp: df_setitem_array_def Let_def split: if_splits)

lemma df_setitem_array_stable:
  assumes "df_setitem_array df c v = Inr df'" and "0 < nrows df \<or> length v = nrows df"
  shows "nrows df' = nrows df" and "cols df' = AList.update c v (cols df)"
  using assms by (auto simp: df_setitem_array_def Let_def ensure_valid_index_def split: if_splits)

lemma wf_df_setitem_array:
  "df_setitem_array df c v = Inr df' \<Longrightarrow> wf_frame df \<Longrightarrow> wf_frame df'"
  using wf_ensure_valid_index [of df "length v"]
  by (auto simp: df_setitem_array_def Let_def wf_frame_def intro!: list_all_update split: if_splits)

lemma column_of_Inr:
  "column_of a j = Inr v \<Longrightarrow> length v = shape0 a \<and> v = map (\<lambda>i. item a i j) [0..<shape0 a]"
  by (auto simp: column_of_def split: if_splits)

text \<open>Once the frame has the rows of the array, assigning its columns changes nothing else.\<close>

lemma assign_columns_stable:
  "assign_columns df a j ks = Inr df' \<Longrightarrow> nrows df = shape0 a \<Longrightarrow>
   nrows df' = shape0 a \<and>
   (\<forall>c. c \<notin> set ks \<longrightarrow> map_of (cols df') c = map_of (cols df) c) \<and>
   (distinct ks \<longrightarrow> (\<forall>i<length ks. Inr (the (map_of (cols df') (ks ! i))) = column_of a (j + i)
       \<and> map_of (cols df') (ks ! i) \<noteq> None)) \<and>
   (set ks \<subseteq> set (columns df) \<longrightarrow> columns df' = columns df)"
proof (induction ks arbitrary: df j)
  case Nil
  then show ?case by simp
next
  case (Cons k ks)
  from Cons.prems(1) obtain v df1 where
    v: "column_of a j = Inr v" and
    s: "df_setitem_array df k v = Inr df1" and
    r: "assign_columns df1 a (Suc j) ks = Inr df'"
    by (auto split: sum.splits)
  from v have lv: "length v = shape0 a"
    by (simp add: column_of_Inr)
  with Cons.prems(2) have "length v = nrows df" by simp
  with s have n1: "nrows df1 = nrows df" and c1: "cols df1 = AList.update k v (cols df)"
    by (simp_all add: df_setitem_array_stable)
  from n1 Cons.prems(2) have n1': "nrows df1 = shape0 a" by simp
  note IH = Cons.IH [OF r n1']
  have other: "\<forall>c. c \<notin> set (k # ks) \<longrightarrow> map_of (cols df') c = map_of (cols df) c"
    using IH by (simp add: c1 map_of_update)
  have mine: "distinct (k # ks) \<longrightarrow> (\<forall>i<length (k # ks).
      Inr (the (map_of (cols df') ((k # ks) ! i))) = column_of a (j + i)
      \<and> map_of (cols df') ((k # ks) ! i) \<noteq> None)"
  proof (intro impI allI)
    fix i assume d: "distinct (k # ks)" and i: "i < length (k # ks)"
    show "Inr (the (map_of (cols df') ((k # ks) ! i))) = column_of a (j + i)
      \<and> map_of (cols df') ((k # ks) ! i) \<noteq> None"
    proof (cases i)
      case 0
      from d have "k \<notin> set ks" by simp
      with IH have "map_of (cols df') k = map_of (cols df1) k" by simp
      then show ?thesis using 0 v by (simp add: c1 map_of_update)
    next
      case (Suc i')
      with d i IH show ?thesis by simp
    qed
  qed
  have colsame: "set (k # ks) \<subseteq> set (columns df) \<longrightarrow> columns df' = columns df"
  proof
    assume sub: "set (k # ks) \<subseteq> set (columns df)"
    then have "columns df1 = columns df"
      by (simp add: columns_def c1 columns_update)
    with sub IH show "columns df' = columns df" by simp
  qed
  from IH other mine colsame show ?case by blast
qed

lemma assign_columns_wf:
  "assign_columns df a j ks = Inr df' \<Longrightarrow> wf_frame df \<Longrightarrow> wf_frame df'"
proof (induction ks arbitrary: df j)
  case Nil
  then show ?case by simp
next
  case (Cons k ks)
  from Cons.prems(1) obtain v df1 where
    s: "df_setitem_array df k v = Inr df1" and
    r: "assign_columns df1 a (Suc j) ks = Inr df'"
    by (auto split: sum.splits)
  from s Cons.prems(2) have "wf_frame df1" by (rule wf_df_setitem_array)
  with r show ?case by (rule Cons.IH)
qed

text \<open>The first assignment gives the frame the rows of the array, whatever it had.\<close>

lemma assign_columns_keys:
  assumes "assign_columns df a j ks = Inr df'" and "distinct ks"
  shows "\<forall>i<length ks. Inr (the (map_of (cols df') (ks ! i))) = column_of a (j + i)
       \<and> map_of (cols df') (ks ! i) \<noteq> None"
proof (cases ks)
  case Nil
  then show ?thesis by simp
next
  case (Cons k ks')
  from assms(1) Cons obtain v df1 where
    v: "column_of a j = Inr v" and
    s: "df_setitem_array df k v = Inr df1" and
    r: "assign_columns df1 a (Suc j) ks' = Inr df'"
    by (auto split: sum.splits)
  from v s have n1: "nrows df1 = shape0 a"
    using df_setitem_array_Inr(1) [OF s] by (simp add: column_of_Inr)
  from s have k1: "map_of (cols df1) k = Some v"
    by (subst df_setitem_array_Inr(2) [OF s]) (simp add: map_of_update)
  note st = assign_columns_stable [OF r n1]
  from assms(2) Cons have d: "k \<notin> set ks'" "distinct ks'" by simp_all
  show ?thesis
  proof (intro allI impI)
    fix i assume i: "i < length ks"
    show "Inr (the (map_of (cols df') (ks ! i))) = column_of a (j + i)
       \<and> map_of (cols df') (ks ! i) \<noteq> None"
    proof (cases i)
      case 0
      with st d k1 v Cons show ?thesis by simp
    next
      case (Suc i')
      with st d i Cons show ?thesis by simp
    qed
  qed
qed

lemma select_cols_Inr:
  "select_cols al ks = Inr r \<Longrightarrow>
   map fst r = ks \<and> set ks \<subseteq> fst ` set al \<and> (\<forall>i<length ks. map_of al (ks ! i) = Some (snd (r ! i)))"
proof (induction ks arbitrary: r)
  case Nil
  then show ?case by simp
next
  case (Cons k ks)
  from Cons.prems obtain v r' where
    k: "map_of al k = Some v" and r': "select_cols al ks = Inr r'" and r: "r = (k, v) # r'"
    by (auto split: option.splits sum.splits)
  from k have "k \<in> fst ` set al"
    by (metis map_of_eq_None_iff option.distinct(1))
  with Cons.IH [OF r'] k r show ?case
    by (auto simp: nth_Cons split: nat.splits)
qed

lemma df_getitem_list_Inr:
  "df_getitem_list df ks = Inr sub \<Longrightarrow>
   nrows sub = nrows df \<and> columns sub = ks \<and> set ks \<subseteq> set (columns df) \<and>
   (\<forall>i<length ks. df_getitem df (ks ! i) = Inr (snd (cols sub ! i)))"
  by (auto simp: df_getitem_list_def columns_def df_getitem_def dest!: select_cols_Inr
      split: sum.splits)

lemma df_getitem_Inr: "df_getitem df c = Inr v \<Longrightarrow> map_of (cols df) c = Some v"
  by (simp add: df_getitem_def split: option.splits)

lemma wf_frame_getitem: "wf_frame df \<Longrightarrow> df_getitem df c = Inr v \<Longrightarrow> length v = nrows df"
  by (auto simp: wf_frame_def list_all_iff dest!: df_getitem_Inr map_of_SomeD)

lemma df_drop_Inr:
  "df_drop df c = Inr X \<Longrightarrow>
   c \<in> set (columns df) \<and> X = \<lparr>nrows = nrows df, cols = filter (\<lambda>p. fst p \<noteq> c) (cols df)\<rparr>"
  by (auto simp: df_drop_def split: if_splits)

lemma keys_ensure_valid_index: "map fst (cols (ensure_valid_index df k)) = map fst (cols df)"
  by (simp add: ensure_valid_index_def comp_def)

lemma assign_columns_columns:
  "assign_columns df a j ks = Inr df' \<Longrightarrow> set ks \<subseteq> set (columns df) \<Longrightarrow> columns df' = columns df"
proof (induction ks arbitrary: df j)
  case Nil
  then show ?case by simp
next
  case (Cons k ks)
  from Cons.prems(1) obtain v df1 where
    s: "df_setitem_array df k v = Inr df1" and
    r: "assign_columns df1 a (Suc j) ks = Inr df'"
    by (auto split: sum.splits)
  from Cons.prems(2) have "columns df1 = columns df"
    by (subst df_setitem_array_Inr(2) [OF s])
      (simp add: columns_def columns_update keys_ensure_valid_index)
  with Cons.IH [OF r] Cons.prems(2) show ?case by simp
qed

text \<open>
  C8. \<^verbatim>\<open>prepare_data\<close> changes the frame of its caller. When it returns for a well-formed
  frame, the frame it leaves has the columns of the frame it was given, every column listed
  in \<^verbatim>\<open>cols_categorical\<close> replaced by the column the encoder returned for it, and still
  has the column \<^verbatim>\<open>target\<close>; \<^verbatim>\<open>y\<close> is that column, one entry per row, and \<^verbatim>\<open>X\<close> is the
  frame without \<^verbatim>\<open>target\<close>, its other columns and its rows as they are. The cell that
  calls it leaves exactly that frame in \<^verbatim>\<open>df\<close>.
\<close>

theorem C8_prepare_data_mutates_frame:
  assumes "outcome (prepare_data E ns df) = Inr (df', X, y)"
    and "v_cols_categorical ns = Some cols_categorical"
    and "wf_frame df"
  shows "\<exists>enc sub a.
     OrdinalEncoder E ''use_encoded_value'' NaN = Inr enc \<and>
     df_getitem_list df cols_categorical = Inr sub \<and>
     columns sub = cols_categorical \<and>
     fit_transform E enc sub = Inr a \<and>
     (\<forall>j<length cols_categorical.
        df_getitem df (cols_categorical ! j) = Inr (snd (cols sub ! j)) \<and>
        df_getitem df' (cols_categorical ! j) = column_of a j) \<and>
     columns df' = columns df \<and>
     ''target'' \<in> set (columns df') \<and>
     df_getitem df' ''target'' = Inr y \<and>
     length y = nrows df' \<and>
     X = \<lparr>nrows = nrows df', cols = filter (\<lambda>p. fst p \<noteq> ''target'') (cols df')\<rparr> \<and>
     (\<forall>ns'. outcome (cell_prepare E ns) = Inr ns' \<and> v_df ns = Some df \<longrightarrow>
        v_df ns' = Some df' \<and> v_X ns' = Some X \<and> v_y ns' = Some y)"
proof -
  from prepare_data_Inr [OF assms(1)] assms(2) obtain enc sub a where
    enc: "OrdinalEncoder E ''use_encoded_value'' NaN = Inr enc" and
    sub: "df_getitem_list df cols_categorical = Inr sub" and
    a: "fit_transform E enc sub = Inr a" and
    set: "df_setitem_list df cols_categorical a = Inr df'" and
    y: "df_getitem df' ''target'' = Inr y" and
    X: "df_drop df' ''target'' = Inr X"
    by auto
  from set have asg: "assign_columns df a 0 cols_categorical = Inr df'"
    by (simp add: df_setitem_list_def split: if_splits)
  note subf = df_getitem_list_Inr [OF sub]
  have cols: "columns df' = columns df"
    using asg subf by (simp add: assign_columns_columns)
  have wf': "wf_frame df'"
    using asg assms(3) by (rule assign_columns_wf)
  have enc_cols: "\<forall>j<length cols_categorical.
        df_getitem df (cols_categorical ! j) = Inr (snd (cols sub ! j)) \<and>
        df_getitem df' (cols_categorical ! j) = column_of a j"
    using assign_columns_keys [OF asg distinct_cols_categorical] subf
    by (auto simp: df_getitem_def split: option.splits)
  have cell: "\<forall>ns'. outcome (cell_prepare E ns) = Inr ns' \<and> v_df ns = Some df \<longrightarrow>
        v_df ns' = Some df' \<and> v_X ns' = Some X \<and> v_y ns' = Some y"
    using assms(1)
    by (auto simp: cell_prepare_def elim!: bind_InrE dest!: rd_InrD)
  from enc sub a subf enc_cols cols y X wf' cell show ?thesis
    by (auto dest!: df_drop_Inr simp: wf_frame_getitem)
qed

theorem C8_witness:
  "outcome (prepare_data E_ex ns_prepare_ex (df_setitem_series df_ex ''target'' [Num 1, Num 0]))
     = Inr (df_encoded_ex,
            \<lparr>nrows = 2, cols = filter (\<lambda>p. fst p \<noteq> ''target'') (cols df_encoded_ex)\<rparr>,
            [Num 1, Num 0]) \<and>
   v_cols_categorical ns_prepare_ex = Some cols_categorical \<and>
   wf_frame (df_setitem_series df_ex ''target'' [Num 1, Num 0]) \<and>
   df_getitem df_encoded_ex ''target'' = Inr [Num 1, Num 0] \<and>
   length [Num 1, Num 0 :: cell] = nrows df_encoded_ex \<and>
   columns df_encoded_ex = columns (df_setitem_series df_ex ''target'' [Num 1, Num 0])"
proof -
  have h1: "outcome (prepare_data E_ex ns_prepare_ex (df_setitem_series df_ex ''target'' [Num 1, Num 0]))
     = Inr (df_encoded_ex,
            \<lparr>nrows = 2, cols = filter (\<lambda>p. fst p \<noteq> ''target'') (cols df_encoded_ex)\<rparr>,
            [Num 1, Num 0])"
    by code_simp
  have h2: "v_cols_categorical ns_prepare_ex = Some cols_categorical"
    by (simp add: ns_prepare_ex_def)
  have h3: "wf_frame (df_setitem_series df_ex ''target'' [Num 1, Num 0])"
    by code_simp
  from C8_prepare_data_mutates_frame [OF h1 h2 h3] h1 h2 h3 show ?thesis
    by blast
qed

subsection \<open>The first concrete run reaches the end\<close>

lemma run_ex_succeeds: "\<exists>ns. outcome (run E_ex) = Inr ns"
proof -
  have "case outcome (run E_ex) of Inl _ \<Rightarrow> False | Inr _ \<Rightarrow> True"
    by code_simp
  then show ?thesis
    by (cases "outcome (run E_ex)") simp_all
qed

lemma before_assert_ex_succeeds: "\<exists>ns. outcome (run_all (before_assert E_ex) empty_ns) = Inr ns"
proof -
  have "case outcome (run_all (before_assert E_ex) empty_ns) of Inl _ \<Rightarrow> False | Inr _ \<Rightarrow> True"
    by code_simp
  then show ?thesis
    by (cases "outcome (run_all (before_assert E_ex) empty_ns)") simp_all
qed

lemma E_ex_fetch:
  "fetch_openml E_ex 1590 =
     Inr \<lparr>bdata = 0, feature_names = columns df_ex, target = [Str ''>50K'', Str ''<=50K'']\<rparr>"
  by (simp add: E_ex_def)

lemma E_ex_frame: "pd_DataFrame E_ex x names = Inr df_ex"
  by (simp add: E_ex_def)

lemma categorical_in_df_ex: "set cols_categorical \<subseteq> set (columns df_ex)"
  by (simp add: cols_categorical_def columns_def df_ex_def)

subsection \<open>The assertion\<close>

lemma notebook_assert: "notebook E = before_assert E @ cell_assert # after_assert E"
  by (simp add: notebook_def before_assert_def after_assert_def)

text \<open>What the assertion does in the namespace it runs in.\<close>

lemma assert_outcome:
  assumes "outcome (run_all (before_assert E) empty_ns) = Inr ns"
  shows "\<exists>d df0 df1.
     notebook E = before_assert E @ cell_assert # after_assert E \<and>
     fetch_openml E 1590 = Inr d \<and> pd_DataFrame E (bdata d) (feature_names d) = Inr df0 \<and>
     v_cols_categorical ns = Some cols_categorical \<and>
     v_cols_noncat ns = Some (cols_noncat (columns df0) cols_categorical) \<and>
     v_df ns = Some df1 \<and>
     uncovered (cols_noncat (columns df0) cols_categorical) cols_categorical (columns df1)
       \<subseteq> set cols_categorical \<and>
     (outcome (cell_assert ns) = Inl (AssertionError ''Columns not in data set'')
        \<longleftrightarrow> (\<exists>c\<in>set cols_categorical. c \<notin> set (columns df0))) \<and>
     ((\<forall>c\<in>set cols_categorical. c \<in> set (columns df0)) \<longrightarrow> cell_assert ns = ret ns) \<and>
     (\<forall>e. outcome (cell_assert ns) = Inl e \<longrightarrow> e = AssertionError ''Columns not in data set'')"
proof -
  from before_assert_Inr [OF assms] obtain b d df0 where
    f: "fetch_openml E 1590 = Inr d" "pd_DataFrame E (bdata d) (feature_names d) = Inr df0" and
    ns: "ns = empty_ns\<lparr>bound := b, v_data := Some d,
            v_df := Some (df_setitem_series df0 ''target''
                            (series_mul (series_eq (target d) (Str ''>50K'')) 1)),
            v_cols_categorical := Some cols_categorical,
            v_cols_noncat := Some (cols_noncat (columns df0) cols_categorical)\<rparr>"
    by blast
  define df1 where "df1 = df_setitem_series df0 ''target''
                            (series_mul (series_eq (target d) (Str ''>50K'')) 1)"
  define nc where "nc = cols_noncat (columns df0) cols_categorical"
  have cs: "set (columns df1) = insert ''target'' (set (columns df0))"
    by (simp add: df1_def set_columns_setitem_series)
  then have sub: "set (columns df0) \<subseteq> set (columns df1)"
    by auto
  have iff: "uncovered nc cols_categorical (columns df1) = {}
      \<longleftrightarrow> set cols_categorical \<subseteq> set (columns df0)"
    using uncovered_empty_iff [OF sub, of cols_categorical] cs target_not_categorical
    by (auto simp: nc_def)
  have v: "v_cols_categorical ns = Some cols_categorical" "v_cols_noncat ns = Some nc"
    "v_df ns = Some df1"
    by (simp_all add: ns nc_def df1_def)
  have out: "outcome (cell_assert ns) =
      (if uncovered nc cols_categorical (columns df1) = {} then Inr ns
       else Inl (AssertionError ''Columns not in data set''))"
    by (simp add: cell_assert_def outcome_bind v)
  have tr: "trace (cell_assert ns) = []"
    by (simp add: cell_assert_def trace_bind v)
  have pass: "(\<forall>c\<in>set cols_categorical. c \<in> set (columns df0)) \<longrightarrow> cell_assert ns = ret ns"
  proof
    assume "\<forall>c\<in>set cols_categorical. c \<in> set (columns df0)"
    then have "outcome (cell_assert ns) = Inr ns"
      using iff out by auto
    with tr show "cell_assert ns = ret ns"
      by (intro res_eqI) simp_all
  qed
  have within: "uncovered nc cols_categorical (columns df1) \<subseteq> set cols_categorical"
    unfolding nc_def by (rule uncovered_subset [OF sub])
  show ?thesis
    using f v iff out pass within notebook_assert [of E]
    unfolding nc_def
    by (intro exI [of _ d] exI [of _ df0] exI [of _ df1]) (auto split: if_splits)
qed

text \<open>
  C10. The column-coverage assertion can fail only for a listed categorical name. In the
  namespace the cells before it leave, \<^verbatim>\<open>cols_noncat\<close> holds the columns of the loaded frame
  that are not categorical, so the set difference of the assertion lies within
  \<^verbatim>\<open>cols_categorical\<close>; the cell raises \<^verbatim>\<open>AssertionError("Columns not in data set")\<close> if and
  only if a listed categorical column is not a column of the loaded frame, it raises nothing
  else, and if every listed column is there it does nothing.
\<close>

theorem C10_assertion_fails_only_for_categorical:
  assumes "outcome (run_all (before_assert E) empty_ns) = Inr ns"
  shows "\<exists>d df0 df1.
     notebook E = before_assert E @ cell_assert # after_assert E \<and>
     fetch_openml E 1590 = Inr d \<and> pd_DataFrame E (bdata d) (feature_names d) = Inr df0 \<and>
     v_cols_categorical ns = Some cols_categorical \<and>
     v_cols_noncat ns = Some (cols_noncat (columns df0) cols_categorical) \<and>
     v_df ns = Some df1 \<and>
     uncovered (cols_noncat (columns df0) cols_categorical) cols_categorical (columns df1)
       \<subseteq> set cols_categorical \<and>
     (outcome (cell_assert ns) = Inl (AssertionError ''Columns not in data set'')
        \<longleftrightarrow> (\<exists>c\<in>set cols_categorical. c \<notin> set (columns df0))) \<and>
     ((\<forall>c\<in>set cols_categorical. c \<in> set (columns df0)) \<longrightarrow> cell_assert ns = ret ns) \<and>
     (\<forall>e. outcome (cell_assert ns) = Inl e \<longrightarrow> e = AssertionError ''Columns not in data set'')"
  using assms by (rule assert_outcome)

theorem C10_witness:
  "\<exists>ns. outcome (run_all (before_assert E_ex) empty_ns) = Inr ns \<and>
     v_cols_categorical ns = Some cols_categorical \<and> cell_assert ns = ret ns"
proof -
  from before_assert_ex_succeeds obtain ns where
    ns: "outcome (run_all (before_assert E_ex) empty_ns) = Inr ns" ..
  from C10_assertion_fails_only_for_categorical [OF ns] categorical_in_df_ex ns
  show ?thesis
    by (auto simp: E_ex_frame)
qed

subsection \<open>The feature properties\<close>

text \<open>
  C1. In a run that reaches its end, \<^verbatim>\<open>feature_properties\<close> maps column names to flags: its
  keys are exactly the features, \<^verbatim>\<open>cols_categorical\<close> followed by \<^verbatim>\<open>cols_noncat\<close>; every
  categorical column has \<^verbatim>\<open>IS_UNORDERED | HAS_MISSING | MISSING_NOT_LEARNED\<close> and every other
  column has \<^verbatim>\<open>IS_CONTINUOUS | HAS_MISSING | MISSING_NOT_LEARNED\<close>.
\<close>

theorem C1_feature_properties_from_column_split:
  assumes "outcome (run E) = Inr ns"
  shows "\<exists>d df0 fp.
     fetch_openml E 1590 = Inr d \<and> pd_DataFrame E (bdata d) (feature_names d) = Inr df0 \<and>
     v_cols_categorical ns = Some cols_categorical \<and>
     v_cols_noncat ns = Some (cols_noncat (columns df0) cols_categorical) \<and>
     v_features ns = Some (cols_categorical @ cols_noncat (columns df0) cols_categorical) \<and>
     v_feature_properties ns = Some fp \<and>
     dom fp = set cols_categorical \<union> set (cols_noncat (columns df0) cols_categorical) \<and>
     dom fp = set (cols_categorical @ cols_noncat (columns df0) cols_categorical) \<and>
     (\<forall>c\<in>set cols_categorical.
        fp c = Some (IS_UNORDERED E OR HAS_MISSING E OR MISSING_NOT_LEARNED E)) \<and>
     (\<forall>c\<in>set (cols_noncat (columns df0) cols_categorical).
        fp c = Some (IS_CONTINUOUS E OR HAS_MISSING E OR MISSING_NOT_LEARNED E))"
proof -
  from run_Inr [OF assms] obtain d df0 where
    f: "fetch_openml E 1590 = Inr d" "pd_DataFrame E (bdata d) (feature_names d) = Inr df0" and
    v: "v_cols_categorical ns = Some cols_categorical"
       "v_cols_noncat ns = Some (cols_noncat (columns df0) cols_categorical)"
       "v_features ns = Some (features cols_categorical (cols_noncat (columns df0) cols_categorical))"
       "v_feature_properties ns = Some (feature_properties E cols_categorical
               (cols_noncat (columns df0) cols_categorical))"
    by (elim exE conjE) simp
  have disj: "c \<in> set cols_categorical \<Longrightarrow> c \<notin> set (cols_noncat (columns df0) cols_categorical)" for c
    by (simp add: set_cols_noncat)
  show ?thesis
    using f v
    by (intro exI [of _ d] exI [of _ df0]
          exI [of _ "feature_properties E cols_categorical (cols_noncat (columns df0) cols_categorical)"])
       (simp add: features_def dom_feature_properties feature_properties_noncat
          feature_properties_cat disj)
qed

theorem C1_witness:
  "\<exists>ns fp. outcome (run E_ex) = Inr ns \<and> v_feature_properties ns = Some fp \<and>
     v_features ns = Some (cols_categorical @ [''age'']) \<and>
     dom fp = set (cols_categorical @ [''age'']) \<and>
     fp ''sex'' = Some 100 \<and> fp ''age'' = Some 97"
proof -
  from run_ex_succeeds obtain ns where ns: "outcome (run E_ex) = Inr ns" ..
  have nc: "cols_noncat (columns df_ex) cols_categorical = [''age'']"
    by code_simp
  have sex: "''sex'' \<in> set cols_categorical"
    by (simp add: cols_categorical_def)
  have flags: "IS_UNORDERED E_ex OR HAS_MISSING E_ex OR MISSING_NOT_LEARNED E_ex = 100"
    "IS_CONTINUOUS E_ex OR HAS_MISSING E_ex OR MISSING_NOT_LEARNED E_ex = 97"
    by (simp_all add: E_ex_def)
  from C1_feature_properties_from_column_split [OF ns] sex ns show ?thesis
    by (auto simp: E_ex_frame nc flags)
qed

subsection \<open>Labels, predictions and the mean absolute deviation\<close>

lemma binarize:
  "series_mul (series_eq t (Str s)) 1 = map (\<lambda>x. if x = Str s then Num 1 else Num 0) t"
  by (simp add: series_mul_def series_eq_def)

lemma series_align_same: "length s = n \<Longrightarrow> series_align n s = s"
  by (auto simp: series_align_def intro: nth_equalityI)

lemma length_series_align [simp]: "length (series_align n s) = n"
  by (simp add: series_align_def)

lemma df_setitem_series_rows:
  "0 < nrows df \<Longrightarrow>
   df_setitem_series df c s = df\<lparr>cols := AList.update c (series_align (nrows df) s) (cols df)\<rparr>"
  by (simp add: df_setitem_series_def ensure_valid_index_def)

lemma assign_columns_rows:
  "assign_columns df a j ks = Inr df' \<Longrightarrow> ks \<noteq> [] \<Longrightarrow> 0 < nrows df \<Longrightarrow> nrows df = shape0 a"
  by (cases ks)
    (auto simp: df_setitem_array_def Let_def ensure_valid_index_def
      dest!: column_of_Inr split: sum.splits if_splits)


text \<open>What a run that reaches the end has in \<^verbatim>\<open>y\<close>, \<^verbatim>\<open>yhat\<close>, \<^verbatim>\<open>mad\<close> and \<^verbatim>\<open>df\<close>.\<close>

lemma run_dataflow:
  assumes run: "outcome (run E) = Inr ns"
    and d: "fetch_openml E 1590 = Inr d"
    and df0: "pd_DataFrame E (bdata d) (feature_names d) = Inr df0"
    and rows: "0 < nrows df0"
  shows "\<exists>est X yh p0 m dfF.
     v_y ns = Some (series_align (nrows df0)
                (map (\<lambda>x. if x = Str ''>50K'' then Num 1 else Num 0) (target d))) \<and>
     v_X ns = Some X \<and> est_predict_proba E est X = Inr yh \<and> v_yhat ns = Some yh \<and>
     column_of yh 0 = Inr p0 \<and> length p0 = nrows df0 \<and>
     outcome (mad_of (series_align (nrows df0)
                (map (\<lambda>x. if x = Str ''>50K'' then Num 1 else Num 0) (target d))) yh) = Inr m \<and>
     v_mad ns = Some m \<and>
     v_df ns = Some dfF \<and> df_getitem dfF ''pred'' = Inr p0 \<and>
     df_getitem dfF ''target'' = Inr (series_align (nrows df0)
                (map (\<lambda>x. if x = Str ''>50K'' then Num 1 else Num 0) (target d)))"
proof -
  define s where "s = series_align (nrows df0)
                (map (\<lambda>x. if x = Str ''>50K'' then Num 1 else Num 0) (target d))"
  define df1 where "df1 = df_setitem_series df0 ''target''
          (series_mul (series_eq (target d) (Str ''>50K'')) 1)"
  from run_Inr [OF run] d df0 obtain a df2 X y est yh m p0 df3 where
    set: "df_setitem_list df1 cols_categorical a = Inr df2" and
    y: "df_getitem df2 ''target'' = Inr y" and
    pr: "est_predict_proba E est X = Inr yh" and
    mad: "outcome (mad_of y yh) = Inr m" and
    p0: "column_of yh 0 = Inr p0" and
    pred: "df_setitem_array df2 ''pred'' p0 = Inr df3" and
    v: "v_df ns = Some df3" "v_X ns = Some X" "v_y ns = Some y" "v_yhat ns = Some yh"
       "v_mad ns = Some m"
    unfolding df1_def by (elim exE conjE) simp
  have df1: "df1 = df0\<lparr>cols := AList.update ''target'' s (cols df0)\<rparr>"
    using rows by (simp add: df1_def s_def df_setitem_series_rows binarize)
  then have r1: "nrows df1 = nrows df0" and t1: "map_of (cols df1) ''target'' = Some s"
    by (simp_all add: map_of_update)
  from set have asg: "assign_columns df1 a 0 cols_categorical = Inr df2"
    by (simp add: df_setitem_list_def split: if_splits)
  have ne: "cols_categorical \<noteq> []"
    by (simp add: cols_categorical_def)
  from rows r1 have "0 < nrows df1"
    by simp
  with asg ne have sh: "nrows df1 = shape0 a"
    by (rule assign_columns_rows)
  from assign_columns_stable [OF asg sh] target_not_categorical
  have r2: "nrows df2 = nrows df0" and t2: "map_of (cols df2) ''target'' = Some s"
    using r1 sh t1 by simp_all
  from y t2 have ys: "y = s"
    by (simp add: df_getitem_def)
  from pred rows r2 have r3: "nrows df3 = nrows df0" and c3: "cols df3 = AList.update ''pred'' p0 (cols df2)"
    by (simp_all add: df_setitem_array_stable)
  from df_setitem_array_Inr(1) [OF pred] r3 have lp: "length p0 = nrows df0"
    by simp
  have g: "df_getitem df3 ''pred'' = Inr p0" "df_getitem df3 ''target'' = Inr s"
    by (simp_all add: df_getitem_def c3 map_of_update t2)
  show ?thesis
    using v pr mad p0 lp g unfolding ys s_def
    by blast
qed

text \<open>
  C2. The label is binary. In a run that reaches its end, over a frame with at least one row
  and a raw target with one entry per row, the column \<^verbatim>\<open>target\<close> of \<^verbatim>\<open>df\<close>, which is the
  \<^verbatim>\<open>y\<close> that \<^verbatim>\<open>prepare_data\<close> returned, has 1 in the rows whose raw target is \<^verbatim>\<open>>50K\<close>
  and 0 in the others, so every label is 0 or 1.
\<close>

theorem C2_labels_are_binary:
  assumes "outcome (run E) = Inr ns"
    and "fetch_openml E 1590 = Inr d"
    and "pd_DataFrame E (bdata d) (feature_names d) = Inr df0"
    and "0 < nrows df0"
    and "length (target d) = nrows df0"
  shows "\<exists>dfF y.
     v_df ns = Some dfF \<and> df_getitem dfF ''target'' = Inr y \<and> v_y ns = Some y \<and>
     y = map (\<lambda>t. if t = Str ''>50K'' then Num 1 else Num 0) (target d) \<and>
     length y = nrows df0 \<and>
     set y \<subseteq> {Num 0, Num 1}"
proof -
  have al: "series_align (nrows df0)
      (map (\<lambda>x. if x = Str ''>50K'' then Num 1 else Num 0) (target d))
      = map (\<lambda>x. if x = Str ''>50K'' then Num 1 else Num 0) (target d)"
    using assms(5) by (simp add: series_align_same)
  from run_dataflow [OF assms(1-4)] show ?thesis
    unfolding al using assms(5) by auto
qed

theorem C2_witness:
  "\<exists>ns dfF. outcome (run E_ex) = Inr ns \<and>
     fetch_openml E_ex 1590 =
       Inr \<lparr>bdata = 0, feature_names = columns df_ex, target = [Str ''>50K'', Str ''<=50K'']\<rparr> \<and>
     pd_DataFrame E_ex 0 (columns df_ex) = Inr df_ex \<and>
     0 < nrows df_ex \<and> length [Str ''>50K'', Str ''<=50K''] = nrows df_ex \<and>
     v_y ns = Some [Num 1, Num 0] \<and>
     v_df ns = Some dfF \<and> df_getitem dfF ''target'' = Inr [Num 1, Num 0]"
proof -
  from run_ex_succeeds obtain ns where ns: "outcome (run E_ex) = Inr ns" ..
  have fr: "pd_DataFrame E_ex (bdata \<lparr>bdata = 0, feature_names = columns df_ex,
       target = [Str ''>50K'', Str ''<=50K'']\<rparr>)
      (feature_names \<lparr>bdata = 0 :: nat, feature_names = columns df_ex,
       target = [Str ''>50K'', Str ''<=50K'']\<rparr>) = Inr df_ex"
    by (rule E_ex_frame)
  have rows: "0 < nrows df_ex"
    by (simp add: df_ex_def)
  have len: "length (target \<lparr>bdata = 0 :: nat, feature_names = columns df_ex,
       target = [Str ''>50K'', Str ''<=50K'']\<rparr>) = nrows df_ex"
    by (simp add: df_ex_def)
  from C2_labels_are_binary [OF ns E_ex_fetch fr rows len] ns rows show ?thesis
    by (auto simp: E_ex_fetch E_ex_frame df_ex_def)
qed



subsection \<open>Names are bound before they are read\<close>

lemma defined_vars:
  "defined ns ''data'' = (v_data ns \<noteq> None)"
  "defined ns ''df'' = (v_df ns \<noteq> None)"
  "defined ns ''cols_categorical'' = (v_cols_categorical ns \<noteq> None)"
  "defined ns ''cols_noncat'' = (v_cols_noncat ns \<noteq> None)"
  "defined ns ''X'' = (v_X ns \<noteq> None)"
  "defined ns ''y'' = (v_y ns \<noteq> None)"
  "defined ns ''features'' = (v_features ns \<noteq> None)"
  "defined ns ''feature_properties'' = (v_feature_properties ns \<noteq> None)"
  "defined ns ''CB_est'' = (v_CB_est ns \<noteq> None)"
  "defined ns ''yhat'' = (v_yhat ns \<noteq> None)"
  "defined ns ''mad'' = (v_mad ns \<noteq> None)"
  "defined ns ''ax'' = (v_ax ns \<noteq> None)"
  by (simp_all add: defined_def)

lemma defined_names:
  "defined ns ''pd'' = (''pd'' \<in> set (bound ns))"
  "defined ns ''np'' = (''np'' \<in> set (bound ns))"
  "defined ns ''OrdinalEncoder'' = (''OrdinalEncoder'' \<in> set (bound ns))"
  "defined ns ''flags'' = (''flags'' \<in> set (bound ns))"
  "defined ns ''common_smoothers'' = (''common_smoothers'' \<in> set (bound ns))"
  "defined ns ''observers'' = (''observers'' \<in> set (bound ns))"
  "defined ns ''plot_analysis'' = (''plot_analysis'' \<in> set (bound ns))"
  "defined ns ''pipeline_CBClassifier'' = (''pipeline_CBClassifier'' \<in> set (bound ns))"
  "defined ns ''fetch_openml'' = (''fetch_openml'' \<in> set (bound ns))"
  "defined ns ''prepare_data'' = (''prepare_data'' \<in> set (bound ns))"
  "defined ns ''cb_classifier_model'' = (''cb_classifier_model'' \<in> set (bound ns))"
  "defined ns ''plot_CB'' = (''plot_CB'' \<in> set (bound ns))"
  by (simp_all add: defined_def)

lemma defined_mono:
  assumes "defined ns x"
    and "set (bound ns) \<subseteq> set (bound ns')"
    and "v_data ns \<noteq> None \<longrightarrow> v_data ns' \<noteq> None"
    and "v_df ns \<noteq> None \<longrightarrow> v_df ns' \<noteq> None"
    and "v_cols_categorical ns \<noteq> None \<longrightarrow> v_cols_categorical ns' \<noteq> None"
    and "v_cols_noncat ns \<noteq> None \<longrightarrow> v_cols_noncat ns' \<noteq> None"
    and "v_X ns \<noteq> None \<longrightarrow> v_X ns' \<noteq> None"
    and "v_y ns \<noteq> None \<longrightarrow> v_y ns' \<noteq> None"
    and "v_features ns \<noteq> None \<longrightarrow> v_features ns' \<noteq> None"
    and "v_feature_properties ns \<noteq> None \<longrightarrow> v_feature_properties ns' \<noteq> None"
    and "v_CB_est ns \<noteq> None \<longrightarrow> v_CB_est ns' \<noteq> None"
    and "v_yhat ns \<noteq> None \<longrightarrow> v_yhat ns' \<noteq> None"
    and "v_mad ns \<noteq> None \<longrightarrow> v_mad ns' \<noteq> None"
    and "v_ax ns \<noteq> None \<longrightarrow> v_ax ns' \<noteq> None"
  shows "defined ns' x"
proof (cases "x \<in> {''data'', ''df'', ''cols_categorical'', ''cols_noncat'', ''X'', ''y'', ''features'', ''feature_properties'', ''CB_est'', ''yhat'', ''mad'', ''ax''}")
  case False
  with assms(1,2) show ?thesis
    by (auto simp: defined_def)
next
  case True
  then consider "x = ''data''" | "x = ''df''" | "x = ''cols_categorical''" | "x = ''cols_noncat''" | "x = ''X''" | "x = ''y''" | "x = ''features''" | "x = ''feature_properties''" | "x = ''CB_est''" | "x = ''yhat''" | "x = ''mad''" | "x = ''ax''"
    by (simp only: insert_iff empty_iff) metis
  then show ?thesis
  proof cases
    case 1
    with assms show ?thesis by (simp add: defined_vars)
  next
    case 2
    with assms show ?thesis by (simp add: defined_vars)
  next
    case 3
    with assms show ?thesis by (simp add: defined_vars)
  next
    case 4
    with assms show ?thesis by (simp add: defined_vars)
  next
    case 5
    with assms show ?thesis by (simp add: defined_vars)
  next
    case 6
    with assms show ?thesis by (simp add: defined_vars)
  next
    case 7
    with assms show ?thesis by (simp add: defined_vars)
  next
    case 8
    with assms show ?thesis by (simp add: defined_vars)
  next
    case 9
    with assms show ?thesis by (simp add: defined_vars)
  next
    case 10
    with assms show ?thesis by (simp add: defined_vars)
  next
    case 11
    with assms show ?thesis by (simp add: defined_vars)
  next
    case 12
    with assms show ?thesis by (simp add: defined_vars)
  qed
qed

text \<open>A cell is in order once its failures and its effect on the namespace are known.\<close>

lemma cell_okI:
  assumes "\<And>ns e. list_all (defined ns) R \<Longrightarrow> outcome (c ns) = Inl e \<Longrightarrow> \<exists>x. e = LibError x"
    and "\<And>ns ns' x. list_all (defined ns) R \<Longrightarrow> outcome (c ns) = Inr ns' \<Longrightarrow>
           defined ns x \<Longrightarrow> defined ns' x"
    and "\<And>ns ns'. list_all (defined ns) R \<Longrightarrow> outcome (c ns) = Inr ns' \<Longrightarrow>
           list_all (defined ns') W"
  shows "cell_ok c R W"
  unfolding cell_ok_def using assms by blast

lemmas fail_elims = bind_InlE bind_InrE

lemma call_InlD: "outcome (call c r) = Inl e \<Longrightarrow> \<exists>x. e = LibError x"
  by (auto split: sum.splits)

lemma lib_InlD: "outcome (lib r) = Inl e \<Longrightarrow> \<exists>x. e = LibError x"
  by (auto split: sum.splits)

lemma rd_InlD: "outcome (rd name v) = Inl e \<Longrightarrow> v = None"
  by (auto split: option.splits)

lemma need_InlD: "outcome (need ns name) = Inl e \<Longrightarrow> name \<notin> set (bound ns)"
  by (auto split: if_splits)

lemmas fail_dests = call_InlD lib_InlD rd_InlD need_InlD

lemma cell_black_ok: "cell_ok (cell_black E) [] []"
proof (rule cell_okI)
  fix ns :: "'a ns" and e
  assume "outcome (cell_black E ns) = Inl e"
  then show "\<exists>x. e = LibError x"
    by (auto simp: cell_black_def outcome_def Let_def ret_def raise_def
        split: sum.splits if_splits)
next
  fix ns ns' :: "'a ns" and x
  assume "outcome (cell_black E ns) = Inr ns'" and "defined ns x"
  then show "defined ns' x"
    by (auto dest!: cell_black_Inr elim!: defined_mono)
qed simp



lemma import_stmt_Inl: "outcome (import_stmt E m names ns) = Inl e \<Longrightarrow> \<exists>x. e = LibError x"
  by (auto simp: import_stmt_def elim!: fail_elims dest!: fail_dests)

lemma cell_imports_ok:
  "cell_ok (cell_imports E) []
     [''pd'', ''np'', ''OrdinalEncoder'', ''flags'', ''common_smoothers'', ''observers'',
      ''plot_analysis'', ''pipeline_CBClassifier'']"
proof (rule cell_okI)
  fix ns :: "'a ns" and e
  assume "outcome (cell_imports E ns) = Inl e"
  then show "\<exists>x. e = LibError x"
    unfolding cell_imports_def
    by (auto elim!: fail_elims dest!: import_stmt_Inl)
next
  fix ns ns' :: "'a ns" and x
  assume "outcome (cell_imports E ns) = Inr ns'" and "defined ns x"
  then show "defined ns' x"
    by (auto dest!: cell_imports_Inr elim!: defined_mono)
next
  fix ns ns' :: "'a ns"
  assume "outcome (cell_imports E ns) = Inr ns'"
  then show "list_all (defined ns')
     [''pd'', ''np'', ''OrdinalEncoder'', ''flags'', ''common_smoothers'', ''observers'',
      ''plot_analysis'', ''pipeline_CBClassifier'']"
    by (auto dest!: cell_imports_Inr simp: defined_names)
qed



lemma cell_load_ok: "cell_ok (cell_load E) [''pd''] [''fetch_openml'', ''data'', ''df'']"
proof (rule cell_okI)
  fix ns :: "'a ns" and e
  assume "list_all (defined ns) [''pd'']" and "outcome (cell_load E ns) = Inl e"
  then show "\<exists>x. e = LibError x"
    unfolding cell_load_def
    by (auto simp: defined_names elim!: fail_elims dest!: import_stmt_Inl import_stmt_Inr
          fail_dests succ_dests)
next
  fix ns ns' :: "'a ns" and x
  assume "outcome (cell_load E ns) = Inr ns'" and "defined ns x"
  then show "defined ns' x"
    by (auto dest!: cell_load_Inr elim!: defined_mono)
next
  fix ns ns' :: "'a ns"
  assume "outcome (cell_load E ns) = Inr ns'"
  then show "list_all (defined ns') [''fetch_openml'', ''data'', ''df'']"
    by (auto dest!: cell_load_Inr simp: defined_names defined_vars)
qed


lemma cell_split_ok: "cell_ok (cell_split) [''df''] [''cols_categorical'', ''cols_noncat'']"
proof (rule cell_okI)
  fix ns :: "'a ns" and e
  assume "list_all (defined ns) [''df'']" and "outcome (cell_split ns) = Inl e"
  then show "\<exists>x. e = LibError x"
    unfolding cell_split_def
    by (auto simp: defined_names defined_vars elim!: fail_elims dest!: fail_dests succ_dests split: if_splits)
next
  fix ns ns' :: "'a ns" and x
  assume "outcome (cell_split ns) = Inr ns'" and "defined ns x"
  then show "defined ns' x"
    by (auto dest!: cell_split_Inr elim!: defined_mono)
next
  fix ns ns' :: "'a ns"
  assume "outcome (cell_split ns) = Inr ns'"
  then show "list_all (defined ns') [''cols_categorical'', ''cols_noncat'']"
    by (auto dest!: cell_split_Inr simp: defined_names defined_vars)
qed

lemma cell_target_ok: "cell_ok (cell_target) [''data'', ''df''] []"
proof (rule cell_okI)
  fix ns :: "'a ns" and e
  assume "list_all (defined ns) [''data'', ''df'']" and "outcome (cell_target ns) = Inl e"
  then show "\<exists>x. e = LibError x"
    unfolding cell_target_def
    by (auto simp: defined_names defined_vars elim!: fail_elims dest!: fail_dests succ_dests)
next
  fix ns ns' :: "'a ns" and x
  assume "outcome (cell_target ns) = Inr ns'" and "defined ns x"
  then show "defined ns' x"
    by (auto dest!: cell_target_Inr elim!: defined_mono)
next
  fix ns ns' :: "'a ns"
  assume "outcome (cell_target ns) = Inr ns'"
  then show "list_all (defined ns') []"
    by (auto dest!: cell_target_Inr simp: defined_names defined_vars)
qed

lemma cell_show_cols_ok: "cell_ok (cell_show_cols) [''cols_noncat'', ''cols_categorical''] []"
proof (rule cell_okI)
  fix ns :: "'a ns" and e
  assume "list_all (defined ns) [''cols_noncat'', ''cols_categorical'']" and "outcome (cell_show_cols ns) = Inl e"
  then show "\<exists>x. e = LibError x"
    unfolding cell_show_cols_def
    by (auto simp: defined_names defined_vars elim!: fail_elims dest!: fail_dests succ_dests)
next
  fix ns ns' :: "'a ns" and x
  assume "outcome (cell_show_cols ns) = Inr ns'" and "defined ns x"
  then show "defined ns' x"
    by (auto dest!: cell_show_cols_Inr elim!: defined_mono)
next
  fix ns ns' :: "'a ns"
  assume "outcome (cell_show_cols ns) = Inr ns'"
  then show "list_all (defined ns') []"
    by (auto dest!: cell_show_cols_Inr simp: defined_names defined_vars)
qed

lemma cell_show_columns_ok: "cell_ok (cell_show_columns) [''df''] []"
proof (rule cell_okI)
  fix ns :: "'a ns" and e
  assume "list_all (defined ns) [''df'']" and "outcome (cell_show_columns ns) = Inl e"
  then show "\<exists>x. e = LibError x"
    unfolding cell_show_columns_def
    by (auto simp: defined_names defined_vars elim!: fail_elims dest!: fail_dests succ_dests)
next
  fix ns ns' :: "'a ns" and x
  assume "outcome (cell_show_columns ns) = Inr ns'" and "defined ns x"
  then show "defined ns' x"
    by (auto dest!: cell_show_columns_Inr elim!: defined_mono)
next
  fix ns ns' :: "'a ns"
  assume "outcome (cell_show_columns ns) = Inr ns'"
  then show "list_all (defined ns') []"
    by (auto dest!: cell_show_columns_Inr simp: defined_names defined_vars)
qed

lemma cell_def_prepare_ok: "cell_ok (cell_def_prepare) [] [''prepare_data'']"
proof (rule cell_okI)
  fix ns :: "'a ns" and e
  assume "list_all (defined ns) []" and "outcome (cell_def_prepare ns) = Inl e"
  then show "\<exists>x. e = LibError x"
    by (simp add: cell_def_prepare_def)
next
  fix ns ns' :: "'a ns" and x
  assume "outcome (cell_def_prepare ns) = Inr ns'" and "defined ns x"
  then show "defined ns' x"
    by (auto dest!: cell_def_prepare_Inr elim!: defined_mono)
next
  fix ns ns' :: "'a ns"
  assume "outcome (cell_def_prepare ns) = Inr ns'"
  then show "list_all (defined ns') [''prepare_data'']"
    by (auto dest!: cell_def_prepare_Inr simp: defined_names defined_vars)
qed

lemma prepare_data_Inl:
  assumes "outcome (prepare_data E ns df) = Inl e"
    and "''OrdinalEncoder'' \<in> set (bound ns)" and "''np'' \<in> set (bound ns)"
    and "v_cols_categorical ns \<noteq> None"
  shows "\<exists>x. e = LibError x"
  using assms unfolding prepare_data_def
  by (auto elim!: fail_elims dest!: fail_dests succ_dests)

lemma cell_prepare_ok: "cell_ok (cell_prepare E) [''prepare_data'', ''df'', ''OrdinalEncoder'', ''np'', ''cols_categorical''] [''X'', ''y'']"
proof (rule cell_okI)
  fix ns :: "'a ns" and e
  assume "list_all (defined ns) [''prepare_data'', ''df'', ''OrdinalEncoder'', ''np'', ''cols_categorical'']" and "outcome (cell_prepare E ns) = Inl e"
  then show "\<exists>x. e = LibError x"
    unfolding cell_prepare_def
    by (auto simp: defined_names defined_vars elim!: fail_elims dest!: prepare_data_Inl fail_dests succ_dests)
next
  fix ns ns' :: "'a ns" and x
  assume "outcome (cell_prepare E ns) = Inr ns'" and "defined ns x"
  then show "defined ns' x"
    by (auto dest!: cell_prepare_Inr elim!: defined_mono)
next
  fix ns ns' :: "'a ns"
  assume "outcome (cell_prepare E ns) = Inr ns'"
  then show "list_all (defined ns') [''X'', ''y'']"
    by (auto dest!: cell_prepare_Inr simp: defined_names defined_vars)
qed

lemma cell_show_y_ok: "cell_ok (cell_show_y) [''y''] []"
proof (rule cell_okI)
  fix ns :: "'a ns" and e
  assume "list_all (defined ns) [''y'']" and "outcome (cell_show_y ns) = Inl e"
  then show "\<exists>x. e = LibError x"
    unfolding cell_show_y_def
    by (auto simp: defined_names defined_vars elim!: fail_elims dest!: fail_dests succ_dests)
next
  fix ns ns' :: "'a ns" and x
  assume "outcome (cell_show_y ns) = Inr ns'" and "defined ns x"
  then show "defined ns' x"
    by (auto dest!: cell_show_y_Inr elim!: defined_mono)
next
  fix ns ns' :: "'a ns"
  assume "outcome (cell_show_y ns) = Inr ns'"
  then show "list_all (defined ns') []"
    by (auto dest!: cell_show_y_Inr simp: defined_names defined_vars)
qed

lemma cell_features_ok: "cell_ok (cell_features E) [''cols_categorical'', ''cols_noncat'', ''flags''] [''features'', ''feature_properties'']"
proof (rule cell_okI)
  fix ns :: "'a ns" and e
  assume "list_all (defined ns) [''cols_categorical'', ''cols_noncat'', ''flags'']" and "outcome (cell_features E ns) = Inl e"
  then show "\<exists>x. e = LibError x"
    unfolding cell_features_def
    by (auto simp: defined_names defined_vars elim!: fail_elims dest!: fail_dests succ_dests split: if_splits)
next
  fix ns ns' :: "'a ns" and x
  assume "outcome (cell_features E ns) = Inr ns'" and "defined ns x"
  then show "defined ns' x"
    by (auto dest!: cell_features_Inr elim!: defined_mono)
next
  fix ns ns' :: "'a ns"
  assume "outcome (cell_features E ns) = Inr ns'"
  then show "list_all (defined ns') [''features'', ''feature_properties'']"
    by (auto dest!: cell_features_Inr simp: defined_names defined_vars)
qed

lemma cell_def_model_ok: "cell_ok (cell_def_model) [] [''cb_classifier_model'']"
proof (rule cell_okI)
  fix ns :: "'a ns" and e
  assume "list_all (defined ns) []" and "outcome (cell_def_model ns) = Inl e"
  then show "\<exists>x. e = LibError x"
    by (simp add: cell_def_model_def)
next
  fix ns ns' :: "'a ns" and x
  assume "outcome (cell_def_model ns) = Inr ns'" and "defined ns x"
  then show "defined ns' x"
    by (auto dest!: cell_def_model_Inr elim!: defined_mono)
next
  fix ns ns' :: "'a ns"
  assume "outcome (cell_def_model ns) = Inr ns'"
  then show "list_all (defined ns') [''cb_classifier_model'']"
    by (auto dest!: cell_def_model_Inr simp: defined_names defined_vars)
qed

lemma cb_classifier_model_Inl:
  assumes "outcome (cb_classifier_model E ns) = Inl e"
    and "''observers'' \<in> set (bound ns)" and "''pipeline_CBClassifier'' \<in> set (bound ns)"
    and "''common_smoothers'' \<in> set (bound ns)"
    and "v_feature_properties ns \<noteq> None" and "v_features ns \<noteq> None"
  shows "\<exists>x. e = LibError x"
  using assms unfolding cb_classifier_model_def
  by (auto elim!: fail_elims dest!: fail_dests succ_dests)

lemma cell_model_ok: "cell_ok (cell_model E) [''cb_classifier_model'', ''observers'', ''pipeline_CBClassifier'', ''feature_properties'', ''features'', ''common_smoothers''] [''CB_est'']"
proof (rule cell_okI)
  fix ns :: "'a ns" and e
  assume "list_all (defined ns) [''cb_classifier_model'', ''observers'', ''pipeline_CBClassifier'', ''feature_properties'', ''features'', ''common_smoothers'']" and "outcome (cell_model E ns) = Inl e"
  then show "\<exists>x. e = LibError x"
    unfolding cell_model_def
    by (auto simp: defined_names defined_vars elim!: fail_elims dest!: cb_classifier_model_Inl fail_dests succ_dests)
next
  fix ns ns' :: "'a ns" and x
  assume "outcome (cell_model E ns) = Inr ns'" and "defined ns x"
  then show "defined ns' x"
    by (auto dest!: cell_model_Inr elim!: defined_mono)
next
  fix ns ns' :: "'a ns"
  assume "outcome (cell_model E ns) = Inr ns'"
  then show "list_all (defined ns') [''CB_est'']"
    by (auto dest!: cell_model_Inr simp: defined_names defined_vars)
qed

lemma fit_once_Inl:
  assumes "outcome (fit_once E ns) = Inl e"
    and "v_CB_est ns \<noteq> None" and "v_X ns \<noteq> None" and "v_y ns \<noteq> None"
  shows "\<exists>x. e = LibError x"
  using assms unfolding fit_once_def
  by (auto elim!: fail_elims dest!: fail_dests succ_dests)

lemma fit_loop_Inl:
  "outcome (run_all (replicate k (fit_once E)) ns) = Inl e \<Longrightarrow>
   v_CB_est ns \<noteq> None \<Longrightarrow> v_X ns \<noteq> None \<Longrightarrow> v_y ns \<noteq> None \<Longrightarrow> \<exists>x. e = LibError x"
proof (induction k arbitrary: ns)
  case 0
  then show ?case by simp
next
  case (Suc k)
  from Suc.prems(1) consider "outcome (fit_once E ns) = Inl e"
    | ns1 where "outcome (fit_once E ns) = Inr ns1"
        "outcome (run_all (replicate k (fit_once E)) ns1) = Inl e"
    by (auto elim: bind_InlE)
  then show ?case
  proof cases
    case 1
    with Suc.prems show ?thesis by (auto dest: fit_once_Inl)
  next
    case 2
    from 2(1) obtain est where "ns1 = ns\<lparr>v_CB_est := Some est\<rparr>"
      by (auto dest: fit_once_Inr)
    with Suc.IH [OF 2(2)] Suc.prems show ?thesis by simp
  qed
qed

lemma cell_fit_ok: "cell_ok (cell_fit E) [''CB_est'', ''X'', ''y''] []"
proof (rule cell_okI)
  fix ns :: "'a ns" and e
  assume "list_all (defined ns) [''CB_est'', ''X'', ''y'']" and "outcome (cell_fit E ns) = Inl e"
  then show "\<exists>x. e = LibError x"
    unfolding cell_fit_def
    by (auto simp: defined_vars simp del: replicate.simps run_all.simps dest!: fit_loop_Inl)
next
  fix ns ns' :: "'a ns" and x
  assume R: "list_all (defined ns) [''CB_est'', ''X'', ''y'']"
    and "outcome (cell_fit E ns) = Inr ns'" and x: "defined ns x"
  then obtain e where "ns' = ns\<lparr>v_CB_est := e\<rparr>" and "e \<noteq> None"
    by (auto simp: defined_vars dest!: cell_fit_Inr)
  then show "defined ns' x"
    by (intro defined_mono [OF x]) simp_all
qed simp

lemma cell_predict_ok: "cell_ok (cell_predict E) [''CB_est'', ''X''] [''yhat'']"
proof (rule cell_okI)
  fix ns :: "'a ns" and e
  assume "list_all (defined ns) [''CB_est'', ''X'']" and "outcome (cell_predict E ns) = Inl e"
  then show "\<exists>x. e = LibError x"
    unfolding cell_predict_def
    by (auto simp: defined_names defined_vars elim!: fail_elims dest!: fail_dests succ_dests)
next
  fix ns ns' :: "'a ns" and x
  assume "outcome (cell_predict E ns) = Inr ns'" and "defined ns x"
  then show "defined ns' x"
    by (auto dest!: cell_predict_Inr elim!: defined_mono)
next
  fix ns ns' :: "'a ns"
  assume "outcome (cell_predict E ns) = Inr ns'"
  then show "list_all (defined ns') [''yhat'']"
    by (auto dest!: cell_predict_Inr simp: defined_names defined_vars)
qed

lemma mad_of_Inl: "outcome (mad_of y yh) = Inl e \<Longrightarrow> \<exists>x. e = LibError x"
  unfolding mad_of_def
  by (auto elim!: fail_elims dest!: fail_dests succ_dests)

lemma cell_mad_ok: "cell_ok (cell_mad) [''np'', ''y'', ''yhat''] [''mad'']"
proof (rule cell_okI)
  fix ns :: "'a ns" and e
  assume "list_all (defined ns) [''np'', ''y'', ''yhat'']" and "outcome (cell_mad ns) = Inl e"
  then show "\<exists>x. e = LibError x"
    unfolding cell_mad_def
    by (auto simp: defined_names defined_vars elim!: fail_elims dest!: mad_of_Inl fail_dests succ_dests)
next
  fix ns ns' :: "'a ns" and x
  assume "outcome (cell_mad ns) = Inr ns'" and "defined ns x"
  then show "defined ns' x"
    by (auto dest!: cell_mad_Inr elim!: defined_mono)
next
  fix ns ns' :: "'a ns"
  assume "outcome (cell_mad ns) = Inr ns'"
  then show "list_all (defined ns') [''mad'']"
    by (auto dest!: cell_mad_Inr simp: defined_names defined_vars)
qed

lemma cell_score_ok: "cell_ok (cell_score E) [''CB_est'', ''X'', ''y''] []"
proof (rule cell_okI)
  fix ns :: "'a ns" and e
  assume "list_all (defined ns) [''CB_est'', ''X'', ''y'']" and "outcome (cell_score E ns) = Inl e"
  then show "\<exists>x. e = LibError x"
    unfolding cell_score_def
    by (auto simp: defined_names defined_vars elim!: fail_elims dest!: fail_dests succ_dests)
next
  fix ns ns' :: "'a ns" and x
  assume "outcome (cell_score E ns) = Inr ns'" and "defined ns x"
  then show "defined ns' x"
    by (auto dest!: cell_score_Inr elim!: defined_mono)
next
  fix ns ns' :: "'a ns"
  assume "outcome (cell_score E ns) = Inr ns'"
  then show "list_all (defined ns') []"
    by (auto dest!: cell_score_Inr simp: defined_names defined_vars)
qed

lemma cell_def_plot_ok: "cell_ok (cell_def_plot) [] [''plot_CB'']"
proof (rule cell_okI)
  fix ns :: "'a ns" and e
  assume "list_all (defined ns) []" and "outcome (cell_def_plot ns) = Inl e"
  then show "\<exists>x. e = LibError x"
    by (simp add: cell_def_plot_def)
next
  fix ns ns' :: "'a ns" and x
  assume "outcome (cell_def_plot ns) = Inr ns'" and "defined ns x"
  then show "defined ns' x"
    by (auto dest!: cell_def_plot_Inr elim!: defined_mono)
next
  fix ns ns' :: "'a ns"
  assume "outcome (cell_def_plot ns) = Inr ns'"
  then show "list_all (defined ns') [''plot_CB'']"
    by (auto dest!: cell_def_plot_Inr simp: defined_names defined_vars)
qed

lemma plot_loop_Inl:
  "outcome (plot_loop E ns filename binner i ps) = Inl e \<Longrightarrow>
   ''plot_analysis'' \<in> set (bound ns) \<Longrightarrow> \<exists>x. e = LibError x"
  by (induction ps arbitrary: i) (auto elim!: fail_elims dest!: fail_dests succ_dests)

lemma cell_plot_ok: "cell_ok (cell_plot E) [''plot_CB'', ''CB_est'', ''plot_analysis''] []"
proof (rule cell_okI)
  fix ns :: "'a ns" and e
  assume "list_all (defined ns) [''plot_CB'', ''CB_est'', ''plot_analysis'']" and "outcome (cell_plot E ns) = Inl e"
  then show "\<exists>x. e = LibError x"
    unfolding cell_plot_def plot_CB_def
    by (auto simp: defined_names defined_vars simp del: plot_loop.simps elim!: fail_elims dest!: plot_loop_Inl fail_dests succ_dests)
next
  fix ns ns' :: "'a ns" and x
  assume "outcome (cell_plot E ns) = Inr ns'" and "defined ns x"
  then show "defined ns' x"
    by (auto dest!: cell_plot_Inr elim!: defined_mono)
next
  fix ns ns' :: "'a ns"
  assume "outcome (cell_plot E ns) = Inr ns'"
  then show "list_all (defined ns') []"
    by (auto dest!: cell_plot_Inr simp: defined_names defined_vars)
qed

lemma cell_pred_ok: "cell_ok (cell_pred) [''yhat'', ''df''] []"
proof (rule cell_okI)
  fix ns :: "'a ns" and e
  assume "list_all (defined ns) [''yhat'', ''df'']" and "outcome (cell_pred ns) = Inl e"
  then show "\<exists>x. e = LibError x"
    unfolding cell_pred_def
    by (auto simp: defined_names defined_vars elim!: fail_elims dest!: fail_dests succ_dests)
next
  fix ns ns' :: "'a ns" and x
  assume "outcome (cell_pred ns) = Inr ns'" and "defined ns x"
  then show "defined ns' x"
    by (auto dest!: cell_pred_Inr elim!: defined_mono)
next
  fix ns ns' :: "'a ns"
  assume "outcome (cell_pred ns) = Inr ns'"
  then show "list_all (defined ns') []"
    by (auto dest!: cell_pred_Inr simp: defined_names defined_vars)
qed

lemma cell_hist_ok: "cell_ok (cell_hist E) [''df''] [''ax'']"
proof (rule cell_okI)
  fix ns :: "'a ns" and e
  assume "list_all (defined ns) [''df'']" and "outcome (cell_hist E ns) = Inl e"
  then show "\<exists>x. e = LibError x"
    unfolding cell_hist_def
    by (auto simp: defined_names defined_vars elim!: fail_elims dest!: fail_dests succ_dests)
next
  fix ns ns' :: "'a ns" and x
  assume "outcome (cell_hist E ns) = Inr ns'" and "defined ns x"
  then show "defined ns' x"
    by (auto dest!: cell_hist_Inr elim!: defined_mono)
next
  fix ns ns' :: "'a ns"
  assume "outcome (cell_hist E ns) = Inr ns'"
  then show "list_all (defined ns') [''ax'']"
    by (auto dest!: cell_hist_Inr simp: defined_names defined_vars)
qed

subsection \<open>Cells in sequence\<close>

lemma cell_ok_fail:
  "cell_ok c R W \<Longrightarrow> list_all (defined ns) R \<Longrightarrow> outcome (c ns) = Inl e \<Longrightarrow> \<exists>x. e = LibError x"
  unfolding cell_ok_def by (erule allE [of _ ns]) simp

lemma cell_ok_mono:
  "cell_ok c R W \<Longrightarrow> list_all (defined ns) R \<Longrightarrow> outcome (c ns) = Inr ns' \<Longrightarrow>
   defined ns x \<Longrightarrow> defined ns' x"
  unfolding cell_ok_def by (erule allE [of _ ns]) simp

lemma cell_ok_writes:
  "cell_ok c R W \<Longrightarrow> list_all (defined ns) R \<Longrightarrow> outcome (c ns) = Inr ns' \<Longrightarrow>
   list_all (defined ns') W"
  unfolding cell_ok_def by (erule allE [of _ ns]) simp

lemma list_all_subset: "list_all P V \<Longrightarrow> set R \<subseteq> set V \<Longrightarrow> list_all P R"
  unfolding list_all_iff by (rule ballI) (erule bspec, erule subsetD)

lemma cell_ok_after:
  assumes c: "cell_ok c R W" and R: "set R \<subseteq> set V" and V: "list_all (defined ns) V"
    and 1: "outcome (c ns) = Inr ns1"
  shows "list_all (defined ns1) (V @ W)"
proof -
  from V R have Rd: "list_all (defined ns) R"
    by (rule list_all_subset)
  have "list_all (defined ns1) V"
    unfolding list_all_iff
  proof
    fix x assume "x \<in> set V"
    with V have "defined ns x"
      unfolding list_all_iff by (rule bspec)
    with c Rd 1 show "defined ns1 x"
      by (rule cell_ok_mono)
  qed
  moreover from c Rd 1 have "list_all (defined ns1) W"
    by (rule cell_ok_writes)
  ultimately show ?thesis
    by (simp only: list_all_append simp_thms)
qed

lemma cell_ok_Nil:
  assumes "set F \<subseteq> set V"
  shows "cell_ok (run_all []) V F"
  unfolding cell_ok_def
proof (intro allI impI conjI)
  fix ns ns' :: "'a ns"
  assume V: "list_all (defined ns) V" and "outcome (run_all [] ns) = Inr ns'"
  then have "ns' = ns"
    by (simp del: defined_def)
  with V assms show "list_all (defined ns') F"
    by (simp only: list_all_subset)
qed (simp_all del: defined_def)

lemma cell_ok_Cons:
  assumes c: "cell_ok c R W" and R: "set R \<subseteq> set V" and cs: "cell_ok (run_all cs) (V @ W) F"
  shows "cell_ok (run_all (c # cs)) V F"
  unfolding cell_ok_def
proof (intro allI impI conjI)
  fix ns e
  assume V: "list_all (defined ns) V" and f: "outcome (run_all (c # cs) ns) = Inl e"
  from V R have Rd: "list_all (defined ns) R"
    by (rule list_all_subset)
  from f have "outcome (bind (c ns) (run_all cs)) = Inl e"
    by (simp only: run_all.simps)
  then consider "outcome (c ns) = Inl e"
    | ns1 where "outcome (c ns) = Inr ns1" "outcome (run_all cs ns1) = Inl e"
    by (rule bind_InlE)
  then show "\<exists>x. e = LibError x"
  proof cases
    case 1
    with c Rd show ?thesis by (rule cell_ok_fail)
  next
    case 2
    from c R V 2(1) have "list_all (defined ns1) (V @ W)"
      by (rule cell_ok_after)
    with cs show ?thesis using 2(2) by (rule cell_ok_fail)
  qed
next
  fix ns ns' x
  assume V: "list_all (defined ns) V" and s: "outcome (run_all (c # cs) ns) = Inr ns'"
    and x: "defined ns x"
  from V R have Rd: "list_all (defined ns) R"
    by (rule list_all_subset)
  from s have "outcome (bind (c ns) (run_all cs)) = Inr ns'"
    by (simp only: run_all.simps)
  then obtain ns1 where 1: "outcome (c ns) = Inr ns1" and 2: "outcome (run_all cs ns1) = Inr ns'"
    by (rule bind_InrE)
  from c R V 1 have a: "list_all (defined ns1) (V @ W)"
    by (rule cell_ok_after)
  from c Rd 1 x have "defined ns1 x"
    by (rule cell_ok_mono)
  with cs a 2 show "defined ns' x"
    by (rule cell_ok_mono)
next
  fix ns ns'
  assume V: "list_all (defined ns) V" and s: "outcome (run_all (c # cs) ns) = Inr ns'"
  from s have "outcome (bind (c ns) (run_all cs)) = Inr ns'"
    by (simp only: run_all.simps)
  then obtain ns1 where 1: "outcome (c ns) = Inr ns1" and 2: "outcome (run_all cs ns1) = Inr ns'"
    by (rule bind_InrE)
  from c R V 1 have a: "list_all (defined ns1) (V @ W)"
    by (rule cell_ok_after)
  with cs show "list_all (defined ns') F"
    using 2 by (rule cell_ok_writes)
qed

lemma before_assert_ok:
  "cell_ok (run_all (before_assert E)) []
     [''pd'', ''np'', ''OrdinalEncoder'', ''flags'', ''common_smoothers'', ''observers'',
      ''plot_analysis'', ''pipeline_CBClassifier'', ''data'', ''df'', ''cols_categorical'',
      ''cols_noncat'']"
  unfolding before_assert_def
  apply (rule cell_ok_Cons [OF cell_black_ok], simp)
  apply (rule cell_ok_Cons [OF cell_imports_ok], simp)
  apply (rule cell_ok_Cons [OF cell_load_ok], simp)
  apply (rule cell_ok_Cons [OF cell_split_ok], simp)
  apply (rule cell_ok_Cons [OF cell_target_ok], simp)
  apply (rule cell_ok_Cons [OF cell_show_cols_ok], simp)
  apply (rule cell_ok_Cons [OF cell_show_columns_ok], simp)
  apply (rule cell_ok_Nil, simp)
  done

lemma after_assert_ok:
  "cell_ok (run_all (after_assert E))
     [''pd'', ''np'', ''OrdinalEncoder'', ''flags'', ''common_smoothers'', ''observers'',
      ''plot_analysis'', ''pipeline_CBClassifier'', ''data'', ''df'', ''cols_categorical'',
      ''cols_noncat''] []"
  unfolding after_assert_def
  apply (rule cell_ok_Cons [OF cell_def_prepare_ok], simp)
  apply (rule cell_ok_Cons [OF cell_prepare_ok], simp)
  apply (rule cell_ok_Cons [OF cell_show_y_ok], simp)
  apply (rule cell_ok_Cons [OF cell_features_ok], simp)
  apply (rule cell_ok_Cons [OF cell_def_model_ok], simp)
  apply (rule cell_ok_Cons [OF cell_model_ok], simp)
  apply (rule cell_ok_Cons [OF cell_fit_ok], simp)
  apply (rule cell_ok_Cons [OF cell_predict_ok], simp)
  apply (rule cell_ok_Cons [OF cell_mad_ok], simp)
  apply (rule cell_ok_Cons [OF cell_score_ok], simp)
  apply (rule cell_ok_Cons [OF cell_def_plot_ok], simp)
  apply (rule cell_ok_Cons [OF cell_plot_ok], simp)
  apply (rule cell_ok_Cons [OF cell_pred_ok], simp)
  apply (rule cell_ok_Cons [OF cell_hist_ok], simp)
  apply (rule cell_ok_Nil, simp)
  done

subsection \<open>How a run can fail\<close>

lemma cell_assert_Inl:
  "outcome (cell_assert ns) = Inl e \<Longrightarrow> v_cols_noncat ns \<noteq> None \<Longrightarrow>
   v_cols_categorical ns \<noteq> None \<Longrightarrow> v_df ns \<noteq> None \<Longrightarrow>
   e = AssertionError ''Columns not in data set''"
  unfolding cell_assert_def
  by (auto elim!: fail_elims dest!: fail_dests succ_dests split: if_splits)

lemma defined_empty: "list_all (defined (empty_ns :: 'a ns)) []"
  by simp

lemma run_Inl:
  assumes "outcome (run E) = Inl e"
  shows "(\<exists>x. e = LibError x) \<or>
     (e = AssertionError ''Columns not in data set'' \<and>
      (\<exists>ns. outcome (run_all (before_assert E) empty_ns) = Inr ns \<and>
            outcome (cell_assert ns) = Inl e))"
proof -
  from assms have "outcome (bind (run_all (before_assert E) empty_ns)
      (run_all (cell_assert # after_assert E))) = Inl e"
    by (simp only: run_def notebook_assert run_all_append)
  then consider "outcome (run_all (before_assert E) empty_ns) = Inl e"
    | ns where "outcome (run_all (before_assert E) empty_ns) = Inr ns"
        "outcome (run_all (cell_assert # after_assert E) ns) = Inl e"
    by (rule bind_InlE)
  then show ?thesis
  proof cases
    case 1
    from before_assert_ok defined_empty 1 have "\<exists>x. e = LibError x"
      by (rule cell_ok_fail)
    then show ?thesis ..
  next
    case 2
    from before_assert_ok defined_empty 2(1) have V: "list_all (defined ns)
     [''pd'', ''np'', ''OrdinalEncoder'', ''flags'', ''common_smoothers'', ''observers'',
      ''plot_analysis'', ''pipeline_CBClassifier'', ''data'', ''df'', ''cols_categorical'',
      ''cols_noncat'']"
      by (rule cell_ok_writes)
    then have v: "v_cols_noncat ns \<noteq> None" "v_cols_categorical ns \<noteq> None" "v_df ns \<noteq> None"
      by (simp_all add: defined_vars)
    from 2(2) have "outcome (bind (cell_assert ns) (run_all (after_assert E))) = Inl e"
      by (simp only: run_all.simps)
    then consider "outcome (cell_assert ns) = Inl e"
      | ns' where "outcome (cell_assert ns) = Inr ns'"
          "outcome (run_all (after_assert E) ns') = Inl e"
      by (rule bind_InlE)
    then show ?thesis
    proof cases
      case 1
      from cell_assert_Inl [OF 1 v] have "e = AssertionError ''Columns not in data set''" .
      with 1 2(1) show ?thesis by blast
    next
      case 2
      from 2(1) have "ns' = ns"
        by (simp only: cell_assert_Inr)
      with 2(2) have "outcome (run_all (after_assert E) ns) = Inl e"
        by simp
      with after_assert_ok V have "\<exists>x. e = LibError x"
        by (rule cell_ok_fail)
      then show ?thesis ..
    qed
  qed
qed

lemma run_no_NameError: "outcome (run E) \<noteq> Inl (NameError v)"
proof
  assume "outcome (run E) = Inl (NameError v)"
  from run_Inl [OF this] show False
    by simp
qed

lemma cell_black_Inl:
  "outcome (cell_black E ns) = Inl e \<Longrightarrow> \<exists>x. e = LibError x \<and> \<not> is_ImportError x"
  by (auto simp: cell_black_def outcome_def Let_def ret_def raise_def
      split: sum.splits if_splits)

subsection \<open>A run is the straight-line run\<close>

subsection \<open>The notebook against the run in which nothing is caught\<close>

lemma and_then_Inr [simp]: "and_then (Inr v) f = f v"
  by (simp add: and_then_def)

lemma and_then_Inl [simp]: "and_then (Inl e) f = Inl e"
  by (simp add: and_then_def)

lemma and_then_assoc: "and_then (and_then m f) g = and_then m (\<lambda>x. and_then (f x) g)"
  by (simp add: and_then_def split: sum.splits)

lemma propagate_Inr [simp]: "propagate (Inr v) = Inr v"
  by (simp add: propagate_def)

lemma propagate_Inl [simp]: "propagate (Inl x) = Inl (LibError x)"
  by (simp add: propagate_def)

lemma outcome_bind_then: "outcome (bind m f) = and_then (outcome m) (\<lambda>v. outcome (f v))"
  by (simp add: outcome_bind and_then_def)

lemma outcome_call_propagate: "outcome (call c r) = propagate r"
  by (simp add: propagate_def)

lemma outcome_lib_propagate: "outcome (lib r) = propagate r"
  by (simp add: propagate_def)

lemma outcome_run_all_then:
  "outcome (run_all (c # cs) s) = and_then (outcome (c s)) (\<lambda>s'. outcome (run_all cs s'))"
  by (simp add: outcome_bind_then)

lemmas straight = outcome_bind_then outcome_call_propagate outcome_lib_propagate and_then_assoc

lemma cell_imports_outcome:
  "outcome (cell_imports E ns) =
     and_then (imports_of E [''pandas'', ''numpy'', ''sklearn.preprocessing'', ''sklearn.pipeline'',
         ''cyclic_boosting'', ''cyclic_boosting.plots'', ''cyclic_boosting.pipelines''])
       (\<lambda>_. Inr (ns\<lparr>bound := bound ns @ [''pd'', ''np'', ''OrdinalEncoder'', ''Pipeline'', ''flags'',
     ''common_smoothers'', ''observers'', ''binning'', ''plot_analysis'',
     ''pipeline_CBClassifier'']\<rparr>))"
  by (simp add: cell_imports_def import_stmt_def bind_names_def straight
      del: outcome_call outcome_lib)

lemma cell_load_outcome:
  "''pd'' \<in> set (bound ns) \<Longrightarrow>
   outcome (cell_load E ns) =
     and_then (propagate (import_module E ''sklearn.datasets'')) (\<lambda>_.
     and_then (propagate (fetch_openml E 1590)) (\<lambda>d.
     and_then (propagate (pd_DataFrame E (bdata d) (feature_names d))) (\<lambda>df0.
     Inr (ns\<lparr>bound := bound ns @ [''fetch_openml''], v_data := Some d, v_df := Some df0\<rparr>))))"
  by (simp add: cell_load_def import_stmt_def bind_names_def straight
      del: outcome_call outcome_lib)

lemma map_sum_and_then:
  "map_sum id g (and_then m f) = and_then m (\<lambda>x. map_sum id g (f x))"
  by (simp add: and_then_def split: sum.splits)

lemma cell_split_outcome:
  "v_df ns \<noteq> None \<Longrightarrow>
   outcome (cell_split ns) =
     Inr (ns\<lparr>v_cols_categorical := Some cols_categorical,
            v_cols_noncat := Some (cols_noncat (columns (the (v_df ns))) cols_categorical)\<rparr>)"
  by (auto simp: cell_split_def straight cols_noncat_def simp del: outcome_call outcome_lib)

lemma cell_target_outcome:
  "v_data ns \<noteq> None \<Longrightarrow> v_df ns \<noteq> None \<Longrightarrow>
   outcome (cell_target ns) = Inr (ns\<lparr>v_df := Some (labelled (the (v_df ns)) (the (v_data ns)))\<rparr>)"
  by (auto simp: cell_target_def labelled_def straight simp del: outcome_call outcome_lib)

lemma cell_show_cols_outcome:
  "v_cols_noncat ns \<noteq> None \<Longrightarrow> v_cols_categorical ns \<noteq> None \<Longrightarrow>
   outcome (cell_show_cols ns) = Inr ns"
  by (auto simp: cell_show_cols_def straight)

lemma cell_show_columns_outcome: "v_df ns \<noteq> None \<Longrightarrow> outcome (cell_show_columns ns) = Inr ns"
  by (auto simp: cell_show_columns_def straight)

lemma cell_assert_outcome:
  "v_cols_noncat ns \<noteq> None \<Longrightarrow> v_cols_categorical ns \<noteq> None \<Longrightarrow> v_df ns \<noteq> None \<Longrightarrow>
   outcome (cell_assert ns) =
     and_then (coverage_assert (the (v_cols_noncat ns)) (the (v_cols_categorical ns))
                 (columns (the (v_df ns)))) (\<lambda>_. Inr ns)"
proof -
  assume "v_cols_noncat ns \<noteq> None" "v_cols_categorical ns \<noteq> None" "v_df ns \<noteq> None"
  then obtain nc cc df0 where v: "v_cols_noncat ns = Some nc" "v_cols_categorical ns = Some cc"
    "v_df ns = Some df0"
    by fastforce
  show ?thesis
    by (simp add: cell_assert_def coverage_assert_def v outcome_bind)
qed

lemma cell_def_prepare_outcome:
  "outcome (cell_def_prepare ns) = Inr (ns\<lparr>bound := bound ns @ [''prepare_data'']\<rparr>)"
  by (simp add: cell_def_prepare_def bind_names_def)

lemma cell_prepare_outcome:
  "''prepare_data'' \<in> set (bound ns) \<Longrightarrow> ''OrdinalEncoder'' \<in> set (bound ns) \<Longrightarrow>
   ''np'' \<in> set (bound ns) \<Longrightarrow> v_df ns \<noteq> None \<Longrightarrow> v_cols_categorical ns \<noteq> None \<Longrightarrow>
   outcome (cell_prepare E ns) =
     and_then (propagate (OrdinalEncoder E ''use_encoded_value'' NaN)) (\<lambda>enc.
     and_then (propagate (df_getitem_list (the (v_df ns)) (the (v_cols_categorical ns)))) (\<lambda>sub.
     and_then (propagate (fit_transform E enc sub)) (\<lambda>a.
     and_then (propagate (df_setitem_list (the (v_df ns)) (the (v_cols_categorical ns)) a)) (\<lambda>df2.
     and_then (propagate (df_getitem df2 ''target'')) (\<lambda>y.
     and_then (propagate (df_drop df2 ''target'')) (\<lambda>X.
     Inr (ns\<lparr>v_df := Some df2, v_X := Some X, v_y := Some y\<rparr>)))))))"
  by (auto simp: cell_prepare_def prepare_data_def straight simp del: outcome_call outcome_lib)

lemma cell_show_y_outcome: "v_y ns \<noteq> None \<Longrightarrow> outcome (cell_show_y ns) = Inr ns"
  by (auto simp: cell_show_y_def straight)

lemma cell_features_outcome:
  "''flags'' \<in> set (bound ns) \<Longrightarrow> v_cols_categorical ns \<noteq> None \<Longrightarrow> v_cols_noncat ns \<noteq> None \<Longrightarrow>
   outcome (cell_features E ns) =
     Inr (ns\<lparr>v_features := Some (features (the (v_cols_categorical ns)) (the (v_cols_noncat ns))),
            v_feature_properties :=
              Some (feature_properties E (the (v_cols_categorical ns)) (the (v_cols_noncat ns)))\<rparr>)"
  by (auto simp: cell_features_def straight)

lemma cell_def_model_outcome:
  "outcome (cell_def_model ns) = Inr (ns\<lparr>bound := bound ns @ [''cb_classifier_model'']\<rparr>)"
  by (simp add: cell_def_model_def bind_names_def)

lemma cell_model_outcome:
  "''cb_classifier_model'' \<in> set (bound ns) \<Longrightarrow> ''observers'' \<in> set (bound ns) \<Longrightarrow>
   ''pipeline_CBClassifier'' \<in> set (bound ns) \<Longrightarrow> ''common_smoothers'' \<in> set (bound ns) \<Longrightarrow>
   v_feature_properties ns \<noteq> None \<Longrightarrow> v_features ns \<noteq> None \<Longrightarrow>
   outcome (cell_model E ns) =
     and_then (propagate (PlottingObserver E (- 1))) (\<lambda>p.
     and_then (propagate (SmootherChoiceGroupBy E True False)) (\<lambda>sm.
     and_then (propagate (pipeline_CBClassifier E (the (v_feature_properties ns))
        (the (v_features ns)) [p] 50 10 sm)) (\<lambda>est0.
     Inr (ns\<lparr>v_CB_est := Some est0\<rparr>))))"
  by (auto simp: cell_model_def cb_classifier_model_def straight
      simp del: outcome_call outcome_lib)

lemma fit_once_outcome:
  "v_CB_est ns = Some est \<Longrightarrow> v_X ns = Some X \<Longrightarrow> v_y ns = Some y \<Longrightarrow>
   outcome (fit_once E ns) =
     and_then (propagate (est_fit E est X y)) (\<lambda>est'. Inr (ns\<lparr>v_CB_est := Some est'\<rparr>))"
  by (simp add: fit_once_def straight del: outcome_call outcome_lib)

lemma fit_loop_outcome:
  "v_CB_est ns = Some est \<Longrightarrow> v_X ns = Some X \<Longrightarrow> v_y ns = Some y \<Longrightarrow>
   outcome (run_all (replicate k (fit_once E)) ns) =
     and_then (fit_times E k est X y) (\<lambda>est'. Inr (ns\<lparr>v_CB_est := Some est'\<rparr>))"
proof (induction k arbitrary: ns est)
  case 0
  then have "ns\<lparr>v_CB_est := Some est\<rparr> = ns"
    by (cases ns) simp
  then show ?case by simp
next
  case (Suc k)
  have "outcome (run_all (replicate (Suc k) (fit_once E)) ns) =
      and_then (outcome (fit_once E ns)) (\<lambda>s'. outcome (run_all (replicate k (fit_once E)) s'))"
    by (simp only: replicate.simps outcome_run_all_then)
  also have "\<dots> = and_then (propagate (est_fit E est X y))
      (\<lambda>est'. outcome (run_all (replicate k (fit_once E)) (ns\<lparr>v_CB_est := Some est'\<rparr>)))"
    by (simp add: fit_once_outcome [OF Suc.prems] and_then_assoc)
  also have "\<dots> = and_then (propagate (est_fit E est X y))
      (\<lambda>est'. and_then (fit_times E k est' X y) (\<lambda>est''. Inr (ns\<lparr>v_CB_est := Some est''\<rparr>)))"
    using Suc.prems by (simp add: Suc.IH)
  finally show ?case
    by (simp add: and_then_assoc)
qed

lemma cell_fit_outcome:
  "v_CB_est ns \<noteq> None \<Longrightarrow> v_X ns \<noteq> None \<Longrightarrow> v_y ns \<noteq> None \<Longrightarrow>
   outcome (cell_fit E ns) =
     and_then (fit_times E (Suc (timeit_extra_loops E)) (the (v_CB_est ns)) (the (v_X ns))
        (the (v_y ns))) (\<lambda>est'. Inr (ns\<lparr>v_CB_est := Some est'\<rparr>))"
  unfolding cell_fit_def
  by (rule fit_loop_outcome) simp_all

lemma cell_predict_outcome:
  "v_CB_est ns \<noteq> None \<Longrightarrow> v_X ns \<noteq> None \<Longrightarrow>
   outcome (cell_predict E ns) =
     and_then (propagate (est_predict_proba E (the (v_CB_est ns)) (the (v_X ns)))) (\<lambda>yh.
     Inr (ns\<lparr>v_yhat := Some yh\<rparr>))"
  by (auto simp: cell_predict_def straight simp del: outcome_call outcome_lib)

lemma cell_mad_outcome:
  "''np'' \<in> set (bound ns) \<Longrightarrow> v_y ns \<noteq> None \<Longrightarrow> v_yhat ns \<noteq> None \<Longrightarrow>
   outcome (cell_mad ns) =
     and_then (propagate (column_of (the (v_yhat ns)) 0)) (\<lambda>p0.
     and_then (propagate (np_sub (the (v_y ns)) p0)) (\<lambda>dif.
     and_then (propagate (np_abs dif)) (\<lambda>dev.
     and_then (propagate (np_nanmean dev)) (\<lambda>m.
     Inr (ns\<lparr>v_mad := Some m\<rparr>)))))"
  by (auto simp: cell_mad_def mad_of_def straight simp del: outcome_call outcome_lib)

lemma cell_score_outcome:
  "v_CB_est ns \<noteq> None \<Longrightarrow> v_X ns \<noteq> None \<Longrightarrow> v_y ns \<noteq> None \<Longrightarrow>
   outcome (cell_score E ns) =
     and_then (propagate (est_score E (the (v_CB_est ns)) (the (v_X ns)) (the (v_y ns))))
       (\<lambda>_. Inr ns)"
  by (auto simp: cell_score_def straight simp del: outcome_call outcome_lib)

lemma cell_def_plot_outcome:
  "outcome (cell_def_plot ns) = Inr (ns\<lparr>bound := bound ns @ [''plot_CB'']\<rparr>)"
  by (simp add: cell_def_plot_def bind_names_def)

lemma str_of_nat_0: "str_of_nat 0 = ''0''"
  by simp

lemma cell_plot_outcome:
  "''plot_CB'' \<in> set (bound ns) \<Longrightarrow> ''plot_analysis'' \<in> set (bound ns) \<Longrightarrow>
   v_CB_est ns \<noteq> None \<Longrightarrow>
   outcome (cell_plot E ns) =
     and_then (propagate (est_getitem E (the (v_CB_est ns)) (- 1))) (\<lambda>cb.
     and_then (propagate (est_observers E cb)) (\<lambda>obs.
     and_then (propagate (py_last obs)) (\<lambda>po.
     and_then (propagate (est_getitem E (the (v_CB_est ns)) (- 2))) (\<lambda>binner.
     and_then (propagate (plot_analysis E po ''analysis_CB_iterlast_0'' False [binner])) (\<lambda>_.
     Inr ns)))))"
  by (auto simp: cell_plot_def plot_CB_def straight str_of_nat_0
      simp del: outcome_call outcome_lib str_of_nat.simps)

lemma cell_pred_outcome:
  "v_yhat ns \<noteq> None \<Longrightarrow> v_df ns \<noteq> None \<Longrightarrow>
   outcome (cell_pred ns) =
     and_then (propagate (column_of (the (v_yhat ns)) 0)) (\<lambda>p0.
     and_then (propagate (df_setitem_array (the (v_df ns)) ''pred'' p0)) (\<lambda>df3.
     Inr (ns\<lparr>v_df := Some df3\<rparr>)))"
  by (auto simp: cell_pred_def straight simp del: outcome_call outcome_lib)

lemma cell_hist_outcome:
  "v_df ns \<noteq> None \<Longrightarrow>
   outcome (cell_hist E ns) =
     and_then (propagate (df_getitem (the (v_df ns)) ''target'')) (\<lambda>t.
     and_then (propagate (collect (map cell_gt0 t))) (\<lambda>m.
     and_then (propagate (df_getitem (mask_rows (the (v_df ns)) m) ''pred'')) (\<lambda>s1.
     and_then (propagate (series_hist E s1 True (1 / 2) None)) (\<lambda>ax.
     and_then (propagate (df_getitem (the (v_df ns)) ''target'')) (\<lambda>t'.
     and_then (propagate (df_getitem (mask_rows (the (v_df ns)) (map cell_eq0 t')) ''pred'')) (\<lambda>s0.
     and_then (propagate (series_hist E s0 True (1 / 2) (Some ax))) (\<lambda>_.
     Inr (ns\<lparr>v_ax := Some ax\<rparr>))))))))"
  by (auto simp: cell_hist_def straight simp del: outcome_call outcome_lib)

lemma outcome_run_all_Nil: "outcome (run_all [] s) = Inr s"
  by (simp add: outcome_ret)

lemmas cell_outcomes =
  cell_imports_outcome cell_load_outcome cell_split_outcome cell_target_outcome
  cell_show_cols_outcome cell_show_columns_outcome cell_assert_outcome cell_def_prepare_outcome
  cell_prepare_outcome cell_show_y_outcome cell_features_outcome cell_def_model_outcome
  cell_model_outcome cell_fit_outcome cell_predict_outcome cell_mad_outcome cell_score_outcome
  cell_def_plot_outcome cell_plot_outcome cell_pred_outcome cell_hist_outcome

lemma rest_outcome:
  "map_sum id (\<lambda>_. ()) (outcome (run_all (tl (notebook E)) (empty_ns\<lparr>bound := b\<rparr>))) =
   uncaught_rest E"
  by (simp add: notebook_def uncaught_rest_def uncaught_after_def empty_ns_def outcome_run_all_then
      outcome_run_all_Nil cell_outcomes and_then_assoc map_sum_and_then
      del: run_all.simps)

lemma cell_black_outcome:
  "\<exists>b. outcome (cell_black E ns) = and_then (optional_black E) (\<lambda>_. Inr (ns\<lparr>bound := b\<rparr>))"
proof (cases "import_module E ''jupyter_black''")
  case (Inl x)
  then have "outcome (cell_black E ns) =
      and_then (optional_black E) (\<lambda>_. Inr (ns\<lparr>bound := bound ns\<rparr>))"
    by (simp add: cell_black_def optional_black_def outcome_def raise_def ret_def)
  then show ?thesis ..
next
  case (Inr u)
  then have "outcome (cell_black E ns) =
      and_then (optional_black E) (\<lambda>_. Inr (ns\<lparr>bound := bound ns @ [''jupyter_black'']\<rparr>))"
    by (simp add: cell_black_def optional_black_def outcome_def bind_names_def
        split: sum.splits)
  then show ?thesis ..
qed

lemma run_outcome: "map_sum id (\<lambda>_. ()) (outcome (run E)) = uncaught_run E"
proof -
  obtain b where b: "outcome (cell_black E empty_ns) =
      and_then (optional_black E) (\<lambda>_. Inr (empty_ns\<lparr>bound := b\<rparr>))"
    using cell_black_outcome [of E empty_ns] by (auto simp: empty_ns_def)
  have "notebook E = cell_black E # tl (notebook E)"
    by (simp add: notebook_def)
  then have "outcome (run E) =
      and_then (outcome (cell_black E empty_ns)) (\<lambda>s. outcome (run_all (tl (notebook E)) s))"
    unfolding run_def by (metis outcome_run_all_then)
  then show ?thesis
    by (simp add: b and_then_assoc map_sum_and_then rest_outcome uncaught_run_def)
qed

lemma and_then_eq_Inl:
  "and_then r f = Inl e \<longleftrightarrow> r = Inl e \<or> (\<exists>v. r = Inr v \<and> f v = Inl e)"
  by (cases r) simp_all

lemma propagate_not_assertion: "propagate r \<noteq> Inl (AssertionError m)"
  by (cases r) simp_all

lemma optional_black_not_assertion: "optional_black E \<noteq> Inl (AssertionError m)"
  by (simp add: optional_black_def split: sum.splits)

lemma imports_of_not_assertion: "imports_of E ms \<noteq> Inl (AssertionError m)"
  by (induction ms) (simp_all add: and_then_eq_Inl propagate_not_assertion)

lemma prefix_passes:
  "and_then b (\<lambda>_. and_then i k) = Inl e \<Longrightarrow> b \<noteq> Inl e \<Longrightarrow> i \<noteq> Inl e \<Longrightarrow>
   b = Inr () \<and> i = Inr ()"
  by (cases b; cases i) simp_all

lemma propagate_eq_Inr: "propagate r = Inr v \<longleftrightarrow> r = Inr v"
  by (cases r) simp_all

lemma coverage_assert_labelled:
  "coverage_assert (cols_noncat (columns df0) cols_categorical) cols_categorical
     (columns (labelled df0 d)) =
   (if set cols_categorical \<subseteq> set (columns df0) then Inr ()
    else Inl (AssertionError ''Columns not in data set''))"
proof -
  have cs: "set (columns (labelled df0 d)) = insert ''target'' (set (columns df0))"
    by (simp add: labelled_def set_columns_setitem_series)
  then have sub: "set (columns df0) \<subseteq> set (columns (labelled df0 d))"
    by auto
  have "uncovered (cols_noncat (columns df0) cols_categorical) cols_categorical
      (columns (labelled df0 d)) = {} \<longleftrightarrow> set cols_categorical \<subseteq> set (columns df0)"
    using uncovered_empty_iff [OF sub, of cols_categorical] cs target_not_categorical
    by auto
  then show ?thesis
    by (simp add: coverage_assert_def)
qed

lemma unit_outcome_Inl: "map_sum id (\<lambda>_. ()) r = Inl e \<longleftrightarrow> r = Inl e"
  by (cases r) simp_all

lemma assertion_surfaces_iff:
  "outcome (run E) = Inl (AssertionError ''Columns not in data set'') \<longleftrightarrow>
   optional_black E = Inr () \<and>
   imports_of E
     [''pandas'', ''numpy'', ''sklearn.preprocessing'', ''sklearn.pipeline'',
      ''cyclic_boosting'', ''cyclic_boosting.plots'', ''cyclic_boosting.pipelines'',
      ''sklearn.datasets''] = Inr () \<and>
   (\<exists>d df0. fetch_openml E 1590 = Inr d \<and>
      pd_DataFrame E (bdata d) (feature_names d) = Inr df0 \<and>
      (\<exists>c\<in>set cols_categorical. c \<notin> set (columns df0)))"
  (is "?L \<longleftrightarrow> ?B \<and> ?I \<and> ?M")
proof
  assume L: ?L
  from run_Inl [OF L] obtain ns where b: "outcome (run_all (before_assert E) empty_ns) = Inr ns"
    and f: "outcome (cell_assert ns) = Inl (AssertionError ''Columns not in data set'')"
    by auto
  from assert_outcome [OF b] f have M: ?M
    by (elim exE conjE) (intro exI conjI, assumption, assumption, simp)
  from L have "map_sum id (\<lambda>_. ()) (outcome (run E)) =
      Inl (AssertionError ''Columns not in data set'')"
    by simp
  then have "uncaught_run E = Inl (AssertionError ''Columns not in data set'')"
    by (simp only: run_outcome)
  then have "?B \<and> ?I"
    unfolding uncaught_run_def uncaught_rest_def
    by (rule prefix_passes) (rule optional_black_not_assertion imports_of_not_assertion)+
  with M show "?B \<and> ?I \<and> ?M" by simp
next
  assume R: "?B \<and> ?I \<and> ?M"
  then obtain d df0 where d: "fetch_openml E 1590 = Inr d"
    and df0: "pd_DataFrame E (bdata d) (feature_names d) = Inr df0"
    and c: "\<not> set cols_categorical \<subseteq> set (columns df0)"
    by blast
  from R have B: "optional_black E = Inr ()" and I: "imports_of E
     [''pandas'', ''numpy'', ''sklearn.preprocessing'', ''sklearn.pipeline'',
      ''cyclic_boosting'', ''cyclic_boosting.plots'', ''cyclic_boosting.pipelines'',
      ''sklearn.datasets''] = Inr ()"
    by simp_all
  have "uncaught_run E = Inl (AssertionError ''Columns not in data set'')"
    unfolding uncaught_run_def uncaught_rest_def
    by (simp add: B I d df0 c coverage_assert_labelled del: imports_of.simps)
  then have "map_sum id (\<lambda>_. ()) (outcome (run E)) =
      Inl (AssertionError ''Columns not in data set'')"
    by (simp only: run_outcome)
  then show ?L
    by (simp only: unit_outcome_Inl)
qed

lemma run_missing_fails:
  "outcome (run E_missing) = Inl (AssertionError ''Columns not in data set'')"
proof -
  have "case outcome (run E_missing) of
          Inl e \<Rightarrow> e = AssertionError ''Columns not in data set'' | Inr _ \<Rightarrow> False"
    by code_simp
  then show ?thesis
    by (cases "outcome (run E_missing)") simp_all
qed

text \<open>
  C3. The claim says that every failure of the notebook surfaces as an exception raised by
  an external library. That does not hold: for a data set without the column \<^verbatim>\<open>sex\<close>
  (neither among the feature names nor in the frame) the run ends with the
  \<^verbatim>\<open>AssertionError\<close> of the notebook's own \<^verbatim>\<open>assert\<close>, which no library raises.
\<close>

theorem C3_counterexample:
  "outcome (run E_missing) = Inl (AssertionError ''Columns not in data set'') \<and>
   feature_names (projr (fetch_openml E_missing 1590)) = columns df_missing \<and>
   pd_DataFrame E_missing 0 (columns df_missing) = Inr df_missing \<and>
   ''sex'' \<notin> set (columns df_missing)"
proof -
  have "''sex'' \<notin> set (columns df_missing)"
    by code_simp
  then show ?thesis
    using run_missing_fails by (simp add: E_missing_def)
qed

text \<open>
  C3, as it holds. How a run ends is how the straight-line run \<^const>\<open>uncaught_run\<close> ends,
  in which every call into a package hands its exception on unchanged and nothing is caught
  but an \<^verbatim>\<open>ImportError\<close> of the first cell, raised by \<^verbatim>\<open>import jupyter_black\<close> or by
  \<^verbatim>\<open>jupyter_black.load()\<close>: so no cell of preprocessing, fitting, prediction or plotting
  swallows or replaces an exception of a package. A run that fails ends with an exception of a
  package or with the \<^verbatim>\<open>AssertionError\<close> of the notebook's column-coverage \<^verbatim>\<open>assert\<close>, and
  it ends with that \<^verbatim>\<open>AssertionError\<close> exactly when the first cell passes, every import,
  the download and the construction of the frame succeed, and one of the listed categorical
  columns is not a column of the frame.
\<close>

theorem C3_failures_surface_uncaught:
  "map_sum id (\<lambda>_. ()) (outcome (run E)) = uncaught_run E \<and>
   (\<forall>e. outcome (run E) = Inl e \<longrightarrow>
      (\<exists>x. e = LibError x) \<or> e = AssertionError ''Columns not in data set'') \<and>
   (outcome (run E) = Inl (AssertionError ''Columns not in data set'') \<longleftrightarrow>
      optional_black E = Inr () \<and>
      imports_of E
        [''pandas'', ''numpy'', ''sklearn.preprocessing'', ''sklearn.pipeline'',
         ''cyclic_boosting'', ''cyclic_boosting.plots'', ''cyclic_boosting.pipelines'',
         ''sklearn.datasets''] = Inr () \<and>
      (\<exists>d df0. fetch_openml E 1590 = Inr d \<and>
         pd_DataFrame E (bdata d) (feature_names d) = Inr df0 \<and>
         (\<exists>c\<in>set cols_categorical. c \<notin> set (columns df0))))"
proof (intro conjI allI impI)
  show "map_sum id (\<lambda>_. ()) (outcome (run E)) = uncaught_run E"
    by (rule run_outcome)
next
  fix e
  assume "outcome (run E) = Inl e"
  from run_Inl [OF this]
  show "(\<exists>x. e = LibError x) \<or> e = AssertionError ''Columns not in data set''"
    by blast
next
  show "outcome (run E) = Inl (AssertionError ''Columns not in data set'') \<longleftrightarrow>
      optional_black E = Inr () \<and>
      imports_of E
        [''pandas'', ''numpy'', ''sklearn.preprocessing'', ''sklearn.pipeline'',
         ''cyclic_boosting'', ''cyclic_boosting.plots'', ''cyclic_boosting.pipelines'',
         ''sklearn.datasets''] = Inr () \<and>
      (\<exists>d df0. fetch_openml E 1590 = Inr d \<and>
         pd_DataFrame E (bdata d) (feature_names d) = Inr df0 \<and>
         (\<exists>c\<in>set cols_categorical. c \<notin> set (columns df0)))"
    by (rule assertion_surfaces_iff)
qed

theorem C3_witness:
  "uncaught_run E_fit_fails = Inl (LibError ValueError) \<and>
   outcome (run E_fit_fails) = Inl (LibError ValueError) \<and>
   est_fit E_fit_fails 4 df_ex [] = Inl ValueError"
proof -
  have u: "uncaught_run E_fit_fails = Inl (LibError ValueError)"
    by code_simp
  have "map_sum id (\<lambda>_. ()) (outcome (run E_fit_fails)) = uncaught_run E_fit_fails"
    using C3_failures_surface_uncaught [of E_fit_fails] by (rule conjunct1)
  with u have "outcome (run E_fit_fails) = Inl (LibError ValueError)"
    by (simp add: unit_outcome_Inl)
  with u show ?thesis
    by (simp add: E_fit_fails_def)
qed

subsection \<open>The calls a run makes\<close>

lemma bind_assoc: "bind (bind m f) g = bind m (\<lambda>x. bind (f x) g)"
  by (simp add: bind_def split: prod.splits sum.splits)

lemma bind_ret: "bind (ret x) f = f x"
  by (simp add: bind_def ret_def split: prod.splits)

lemma logs_ret: "logs (ret x) []"
  by (simp add: logs_def trace_ret)

lemma logs_raise: "logs (raise e) t"
  by (simp add: logs_def trace_raise outcome_raise)

lemma logs_call: "logs (call c r) [c]"
  by (simp add: logs_def trace_call)

lemma logs_bind:
  assumes m: "logs m t" and f: "\<And>v. logs (f v) t'"
  shows "logs (bind m f) (t @ t')"
proof (cases "outcome m")
  case (Inl e)
  with m show ?thesis
    by (simp add: logs_def trace_bind outcome_bind prefix_prefix)
next
  case (Inr v)
  with m f [of v] show ?thesis
    by (simp add: logs_def trace_bind outcome_bind)
qed

lemma logs_bind_call: "(\<And>v. logs (f v) t) \<Longrightarrow> logs (bind (call c r) f) (c # t)"
  using logs_bind [OF logs_call, of f t c r] by simp

lemma logs_silent: "trace m = [] \<Longrightarrow> (\<And>v. logs (f v) t) \<Longrightarrow> logs (bind m f) t"
  by (cases "outcome m") (simp_all add: logs_def trace_bind outcome_bind)

lemma logs_bind_lib: "(\<And>v. logs (f v) t) \<Longrightarrow> logs (bind (lib r) f) t"
  by (rule logs_silent) (simp_all add: trace_lib)

lemma logs_bind_rd: "(\<And>v. logs (f v) t) \<Longrightarrow> logs (bind (rd n x) f) t"
  by (rule logs_silent) (simp_all add: trace_rd)

lemma logs_bind_need: "(\<And>v. logs (f v) t) \<Longrightarrow> logs (bind (need ns n) f) t"
  by (rule logs_silent) (simp_all add: trace_need)

lemma logs_bind_ret: "logs (f x) t \<Longrightarrow> logs (bind (ret x) f) t"
  by (simp add: bind_ret)

lemma logs_bind_bind: "logs (bind m (\<lambda>x. bind (f x) g)) t \<Longrightarrow> logs (bind (bind m f) g) t"
  by (simp add: bind_assoc)

lemma logs_if: "logs a t \<Longrightarrow> logs b t \<Longrightarrow> logs (if c then a else b) t"
  by simp

lemma logs_bind_if:
  "logs (bind a f) t \<Longrightarrow> logs (bind b f) t \<Longrightarrow> logs (bind (if c then a else b) f) t"
  by simp

lemma logs_run_all_Nil: "logs (run_all [] s) []"
  by (simp add: logs_ret)

lemma logs_run_all_Cons: "logs (bind (c s) (run_all cs)) t \<Longrightarrow> logs (run_all (c # cs) s) t"
  by simp

lemmas logs_intros =
  logs_bind_call logs_bind_lib logs_bind_rd logs_bind_need logs_bind_ret logs_bind_bind
  logs_bind_if logs_if logs_ret logs_raise logs_call logs_run_all_Nil logs_run_all_Cons

lemma emitsI: "(\<And>s. logs (c s) t) \<Longrightarrow> emits c t"
  by (simp add: emits_def logs_def)

lemma emits_logs: "emits c t \<Longrightarrow> logs (c s) t"
  by (simp add: emits_def logs_def)

lemma emits_Nil: "emits (run_all []) []"
  by (rule emitsI) (rule logs_run_all_Nil)

lemma emits_Cons:
  assumes c: "emits c t" and cs: "emits (run_all cs) t'"
  shows "emits (run_all (c # cs)) (t @ t')"
proof (rule emitsI)
  fix s
  have "logs (bind (c s) (run_all cs)) (t @ t')"
    by (rule logs_bind) (rule emits_logs [OF c], rule emits_logs [OF cs])
  then show "logs (run_all (c # cs) s) (t @ t')"
    by simp
qed

lemma cell_black_emits: "emits (cell_black E) (black_calls E)"
  by (rule emitsI)
    (auto simp: logs_def cell_black_def black_calls_def trace_def outcome_def ret_def raise_def
      Let_def split: sum.splits if_splits)

lemma cell_imports_emits: "emits (cell_imports E) []"
  unfolding cell_imports_def import_stmt_def
  by (rule emitsI) (intro logs_intros)

lemma cell_load_emits: "emits (cell_load E) [Fetch_openml, Pd_DataFrame]"
  unfolding cell_load_def import_stmt_def
  by (rule emitsI) (intro logs_intros)

lemma cell_split_emits: "emits cell_split []"
  unfolding cell_split_def
  by (rule emitsI) (intro logs_intros)

lemma cell_target_emits: "emits cell_target [Series_eq, Series_mul]"
  by (rule emitsI) (unfold cell_target_def, intro logs_intros)

lemma cell_show_cols_emits: "emits cell_show_cols []"
  by (rule emitsI) (unfold cell_show_cols_def, intro logs_intros)

lemma cell_show_columns_emits: "emits cell_show_columns []"
  by (rule emitsI) (unfold cell_show_columns_def, intro logs_intros)

lemma cell_assert_emits: "emits cell_assert []"
  by (rule emitsI) (unfold cell_assert_def, intro logs_intros)

lemma cell_def_prepare_emits: "emits cell_def_prepare []"
  by (rule emitsI) (unfold cell_def_prepare_def, intro logs_intros)

lemma cell_prepare_emits:
  "emits (cell_prepare E) [OrdinalEncoder_new, Enc_fit_transform, Np_asarray, Df_drop]"
  by (rule emitsI) (unfold cell_prepare_def prepare_data_def, intro logs_intros)

lemma cell_show_y_emits: "emits cell_show_y []"
  by (rule emitsI) (unfold cell_show_y_def, intro logs_intros)

lemma cell_features_emits: "emits (cell_features E) []"
  unfolding cell_features_def
  by (rule emitsI) (intro logs_intros)

lemma cell_def_model_emits: "emits cell_def_model []"
  by (rule emitsI) (unfold cell_def_model_def, intro logs_intros)

lemma cb_classifier_model_logs:
  "logs (bind (cb_classifier_model E ns) f)
     [PlottingObserver_new, SmootherChoiceGroupBy_new, Pipeline_CBClassifier]"
  if "\<And>v. logs (f v) []"
  unfolding cb_classifier_model_def
  by (intro logs_intros that)

lemma cell_model_emits:
  "emits (cell_model E) [PlottingObserver_new, SmootherChoiceGroupBy_new, Pipeline_CBClassifier]"
  unfolding cell_model_def
  by (rule emitsI) (intro logs_intros cb_classifier_model_logs)

lemma fit_once_emits: "emits (fit_once E) [X_copy_fit, Est_fit]"
  by (rule emitsI) (unfold fit_once_def, intro logs_intros)

lemma replicate_emits:
  "emits c t \<Longrightarrow> emits (run_all (replicate k c)) (concat (replicate k t))"
proof (induction k)
  case 0
  show ?case by (simp only: replicate.simps concat.simps emits_Nil)
next
  case (Suc k)
  from Suc.prems Suc.IH [OF Suc.prems]
  have "emits (run_all (c # replicate k c)) (t @ concat (replicate k t))"
    by (rule emits_Cons)
  then show ?case by (simp only: replicate.simps concat.simps)
qed

lemma cell_fit_emits: "emits (cell_fit E) (fit_calls E)"
  unfolding cell_fit_def fit_calls_def
  by (rule replicate_emits) (rule fit_once_emits)

lemma cell_predict_emits: "emits (cell_predict E) [X_copy_predict, Est_predict_proba]"
  by (rule emitsI) (unfold cell_predict_def, intro logs_intros)

lemma cell_mad_emits: "emits cell_mad [Np_abs, Np_nanmean]"
  unfolding cell_mad_def mad_of_def
  by (rule emitsI) (intro logs_intros)

lemma cell_score_emits: "emits (cell_score E) [Est_score]"
  by (rule emitsI) (unfold cell_score_def, intro logs_intros)

lemma cell_def_plot_emits: "emits cell_def_plot []"
  by (rule emitsI) (unfold cell_def_plot_def, intro logs_intros)

lemma cell_plot_emits: "emits (cell_plot E) [Plot_analysis]"
  by (rule emitsI)
    (unfold cell_plot_def plot_CB_def plot_loop.simps, intro logs_intros)

lemma cell_pred_emits: "emits cell_pred []"
  by (rule emitsI) (unfold cell_pred_def, intro logs_intros)

lemma cell_hist_emits: "emits (cell_hist E) [Hist_positive, Hist_zero]"
  unfolding cell_hist_def
  by (rule emitsI) (intro logs_intros)

lemma notebook_emits: "emits (run_all (notebook E)) (canonical_calls E)"
proof -
  have "emits (run_all (notebook E))
     (black_calls E @ [] @ [Fetch_openml, Pd_DataFrame] @ [] @ [Series_eq, Series_mul] @ []
      @ [] @ [] @ [] @ [OrdinalEncoder_new, Enc_fit_transform, Np_asarray, Df_drop] @ [] @ []
      @ [] @ [PlottingObserver_new, SmootherChoiceGroupBy_new, Pipeline_CBClassifier]
      @ fit_calls E @ [X_copy_predict, Est_predict_proba] @ [Np_abs, Np_nanmean] @ [Est_score]
      @ [] @ [Plot_analysis] @ [] @ [Hist_positive, Hist_zero] @ [])"
    unfolding notebook_def
    by (intro emits_Cons emits_Nil cell_black_emits cell_imports_emits cell_load_emits
        cell_split_emits cell_target_emits cell_show_cols_emits cell_show_columns_emits
        cell_assert_emits cell_def_prepare_emits cell_prepare_emits cell_show_y_emits
        cell_features_emits cell_def_model_emits cell_model_emits cell_fit_emits
        cell_predict_emits cell_mad_emits cell_score_emits cell_def_plot_emits
        cell_plot_emits cell_pred_emits cell_hist_emits)
  then show ?thesis
    by (simp add: canonical_calls_def)
qed

lemma run_trace_prefix: "prefix (trace (run E)) (canonical_calls E)"
  using emits_logs [OF notebook_emits, of E empty_ns] by (simp add: run_def logs_def)

lemma run_trace: "outcome (run E) = Inr ns \<Longrightarrow> trace (run E) = canonical_calls E"
  using emits_logs [OF notebook_emits, of E empty_ns] by (simp add: run_def logs_def)

subsection \<open>The order of the steps\<close>

lemma set_concat_replicate: "set (concat (replicate k xs)) \<subseteq> set xs"
  by (induction k) auto

lemma fit_calls_step: "c \<in> set (fit_calls E) \<Longrightarrow> step_index (step_of c) = 4"
  using set_concat_replicate [of "Suc (timeit_extra_loops E)" "[X_copy_fit, Est_fit]"]
  unfolding fit_calls_def by auto

lemma sorted_constant: "(\<And>x. x \<in> set xs \<Longrightarrow> f x = (c :: nat)) \<Longrightarrow> sorted (map f xs)"
  by (induction xs) auto

lemma steps_sorted: "sorted (map (step_index \<circ> step_of) (canonical_calls E))"
proof -
  have "sorted (map (step_index \<circ> step_of) (fit_calls E))"
    by (rule sorted_constant [where c = 4]) (simp add: fit_calls_step)
  then show ?thesis
    by (auto simp: canonical_calls_def black_calls_def sorted_append fit_calls_step
        split: sum.splits)
qed

lemma steps_present:
  "{Load, Preprocess, Construct, Fit, Evaluate, Plot} \<subseteq> step_of ` set (canonical_calls E)"
  by (simp add: canonical_calls_def fit_calls_def image_Un)

text \<open>
  C4. The notebook is a linear sequence of steps. Its calls into the packages are, in every
  run, an initial part of one fixed list, and the whole list when the run reaches its end;
  in that list the steps come in the order load, preprocess (binarise the target, encode the
  categorical columns), construct the pipeline, fit, predict and score, plot, each of them
  at least once; and no run stops with a \<^verbatim>\<open>NameError\<close>: no cell reads a name before the
  cell that assigns it has run.
\<close>

theorem C4_linear_sequence_of_steps:
  "prefix (trace (run E)) (canonical_calls E) \<and>
   (\<forall>ns. outcome (run E) = Inr ns \<longrightarrow> trace (run E) = canonical_calls E) \<and>
   sorted (map (step_index \<circ> step_of) (canonical_calls E)) \<and>
   {Load, Preprocess, Construct, Fit, Evaluate, Plot} \<subseteq> step_of ` set (canonical_calls E) \<and>
   (\<forall>v. outcome (run E) \<noteq> Inl (NameError v))"
  using run_trace_prefix [of E] run_trace [of E] steps_sorted [of E] steps_present [of E]
    run_no_NameError [of E]
  by blast

theorem C4_witness:
  "\<exists>ns. outcome (run E_ex) = Inr ns \<and>
     trace (run E_ex) =
       [Jupyter_black_load, Fetch_openml, Pd_DataFrame, Series_eq, Series_mul,
        OrdinalEncoder_new, Enc_fit_transform, Np_asarray, Df_drop, PlottingObserver_new,
        SmootherChoiceGroupBy_new, Pipeline_CBClassifier, X_copy_fit, Est_fit, X_copy_fit,
        Est_fit, X_copy_predict, Est_predict_proba, Np_abs, Np_nanmean, Est_score,
        Plot_analysis, Hist_positive, Hist_zero]"
proof -
  from run_ex_succeeds obtain ns where ns: "outcome (run E_ex) = Inr ns"
    by blast
  have c: "canonical_calls E_ex =
       [Jupyter_black_load, Fetch_openml, Pd_DataFrame, Series_eq, Series_mul,
        OrdinalEncoder_new, Enc_fit_transform, Np_asarray, Df_drop, PlottingObserver_new,
        SmootherChoiceGroupBy_new, Pipeline_CBClassifier, X_copy_fit, Est_fit, X_copy_fit,
        Est_fit, X_copy_predict, Est_predict_proba, Np_abs, Np_nanmean, Est_score,
        Plot_analysis, Hist_positive, Hist_zero]"
    by code_simp
  from C4_linear_sequence_of_steps [of E_ex] ns have "trace (run E_ex) = canonical_calls E_ex"
    by blast
  with ns c show ?thesis
    by simp
qed

end
